theory Spec2Isabelle
  imports Main "HOL-Library.Sublist" "HOL-Library.AList"
begin

section \<open>JavaScript values and the built-ins the scripts rely on\<close>

text \<open>
  The installer (\<^verbatim>\<open>scripts/install.cjs\<close>) and the verifier (the \<^verbatim>\<open>verify\<close> script
  that follows the installation guide) are two Node classes. Their method bodies are
  strict-mode code (class bodies always are), they read and write JSON documents, call
  the file system and run external commands with \<^verbatim>\<open>execSync\<close>.

  A value produced by \<^verbatim>\<open>JSON.parse\<close> is null, a boolean, a number, a string, an array
  or an object. Numbers are kept abstract (type \<open>'n\<close>); only the test for zero is
  needed, for truthiness. An object is an association list in property order. An array
  carries, next to its elements, the named properties assigned to it: JavaScript
  allows \<^verbatim>\<open>arr.mcpServers = {}\<close>, and \<^verbatim>\<open>JSON.stringify\<close> does not print such properties.
\<close>

datatype 'n json =
    JNull
  | JBool bool
  | JNum 'n
  | JStr string
  | JArr "'n json list" "(string \<times> 'n json) list"
  | JObj "(string \<times> 'n json) list"

text \<open>An exception value; only its \<^verbatim>\<open>message\<close> is ever inspected by the scripts.\<close>

datatype js_error = JsError string

fun message :: "js_error \<Rightarrow> string" where
  "message (JsError m) = m"

text \<open>
  The built-ins of the Node runtime that the scripts call and that are not code of the
  repository: \<^verbatim>\<open>JSON.parse\<close> (\<open>Inl\<close> is the SyntaxError it throws),
  \<^verbatim>\<open>JSON.stringify(v, null, 2)\<close>, the string conversion of a template literal
  \<^verbatim>\<open>`${v}`\<close>, the comparison \<^verbatim>\<open>v > 0\<close>, and \<^verbatim>\<open>path.join\<close>.
\<close>

record 'n runtime =
  json_parse :: "string \<Rightarrow> js_error + 'n json"
  json_stringify :: "'n json \<Rightarrow> string"
  to_string :: "'n json \<Rightarrow> string"
  greater_than_zero :: "'n json \<Rightarrow> bool"
  path_join :: "string list \<Rightarrow> string"

text \<open>Truthiness; \<open>None\<close> stands for \<^verbatim>\<open>undefined\<close>.\<close>

fun truthy :: "('n::zero) json \<Rightarrow> bool" where
  "truthy JNull = False"
| "truthy (JBool b) = b"
| "truthy (JNum n) = (n \<noteq> 0)"
| "truthy (JStr s) = (s \<noteq> [])"
| "truthy (JArr xs ps) = True"
| "truthy (JObj kvs) = True"

fun truthy_opt :: "('n::zero) json option \<Rightarrow> bool" where
  "truthy_opt None = False"
| "truthy_opt (Some v) = truthy v"

text \<open>
  Reading a property \<^verbatim>\<open>v.key\<close> or \<^verbatim>\<open>v["key"]\<close>, for the keys the scripts use
  (\<^verbatim>\<open>mcpServers\<close>, \<^verbatim>\<open>notion-mcp\<close>, \<^verbatim>\<open>notionToken\<close>, \<^verbatim>\<open>verbose\<close>, \<^verbatim>\<open>command\<close>,
  \<^verbatim>\<open>args\<close>, \<^verbatim>\<open>env\<close>, \<^verbatim>\<open>NOTION_TOKEN\<close>): none of them is an array index or a property of
  a built-in prototype. Reading from null throws a TypeError, reading from a primitive
  gives \<^verbatim>\<open>undefined\<close>.
\<close>

fun get_prop :: "'n json \<Rightarrow> string \<Rightarrow> js_error + 'n json option" where
  "get_prop JNull key =
     Inl (JsError (''Cannot read properties of null (reading '' @ [CHR 0x27] @ key @ [CHR 0x27] @ '')''))"
| "get_prop (JObj kvs) key = Inr (map_of kvs key)"
| "get_prop (JArr xs ps) key = Inr (map_of ps key)"
| "get_prop (JBool b) key = Inr None"
| "get_prop (JNum n) key = Inr None"
| "get_prop (JStr s) key = Inr None"

text \<open>
  Assigning a property \<^verbatim>\<open>v.key = x\<close> in strict mode: an object or array is updated
  (an existing property keeps its place, a new one goes last); on a primitive the
  assignment throws a TypeError.
\<close>

fun type_name :: "'n json \<Rightarrow> string" where
  "type_name (JBool b) = ''boolean''"
| "type_name (JNum n) = ''number''"
| "type_name (JStr s) = ''string''"
| "type_name v = ''object''"

fun set_prop :: "'n runtime \<Rightarrow> 'n json \<Rightarrow> string \<Rightarrow> 'n json \<Rightarrow> js_error + 'n json" where
  "set_prop rt (JObj kvs) key x = Inr (JObj (AList.update key x kvs))"
| "set_prop rt (JArr xs ps) key x = Inr (JArr xs (AList.update key x ps))"
| "set_prop rt JNull key x =
     Inl (JsError (''Cannot set properties of null (setting '' @ [CHR 0x27] @ key @ [CHR 0x27] @ '')''))"
| "set_prop rt v key x =
     Inl (JsError (''Cannot create property '' @ [CHR 0x27] @ key @ [CHR 0x27] @ '' on '' @ type_name v
                   @ '' '' @ [CHR 0x27] @ to_string rt v @ [CHR 0x27]))"

text \<open>\<^verbatim>\<open>s.includes(t)\<close> on strings.\<close>

fun str_includes :: "string \<Rightarrow> string \<Rightarrow> bool" where
  "str_includes [] t = (t = [])"
| "str_includes (c # cs) t = (prefix t (c # cs) \<or> str_includes cs t)"

text \<open>The decimal digits of a non-negative integer, as \<^verbatim>\<open>`${Date.now()}`\<close> prints them.\<close>

definition digit :: "nat \<Rightarrow> char" where
  "digit d = ''0123456789'' ! d"

function dec :: "nat \<Rightarrow> string" where
  "dec n = (if n < 10 then [digit n] else dec (n div 10) @ [digit (n mod 10)])"
  by pat_completeness auto
termination
  by (relation "measure id") auto

declare dec.simps [simp del]

section \<open>The file system and external commands\<close>

text \<open>
  The part of the file system the scripts touch: regular files with their content,
  directories, and the paths on which the operating system refuses an operation
  (permissions, a read-only or full medium): \<open>read_fails\<close> for reading a file,
  \<open>write_fails\<close> for creating or overwriting a file or directory.
\<close>

record filesystem =
  files :: "string \<rightharpoonup> string"
  dirs :: "string set"
  read_fails :: "string set"
  write_fails :: "string set"

definition existsSync :: "filesystem \<Rightarrow> string \<Rightarrow> bool" where
  "existsSync fsys p = (files fsys p \<noteq> None \<or> p \<in> dirs fsys)"

definition readFileSync :: "filesystem \<Rightarrow> string \<Rightarrow> js_error + string" where
  "readFileSync fsys p =
     (if p \<in> read_fails fsys then Inl (JsError (''EACCES: permission denied, open '' @ p))
      else case files fsys p of
             Some content \<Rightarrow> Inr content
           | None \<Rightarrow> if p \<in> dirs fsys
                     then Inl (JsError ''EISDIR: illegal operation on a directory, read'')
                     else Inl (JsError (''ENOENT: no such file or directory, open '' @ p)))"

definition writeFileSync :: "string \<Rightarrow> string \<Rightarrow> filesystem \<Rightarrow> js_error + filesystem" where
  "writeFileSync p content fsys =
     (if p \<in> write_fails fsys then Inl (JsError (''EACCES: permission denied, open '' @ p))
      else if p \<in> dirs fsys then Inl (JsError (''EISDIR: illegal operation on a directory, open '' @ p))
      else Inr (fsys\<lparr>files := (files fsys)(p \<mapsto> content)\<rparr>))"

definition copyFileSync :: "string \<Rightarrow> string \<Rightarrow> filesystem \<Rightarrow> js_error + filesystem" where
  "copyFileSync src dest fsys =
     (case readFileSync fsys src of
        Inl e \<Rightarrow> Inl e
      | Inr content \<Rightarrow> writeFileSync dest content fsys)"

text \<open>\<^verbatim>\<open>fs.mkdirSync(p, { recursive: true })\<close>; the ancestors it creates are not tracked.\<close>

definition mkdirSync :: "string \<Rightarrow> filesystem \<Rightarrow> js_error + filesystem" where
  "mkdirSync p fsys =
     (if p \<in> write_fails fsys then Inl (JsError (''EACCES: permission denied, mkdir '' @ p))
      else if files fsys p \<noteq> None then Inl (JsError (''EEXIST: file already exists, mkdir '' @ p))
      else Inr (fsys\<lparr>dirs := insert p (dirs fsys)\<rparr>))"

text \<open>
  An external command either finishes after some milliseconds, with its standard
  output as Node decodes it (\<open>Inr\<close>, a string in UTF-8) or with the message of the error
  \<^verbatim>\<open>execSync\<close> throws for a non-zero exit status or a command that is not found
  (\<open>Inl\<close>), and with its effect on the file system; or it never finishes.
\<close>

datatype process =
    Finishes nat "string + string" "filesystem \<Rightarrow> filesystem"
  | Never

text \<open>
  What the scripts read from their surroundings: \<^verbatim>\<open>process.argv\<close>, \<^verbatim>\<open>os.homedir()\<close>,
  \<^verbatim>\<open>os.platform()\<close>, \<^verbatim>\<open>path.dirname(__dirname)\<close>, \<^verbatim>\<open>Date.now()\<close>, the external commands
  and \<^verbatim>\<open>process.env.NOTION_TOKEN\<close>. Within one run every command line is issued at most
  once, so the behaviour of a command is a function of its text; \<open>handles_SIGTERM\<close> tells
  whether the child started by a command handles the signal \<^verbatim>\<open>SIGTERM\<close> and carries on
  instead of exiting.
\<close>

record environment =
  argv :: "string list"
  homedir :: string
  os_platform :: string
  project_root :: string
  now :: nat
  run :: "string \<Rightarrow> process"
  handles_SIGTERM :: "string \<Rightarrow> bool"
  env_NOTION_TOKEN :: "string option"

datatype exec_result =
    Output string filesystem
  | Failed js_error filesystem
  | Blocked

text \<open>
  \<^verbatim>\<open>execSync(cmd, { timeout: t, ... })\<close>. Without a timeout the call waits for the child,
  forever if need be. With a timeout the child is sent \<^verbatim>\<open>SIGTERM\<close> once it has run for \<open>t\<close>
  milliseconds, and the call still waits until the child has exited; then it throws
  the timeout error. A child that exits on the signal has had no effect; a child that
  handles the signal runs on, to its end if it has one.
\<close>

definition execSync :: "environment \<Rightarrow> string \<Rightarrow> nat option \<Rightarrow> filesystem \<Rightarrow> exec_result" where
  "execSync env cmd timeout fsys =
     (case run env cmd of
        Never \<Rightarrow>
          (case timeout of
             None \<Rightarrow> Blocked
           | Some t \<Rightarrow>
               if handles_SIGTERM env cmd then Blocked
               else Failed (JsError ''spawnSync /bin/sh ETIMEDOUT'') fsys)
      | Finishes d res effect \<Rightarrow>
          (if (case timeout of None \<Rightarrow> False | Some t \<Rightarrow> t < d)
           then Failed (JsError ''spawnSync /bin/sh ETIMEDOUT'')
                  (if handles_SIGTERM env cmd then effect fsys else fsys)
           else case res of
                  Inl m \<Rightarrow> Failed (JsError m) (effect fsys)
                | Inr out \<Rightarrow> Output out (effect fsys)))"

section \<open>The installer\<close>

datatype level = Info | Error | Success | Warning

text \<open>
  The fields both classes share, the file system and the lines printed with
  \<^verbatim>\<open>console.log\<close> (the type of the line and its message; the prefix is left out).
\<close>

record script =
  platform :: string
  projectRoot :: string
  claudeConfigDir :: string
  fs :: filesystem
  console :: "(level \<times> string) list"

record 'n installer = script +
  config :: "'n json"

text \<open>
  How a method ends: it returns, it calls \<^verbatim>\<open>process.exit\<close>, it throws, or it waits
  forever for a child process. Each case carries the state reached.
\<close>

datatype 's outcome =
    Returns 's
  | Exits nat 's
  | Throws js_error 's
  | Hangs 's

fun final :: "'s outcome \<Rightarrow> 's" where
  "final (Returns s) = s"
| "final (Exits c s) = s"
| "final (Throws e s) = s"
| "final (Hangs s) = s"

text \<open>Sequencing: the next statement runs only after a normal return.\<close>

fun and_then :: "'s outcome \<Rightarrow> ('s \<Rightarrow> 's outcome) \<Rightarrow> 's outcome" where
  "and_then (Returns s) f = f s"
| "and_then (Exits c s) f = Exits c s"
| "and_then (Throws e s) f = Throws e s"
| "and_then (Hangs s) f = Hangs s"

text \<open>\<^verbatim>\<open>try { ... } catch (error) { ... }\<close>: only a thrown exception reaches the handler.\<close>

fun try_catch :: "'s outcome \<Rightarrow> (js_error \<Rightarrow> 's \<Rightarrow> 's outcome) \<Rightarrow> 's outcome" where
  "try_catch (Throws e s) h = h e s"
| "try_catch (Returns s) h = Returns s"
| "try_catch (Exits c s) h = Exits c s"
| "try_catch (Hangs s) h = Hangs s"

definition log :: "string \<Rightarrow> level \<Rightarrow> 'a script_scheme \<Rightarrow> 'a script_scheme" where
  "log msg type s = s\<lparr>console := console s @ [(type, msg)]\<rparr>"

text \<open>\<^verbatim>\<open>error(message, exit = true)\<close>; every call site leaves \<^verbatim>\<open>exit\<close> at its default.\<close>

definition error :: "string \<Rightarrow> 'a script_scheme \<Rightarrow> 'a script_scheme outcome" where
  "error msg s = Exits 1 (log msg Error s)"

definition success :: "string \<Rightarrow> 'a script_scheme \<Rightarrow> 'a script_scheme" where
  "success msg s = log msg Success s"

subsection \<open>configureClaudeDesktop\<close>

definition fresh_config :: "'n json" where
  "fresh_config = JObj [(''mcpServers'', JObj [])]"

text \<open>Lines 188 to 190: \<^verbatim>\<open>if (!claudeConfig.mcpServers) claudeConfig.mcpServers = {}\<close>.\<close>

definition ensure_mcpServers :: "('n::zero) runtime \<Rightarrow> 'n json \<Rightarrow> js_error + 'n json" where
  "ensure_mcpServers rt claudeConfig =
     (case get_prop claudeConfig ''mcpServers'' of
        Inl e \<Rightarrow> Inl e
      | Inr v \<Rightarrow> if \<not> truthy_opt v then set_prop rt claudeConfig ''mcpServers'' (JObj [])
                 else Inr claudeConfig)"

definition backup_path :: "environment \<Rightarrow> string \<Rightarrow> string" where
  "backup_path env configPath = configPath @ ''.backup.'' @ dec (now env)"

text \<open>
  The body of the \<^verbatim>\<open>try\<close> block, lines 187 to 195: read and parse the file, make sure
  \<^verbatim>\<open>mcpServers\<close> is there, copy the file to the backup path. \<open>Inl\<close> is the exception
  that leaves the block.
\<close>

definition read_and_backup ::
  "('n::zero) runtime \<Rightarrow> environment \<Rightarrow> string \<Rightarrow> 'n installer \<Rightarrow> js_error + ('n json \<times> 'n installer)" where
  "read_and_backup rt env configPath s =
     (case readFileSync (fs s) configPath of
        Inl e \<Rightarrow> Inl e
      | Inr content \<Rightarrow>
     (case json_parse rt content of
        Inl e \<Rightarrow> Inl e
      | Inr parsed \<Rightarrow>
     (case ensure_mcpServers rt parsed of
        Inl e \<Rightarrow> Inl e
      | Inr claudeConfig \<Rightarrow>
     (case copyFileSync configPath (backup_path env configPath) (fs s) of
        Inl e \<Rightarrow> Inl e
      | Inr fs' \<Rightarrow>
          Inr (claudeConfig,
               log (''Backed up existing configuration to: '' @ backup_path env configPath) Info
                 (s\<lparr>fs := fs'\<rparr>))))))"

text \<open>Lines 182 to 200: the document the new entry is added to, and the state reached.\<close>

definition load_existing_config ::
  "('n::zero) runtime \<Rightarrow> environment \<Rightarrow> string \<Rightarrow> 'n installer \<Rightarrow> 'n json \<times> 'n installer" where
  "load_existing_config rt env configPath s =
     (if existsSync (fs s) configPath then
        (case read_and_backup rt env configPath s of
           Inl e \<Rightarrow>
             (fresh_config, log ''Warning: Could not parse existing config, creating new one'' Info s)
         | Inr (claudeConfig, s') \<Rightarrow> (claudeConfig, s'))
      else (fresh_config, s))"

text \<open>The entry of lines 203 to 209; \<open>token\<close> is \<^verbatim>\<open>this.config.notionToken || ""\<close>.\<close>

definition notion_entry :: "string \<Rightarrow> 'n json \<Rightarrow> 'n json" where
  "notion_entry cliBinaryPath token =
     JObj [(''command'', JStr ''node''),
           (''args'', JArr [JStr cliBinaryPath] []),
           (''env'', JObj [(''NOTION_TOKEN'', token)])]"

definition or_empty :: "('n::zero) json option \<Rightarrow> 'n json" where
  "or_empty v = (case v of None \<Rightarrow> JStr '''' | Some x \<Rightarrow> if truthy x then x else JStr '''')"

text \<open>
  Lines 203 to 209, \<^verbatim>\<open>claudeConfig.mcpServers["notion-mcp"] = { ... }\<close>: the target
  \<^verbatim>\<open>claudeConfig.mcpServers\<close> is evaluated first, then the entry (which reads
  \<^verbatim>\<open>this.config.notionToken\<close>), then the property is assigned. The assignment changes
  the object that \<^verbatim>\<open>claudeConfig.mcpServers\<close> refers to, so the document holds the
  updated object in the same place.
\<close>

definition add_notion_entry ::
  "('n::zero) runtime \<Rightarrow> string \<Rightarrow> 'n json \<Rightarrow> 'n json \<Rightarrow> js_error + 'n json" where
  "add_notion_entry rt cliBinaryPath cfg claudeConfig =
     (case get_prop claudeConfig ''mcpServers'' of
        Inl e \<Rightarrow> Inl e
      | Inr None \<Rightarrow>
          Inl (JsError ''Cannot set properties of undefined (setting 'notion-mcp')'')
      | Inr (Some servers) \<Rightarrow>
     (case get_prop cfg ''notionToken'' of
        Inl e \<Rightarrow> Inl e
      | Inr token \<Rightarrow>
     (case set_prop rt servers ''notion-mcp'' (notion_entry cliBinaryPath (or_empty token)) of
        Inl e \<Rightarrow> Inl e
      | Inr servers' \<Rightarrow> set_prop rt claudeConfig ''mcpServers'' servers')))"

text \<open>Lines 173 to 176: make sure the configuration directory exists.\<close>

definition ensure_config_dir :: "'n installer \<Rightarrow> 'n installer outcome" where
  "ensure_config_dir s1 =
     (if \<not> existsSync (fs s1) (claudeConfigDir s1) then
        (case mkdirSync (claudeConfigDir s1) (fs s1) of
           Inl e \<Rightarrow> Throws e s1
         | Inr fs' \<Rightarrow>
             Returns (log (''Created Claude config directory: '' @ claudeConfigDir s1) Info
                        (s1\<lparr>fs := fs'\<rparr>)))
      else Returns s1)"

text \<open>Lines 178 to 217: load the existing document, add the entry, write the file.\<close>

definition write_desktop_config ::
  "('n::zero) runtime \<Rightarrow> environment \<Rightarrow> 'n installer \<Rightarrow> 'n installer outcome" where
  "write_desktop_config rt env s2 =
     (let configPath = path_join rt [claudeConfigDir s2, ''claude_desktop_config.json''];
          cliBinaryPath = path_join rt [projectRoot s2, ''bin'', ''cli.mjs''];
          (claudeConfig, s3) = load_existing_config rt env configPath s2
      in case add_notion_entry rt cliBinaryPath (config s3) claudeConfig of
           Inl e \<Rightarrow> Throws e s3
         | Inr claudeConfig' \<Rightarrow>
             (case writeFileSync configPath (json_stringify rt claudeConfig') (fs s3) of
                Inl e \<Rightarrow>
                  error (''Failed to write Claude Desktop configuration: '' @ message e) s3
              | Inr fs' \<Rightarrow>
                  Returns (success (''Claude Desktop configuration updated: '' @ configPath)
                             (s3\<lparr>fs := fs'\<rparr>))))"

definition configureClaudeDesktop ::
  "('n::zero) runtime \<Rightarrow> environment \<Rightarrow> 'n installer \<Rightarrow> 'n installer outcome" where
  "configureClaudeDesktop rt env s0 =
     and_then (ensure_config_dir (log ''Configuring Claude Desktop...'' Info s0))
       (write_desktop_config rt env)"

subsection \<open>Strings: trim, split, replace, parseInt\<close>

text \<open>
  Strings are byte strings here (UTF-8); the characters outside ASCII that the scripts
  print or look for are written as their bytes.
\<close>

definition quoted :: "string \<Rightarrow> string" where
  "quoted s = [CHR 0x22] @ s @ [CHR 0x22]"

definition check_mark :: string where
  "check_mark = [CHR 0xE2, CHR 0x9C, CHR 0x93]"

definition ballot_x :: string where
  "ballot_x = [CHR 0xE2, CHR 0x9C, CHR 0x97]"

definition white_check_mark :: string where
  "white_check_mark = [CHR 0xE2, CHR 0x9C, CHR 0x85]"

definition cross_mark :: string where
  "cross_mark = [CHR 0xE2, CHR 0x9D, CHR 0x8C]"

definition warning_sign :: string where
  "warning_sign = [CHR 0xE2, CHR 0x9A, CHR 0xA0, CHR 0xEF, CHR 0xB8, CHR 0x8F]"

definition memo :: string where
  "memo = [CHR 0xF0, CHR 0x9F, CHR 0x93, CHR 0x9D]"

text \<open>
  The white space and line terminators that \<^verbatim>\<open>s.trim()\<close> and \<^verbatim>\<open>parseInt\<close> strip, in
  UTF-8: U+0009 to U+000D, U+0020, U+00A0, U+1680, U+2000 to U+200A, U+2028, U+2029,
  U+202F, U+205F, U+3000 and U+FEFF.
\<close>

definition white_space :: "string list" where
  "white_space =
     [[CHR 0x09], [CHR 0x0A], [CHR 0x0B], [CHR 0x0C], [CHR 0x0D], [CHR 0x20],
      [CHR 0xC2, CHR 0xA0],
      [CHR 0xE1, CHR 0x9A, CHR 0x80],
      [CHR 0xE2, CHR 0x80, CHR 0x80], [CHR 0xE2, CHR 0x80, CHR 0x81], [CHR 0xE2, CHR 0x80, CHR 0x82],
      [CHR 0xE2, CHR 0x80, CHR 0x83], [CHR 0xE2, CHR 0x80, CHR 0x84], [CHR 0xE2, CHR 0x80, CHR 0x85],
      [CHR 0xE2, CHR 0x80, CHR 0x86], [CHR 0xE2, CHR 0x80, CHR 0x87], [CHR 0xE2, CHR 0x80, CHR 0x88],
      [CHR 0xE2, CHR 0x80, CHR 0x89], [CHR 0xE2, CHR 0x80, CHR 0x8A],
      [CHR 0xE2, CHR 0x80, CHR 0xA8], [CHR 0xE2, CHR 0x80, CHR 0xA9], [CHR 0xE2, CHR 0x80, CHR 0xAF],
      [CHR 0xE2, CHR 0x81, CHR 0x9F],
      [CHR 0xE3, CHR 0x80, CHR 0x80],
      [CHR 0xEF, CHR 0xBB, CHR 0xBF]]"

text \<open>Stripping at the start, as \<^verbatim>\<open>parseInt\<close> and \<^verbatim>\<open>trim\<close> do, and at the end.\<close>

function trim_start :: "string \<Rightarrow> string" where
  "trim_start s =
     (case find (\<lambda>w. prefix w s) white_space of
        None \<Rightarrow> s
      | Some w \<Rightarrow> trim_start (drop (length w) s))"
  by pat_completeness auto
termination
proof (relation "measure length")
  fix s w
  assume "find (\<lambda>w. prefix w s) white_space = Some w"
  then have "w \<in> set white_space" and "prefix w s"
    by (auto simp add: find_Some_iff)
  then have "w \<noteq> []" and "length w \<le> length s"
    by (auto simp add: white_space_def prefix_length_le)
  then show "(drop (length w) s, s) \<in> measure length"
    by (cases w) auto
qed simp

function trim_end :: "string \<Rightarrow> string" where
  "trim_end s =
     (case find (\<lambda>w. suffix w s) white_space of
        None \<Rightarrow> s
      | Some w \<Rightarrow> trim_end (take (length s - length w) s))"
  by pat_completeness auto
termination
proof (relation "measure length")
  fix s w
  assume "find (\<lambda>w. suffix w s) white_space = Some w"
  then have "w \<in> set white_space" and "suffix w s"
    by (auto simp add: find_Some_iff)
  then have "w \<noteq> []" and "length w \<le> length s"
    by (auto simp add: white_space_def suffix_length_le)
  then show "(take (length s - length w) s, s) \<in> measure length"
    by (cases w) auto
qed simp

declare trim_start.simps [simp del] trim_end.simps [simp del]

text \<open>\<^verbatim>\<open>s.trim()\<close>.\<close>

definition trim :: "string \<Rightarrow> string" where
  "trim s = trim_end (trim_start s)"

text \<open>\<^verbatim>\<open>s.split(sep)\<close> for a separator of one character; the result is never empty.\<close>

fun js_split :: "char \<Rightarrow> string \<Rightarrow> string list" where
  "js_split sep [] = [[]]"
| "js_split sep (c # cs) =
     (if c = sep then [] # js_split sep cs
      else case js_split sep cs of
             w # ws \<Rightarrow> (c # w) # ws
           | [] \<Rightarrow> [[c]])"

text \<open>
  \<^verbatim>\<open>parseInt(s)\<close> with no radix: leading white space is skipped, a sign is read, the
  prefix \<^verbatim>\<open>0x\<close> selects base 16, and the longest run of digits is the value; \<open>None\<close>
  is \<^verbatim>\<open>NaN\<close>.
\<close>

fun index_of :: "'a \<Rightarrow> 'a list \<Rightarrow> nat option" where
  "index_of x [] = None"
| "index_of x (y # ys) = (if x = y then Some 0 else map_option Suc (index_of x ys))"

definition digit_value :: "nat \<Rightarrow> char \<Rightarrow> nat option" where
  "digit_value radix c =
     (case (case index_of c ''0123456789abcdef'' of
              Some d \<Rightarrow> Some d
            | None \<Rightarrow> map_option (\<lambda>i. i + 10) (index_of c ''ABCDEF'')) of
        None \<Rightarrow> None
      | Some d \<Rightarrow> if d < radix then Some d else None)"

definition digits_value :: "nat \<Rightarrow> string \<Rightarrow> nat" where
  "digits_value radix ds = foldl (\<lambda>acc c. acc * radix + the (digit_value radix c)) 0 ds"

definition parse_digits :: "nat \<Rightarrow> string \<Rightarrow> nat option" where
  "parse_digits radix s =
     (let ds = takeWhile (\<lambda>c. digit_value radix c \<noteq> None) s
      in if ds = [] then None else Some (digits_value radix ds))"

fun strip_hex_prefix :: "string \<Rightarrow> nat \<times> string" where
  "strip_hex_prefix (a # b # rest) =
     (if a = CHR ''0'' \<and> (b = CHR ''x'' \<or> b = CHR ''X'') then (16, rest) else (10, a # b # rest))"
| "strip_hex_prefix s = (10, s)"

fun strip_sign :: "string \<Rightarrow> bool \<times> string" where
  "strip_sign (c # cs) =
     (if c = CHR ''-'' then (True, cs) else if c = CHR ''+'' then (False, cs) else (False, c # cs))"
| "strip_sign [] = (False, [])"

definition parseInt :: "string \<Rightarrow> int option" where
  "parseInt s =
     (let (negative, u) = strip_sign (trim_start s);
          (radix, w) = strip_hex_prefix u
      in case parse_digits radix w of
           None \<Rightarrow> None
         | Some n \<Rightarrow> Some (if negative then - int n else int n))"

text \<open>
  \<^verbatim>\<open>parseInt(nodeVersion.replace('v', '').split('.')[0])\<close> and the test
  \<^verbatim>\<open>versionNum < 16\<close>, which is false for \<^verbatim>\<open>NaN\<close>.
\<close>

definition major_version :: "string \<Rightarrow> int option" where
  "major_version nodeVersion =
     (case js_split (CHR ''.'') (remove1 (CHR ''v'') nodeVersion) of
        first # others \<Rightarrow> parseInt first
      | [] \<Rightarrow> None)"

definition below_16 :: "string \<Rightarrow> bool" where
  "below_16 nodeVersion = (case major_version nodeVersion of None \<Rightarrow> False | Some n \<Rightarrow> n < 16)"

subsection \<open>loadConfig\<close>

definition default_config :: "'n json" where
  "default_config = JObj [(''notionToken'', JStr ''''), (''verbose'', JBool False)]"

text \<open>
  Lines 56 to 59. \<^verbatim>\<open>configArg.split('=')[1]\<close> is the text between the first and the
  second \<^verbatim>\<open>=\<close>; \<open>None\<close> stands for \<^verbatim>\<open>undefined\<close>, for which \<^verbatim>\<open>fs.existsSync\<close> is false.
\<close>

definition config_path :: "'n runtime \<Rightarrow> environment \<Rightarrow> 'a script_scheme \<Rightarrow> string option" where
  "config_path rt env s =
     (case find (prefix ''--config='') (argv env) of
        Some configArg \<Rightarrow>
          (case js_split (CHR ''='') configArg of
             a # b # rest \<Rightarrow> Some b
           | _ \<Rightarrow> None)
      | None \<Rightarrow> Some (path_join rt [projectRoot s, ''scripts'', ''install-config.json'']))"

definition loadConfig :: "'n runtime \<Rightarrow> environment \<Rightarrow> 'n installer \<Rightarrow> 'n installer outcome" where
  "loadConfig rt env s =
     (case config_path rt env s of
        None \<Rightarrow>
          Returns (log ''Using default configuration (no config file found)'' Info
                     (s\<lparr>config := default_config\<rparr>))
      | Some configPath \<Rightarrow>
          if existsSync (fs s) configPath then
            (case readFileSync (fs s) configPath of
               Inl e \<Rightarrow> error (''Failed to parse configuration file: '' @ message e) s
             | Inr content \<Rightarrow>
                 (case json_parse rt content of
                    Inl e \<Rightarrow> error (''Failed to parse configuration file: '' @ message e) s
                  | Inr cfg \<Rightarrow>
                      Returns (log (''Loaded configuration from: '' @ configPath) Info
                                 (s\<lparr>config := cfg\<rparr>))))
          else
            Returns (log ''Using default configuration (no config file found)'' Info
                       (s\<lparr>config := default_config\<rparr>)))"

subsection \<open>checkSystemDependencies\<close>

definition checkSystemDependencies :: "environment \<Rightarrow> 'n installer \<Rightarrow> 'n installer outcome" where
  "checkSystemDependencies env s0 =
     (let s1 = log ''Checking system dependencies...'' Info s0 in
      and_then
        (case execSync env ''node --version'' None (fs s1) of
           Blocked \<Rightarrow> Hangs s1
         | Failed e fs' \<Rightarrow> error ''Node.js is not installed or not in PATH'' (s1\<lparr>fs := fs'\<rparr>)
         | Output out fs' \<Rightarrow>
             (let nodeVersion = trim out;
                  s2 = log (''Node.js version: '' @ nodeVersion @ '' '' @ check_mark) Info
                         (s1\<lparr>fs := fs'\<rparr>)
              in if below_16 nodeVersion
                 then error ''Node.js version 16 or higher is required'' s2
                 else Returns s2))
        (\<lambda>s3.
           and_then
             (case execSync env ''npm --version'' None (fs s3) of
                Blocked \<Rightarrow> Hangs s3
              | Failed e fs' \<Rightarrow> error ''npm is not installed or not in PATH'' (s3\<lparr>fs := fs'\<rparr>)
              | Output out fs' \<Rightarrow>
                  Returns (log (''npm version: '' @ trim out @ '' '' @ check_mark) Info
                             (s3\<lparr>fs := fs'\<rparr>)))
             (\<lambda>s4. Returns (success ''System dependencies check completed'' s4))))"

subsection \<open>buildProject and testNotionMcpServer\<close>

text \<open>
  The options object of each \<^verbatim>\<open>execSync\<close> call reads \<^verbatim>\<open>this.config.verbose\<close> before
  the command starts; the read throws when the configuration is \<^verbatim>\<open>null\<close>. The value
  only chooses where the child's output goes.
\<close>

definition run_npm :: "environment \<Rightarrow> string \<Rightarrow> 'n installer \<Rightarrow> 'n installer outcome" where
  "run_npm env cmd s =
     (case get_prop (config s) ''verbose'' of
        Inl e \<Rightarrow> Throws e s
      | Inr verbose \<Rightarrow>
          (case execSync env cmd None (fs s) of
             Blocked \<Rightarrow> Hangs s
           | Failed e fs' \<Rightarrow> Throws e (s\<lparr>fs := fs'\<rparr>)
           | Output out fs' \<Rightarrow> Returns (s\<lparr>fs := fs'\<rparr>)))"

definition buildProject :: "'n runtime \<Rightarrow> environment \<Rightarrow> 'n installer \<Rightarrow> 'n installer outcome" where
  "buildProject rt env s0 =
     (let s1 = log ''Building Notion MCP server...'' Info s0 in
      try_catch
        (and_then (run_npm env ''npm install'' (log ''Installing dependencies...'' Info s1))
           (\<lambda>s2.
        and_then (run_npm env ''npm run build'' (log ''Building project...'' Info s2))
           (\<lambda>s3.
              if \<not> existsSync (fs s3) (path_join rt [projectRoot s3, ''bin'', ''cli.mjs''])
              then Throws (JsError ''CLI binary not found after build'') s3
              else Returns (success ''Project build completed successfully'' s3))))
        (\<lambda>e s. error (''Failed to build project: '' @ message e) s))"

definition help_command :: "string \<Rightarrow> string" where
  "help_command cliBinary = ''node '' @ quoted cliBinary @ '' --help''"

definition testNotionMcpServer :: "'n runtime \<Rightarrow> environment \<Rightarrow> 'n installer \<Rightarrow> 'n installer outcome" where
  "testNotionMcpServer rt env s0 =
     (let s1 = log ''Testing Notion MCP server...'' Info s0 in
      try_catch
        (case execSync env (help_command (path_join rt [projectRoot s1, ''bin'', ''cli.mjs'']))
                (Some 15000) (fs s1) of
           Blocked \<Rightarrow> Hangs s1
         | Failed e fs' \<Rightarrow> Throws e (s1\<lparr>fs := fs'\<rparr>)
         | Output result fs' \<Rightarrow>
             if str_includes result ''Usage: notion-mcp-server''
             then Returns (success ''Notion MCP server test completed successfully'' (s1\<lparr>fs := fs'\<rparr>))
             else Throws (JsError ''Unexpected server response'') (s1\<lparr>fs := fs'\<rparr>))
        (\<lambda>e s. error (''Notion MCP server test failed: '' @ message e) s))"

subsection \<open>configureClaudeCodeCLI\<close>

definition remove_command :: string where
  "remove_command = ''claude mcp remove notion-mcp -s user''"

definition manual_command :: "string \<Rightarrow> string" where
  "manual_command cliBinaryPath = ''claude mcp add notion-mcp node '' @ quoted cliBinaryPath @ '' -s user''"

text \<open>Lines 240 to 245; \<open>token\<close> is \<^verbatim>\<open>this.config.notionToken\<close>.\<close>

definition add_command :: "('n::zero) runtime \<Rightarrow> string \<Rightarrow> 'n json option \<Rightarrow> string" where
  "add_command rt cliBinaryPath token =
     (case token of
        None \<Rightarrow> manual_command cliBinaryPath
      | Some t \<Rightarrow>
          if truthy t
          then manual_command cliBinaryPath @ '' --env NOTION_TOKEN='' @ quoted (to_string rt t)
          else manual_command cliBinaryPath)"

text \<open>The inner \<^verbatim>\<open>try\<close> of lines 227 to 237: a failed removal is logged and ignored.\<close>

definition remove_existing :: "environment \<Rightarrow> 'n installer \<Rightarrow> 'n installer outcome" where
  "remove_existing env s0 =
     (let s1 = log ''Checking for existing Claude Code CLI MCP server...'' Info s0 in
      case execSync env remove_command None (fs s1) of
        Blocked \<Rightarrow> Hangs s1
      | Failed e fs' \<Rightarrow>
          Returns (log ''No existing MCP server found (expected for fresh installation)'' Info
                     (s1\<lparr>fs := fs'\<rparr>))
      | Output out fs' \<Rightarrow>
          Returns (log ''Removed existing MCP server configuration'' Info (s1\<lparr>fs := fs'\<rparr>)))"

text \<open>Lines 240 to 254: build the command, run it, report success.\<close>

definition add_server ::
  "('n::zero) runtime \<Rightarrow> environment \<Rightarrow> string \<Rightarrow> 'n installer \<Rightarrow> 'n installer outcome" where
  "add_server rt env cliBinaryPath s =
     (case get_prop (config s) ''notionToken'' of
        Inl e \<Rightarrow> Throws e s
      | Inr token \<Rightarrow>
          (let s1 = log ''Adding Notion MCP server to Claude Code CLI with user scope...'' Info s in
           case get_prop (config s1) ''verbose'' of
             Inl e \<Rightarrow> Throws e s1
           | Inr verbose \<Rightarrow>
               (case execSync env (add_command rt cliBinaryPath token) None (fs s1) of
                  Blocked \<Rightarrow> Hangs s1
                | Failed e fs' \<Rightarrow> Throws e (s1\<lparr>fs := fs'\<rparr>)
                | Output out fs' \<Rightarrow>
                    Returns (success ''Claude Code CLI configuration completed'' (s1\<lparr>fs := fs'\<rparr>)))))"

definition configureClaudeCodeCLI ::
  "('n::zero) runtime \<Rightarrow> environment \<Rightarrow> 'n installer \<Rightarrow> 'n installer outcome" where
  "configureClaudeCodeCLI rt env s0 =
     (let s1 = log ''Configuring Claude Code CLI...'' Info s0;
          cliBinaryPath = path_join rt [projectRoot s1, ''bin'', ''cli.mjs'']
      in try_catch
           (and_then (remove_existing env s1) (add_server rt env cliBinaryPath))
           (\<lambda>e s.
              if str_includes (message e) ''already exists''
              then Returns (success ''Claude Code CLI MCP server already configured'' s)
              else Returns
                     (log (''You may need to manually run: '' @ manual_command cliBinaryPath) Info
                        (log (''Warning: Failed to configure Claude Code CLI: '' @ message e) Error s))))"

subsection \<open>createClaudeConfig and install\<close>

definition createClaudeConfig ::
  "('n::zero) runtime \<Rightarrow> environment \<Rightarrow> 'n installer \<Rightarrow> 'n installer outcome" where
  "createClaudeConfig rt env s0 =
     and_then
       (configureClaudeDesktop rt env
          (log ''Creating Claude Desktop and Claude Code CLI configuration...'' Info s0))
       (configureClaudeCodeCLI rt env)"

definition closing_lines :: "string list" where
  "closing_lines =
     ['''',
      ''Configuration completed for:'',
      white_check_mark @ '' Claude Desktop - Restart Claude Desktop to load the MCP server'',
      white_check_mark @ '' Claude Code CLI - MCP server configured globally with user scope'',
      '''',
      ''Next steps:'',
      ''1. Set your Notion integration token in the configuration files if not already set'',
      ''2. Restart Claude Desktop to load the new MCP server'',
      ''3. Test Claude Code CLI: Open any terminal and run '' @ quoted ''claude mcp list'',
      ''4. The Notion MCP server will be available for Notion workspace integration'',
      ''5. Run '' @ quoted ''node scripts/verify.js''
        @ '' to verify the installation (if verify script exists)'',
      '''']"

definition log_all :: "string list \<Rightarrow> 'a script_scheme \<Rightarrow> 'a script_scheme" where
  "log_all msgs s = foldl (\<lambda>st m. log m Info st) s msgs"

definition install :: "('n::zero) runtime \<Rightarrow> environment \<Rightarrow> 'n installer \<Rightarrow> 'n installer outcome" where
  "install rt env s0 =
     try_catch
       (and_then (loadConfig rt env (log ''Starting Notion MCP Server installation...'' Info s0))
          (\<lambda>s1.
        and_then (checkSystemDependencies env s1)
          (\<lambda>s2.
        and_then (buildProject rt env s2)
          (\<lambda>s3.
        and_then (testNotionMcpServer rt env s3)
          (\<lambda>s4.
        and_then (createClaudeConfig rt env s4)
          (\<lambda>s5.
             Returns (log_all closing_lines (success ''Installation completed successfully!'' s5))))))))
       (\<lambda>e s. error (''Installation failed: '' @ message e) s)"

text \<open>
  The exit code of the process: \<^verbatim>\<open>process.exit(c)\<close> gives \<open>c\<close>, a run that comes to
  its end gives 0, an exception nobody catches gives 1; a run that waits forever has
  none.
\<close>

fun exit_code :: "'s outcome \<Rightarrow> nat option" where
  "exit_code (Returns s) = Some 0"
| "exit_code (Exits c s) = Some c"
| "exit_code (Throws e s) = Some 1"
| "exit_code (Hangs s) = None"

section \<open>The verifier\<close>

record verifier = script +
  errors :: "string list"
  warnings :: "string list"

definition verifier_error :: "string \<Rightarrow> verifier \<Rightarrow> verifier" where
  "verifier_error msg s = log msg Error (s\<lparr>errors := errors s @ [msg]\<rparr>)"

definition verifier_warning :: "string \<Rightarrow> verifier \<Rightarrow> verifier" where
  "verifier_warning msg s = log msg Warning (s\<lparr>warnings := warnings s @ [msg]\<rparr>)"

subsection \<open>checkSystemDependencies\<close>

definition verifier_checkSystemDependencies :: "environment \<Rightarrow> verifier \<Rightarrow> verifier outcome" where
  "verifier_checkSystemDependencies env s0 =
     (let s1 = log ''Checking system dependencies...'' Info s0 in
      and_then
        (case execSync env ''node --version'' None (fs s1) of
           Blocked \<Rightarrow> Hangs s1
         | Failed e fs' \<Rightarrow>
             Returns (verifier_error ''Node.js is not installed or not in PATH'' (s1\<lparr>fs := fs'\<rparr>))
         | Output out fs' \<Rightarrow>
             (let nodeVersion = trim out;
                  s2 = success (''Node.js version: '' @ nodeVersion) (s1\<lparr>fs := fs'\<rparr>)
              in if below_16 nodeVersion
                 then Returns (verifier_error ''Node.js version 16 or higher is required'' s2)
                 else Returns s2))
        (\<lambda>s3.
           case execSync env ''npm --version'' None (fs s3) of
             Blocked \<Rightarrow> Hangs s3
           | Failed e fs' \<Rightarrow>
               Returns (verifier_error ''npm is not installed or not in PATH'' (s3\<lparr>fs := fs'\<rparr>))
           | Output out fs' \<Rightarrow>
               Returns (success (''npm version: '' @ trim out) (s3\<lparr>fs := fs'\<rparr>))))"

subsection \<open>checkProjectBuild\<close>

definition verifier_checkProjectBuild :: "'n runtime \<Rightarrow> environment \<Rightarrow> verifier \<Rightarrow> verifier outcome" where
  "verifier_checkProjectBuild rt env s0 =
     (let s1 = log ''Checking project build...'' Info s0;
          cliBinary = path_join rt [projectRoot s1, ''bin'', ''cli.mjs'']
      in if \<not> existsSync (fs s1) (path_join rt [projectRoot s1, ''node_modules'']) then
           Returns (verifier_error (''Node modules not found - run '' @ quoted ''npm install'') s1)
         else
           (let s2 = success ''Node modules found'' s1 in
            if \<not> existsSync (fs s2) cliBinary then
              Returns (verifier_error (''CLI binary not found - run '' @ quoted ''npm run build'') s2)
            else
              (let s3 = success ''CLI binary found'' s2 in
               case execSync env (help_command cliBinary) (Some 10000) (fs s3) of
                 Blocked \<Rightarrow> Hangs s3
               | Failed e fs' \<Rightarrow>
                   Returns (verifier_error (''CLI binary test failed: '' @ message e) (s3\<lparr>fs := fs'\<rparr>))
               | Output result fs' \<Rightarrow>
                   if str_includes result ''Usage: notion-mcp-server''
                   then Returns (success ''CLI binary is functional'' (s3\<lparr>fs := fs'\<rparr>))
                   else Returns (verifier_error ''CLI binary test failed - unexpected output''
                                   (s3\<lparr>fs := fs'\<rparr>)))))"

subsection \<open>checkClaudeDesktopConfig\<close>

text \<open>
  \<^verbatim>\<open>args.includes(p)\<close> for a truthy \<^verbatim>\<open>args\<close>: an array looks for an element equal to
  the string, a string for a substring; any other value has no method \<^verbatim>\<open>includes\<close>
  and the call throws.
\<close>

fun js_includes :: "'n json \<Rightarrow> string \<Rightarrow> js_error + bool" where
  "js_includes (JArr xs ps) p = Inr (JStr p \<in> set xs)"
| "js_includes (JStr s) p = Inr (str_includes s p)"
| "js_includes v p = Inl (JsError ''notionConfig.args.includes is not a function'')"

text \<open>
  \<^verbatim>\<open>env.hasOwnProperty(key)\<close> for a truthy \<^verbatim>\<open>env\<close>. An object whose own property is
  named \<^verbatim>\<open>hasOwnProperty\<close> hides the method behind a value that cannot be called.
\<close>

fun js_hasOwnProperty :: "'n json \<Rightarrow> string \<Rightarrow> js_error + bool" where
  "js_hasOwnProperty (JObj kvs) key =
     (if map_of kvs ''hasOwnProperty'' \<noteq> None
      then Inl (JsError ''notionConfig.env.hasOwnProperty is not a function'')
      else Inr (map_of kvs key \<noteq> None))"
| "js_hasOwnProperty (JArr xs ps) key =
     (if map_of ps ''hasOwnProperty'' \<noteq> None
      then Inl (JsError ''notionConfig.env.hasOwnProperty is not a function'')
      else Inr (map_of ps key \<noteq> None))"
| "js_hasOwnProperty v key = Inr False"

text \<open>Lines 481 to 495, for the truthy entry \<^verbatim>\<open>notionConfig\<close>.\<close>

definition check_notion_entry ::
  "('n::zero) runtime \<Rightarrow> 'n json \<Rightarrow> verifier \<Rightarrow> verifier outcome" where
  "check_notion_entry rt notionConfig s0 =
     (let cliBinaryPath = path_join rt [projectRoot s0, ''bin'', ''cli.mjs''];
          s1 = (if get_prop notionConfig ''command'' \<noteq> Inr (Some (JStr ''node''))
                then verifier_warning (''Claude Desktop config command should be '' @ quoted ''node'') s0
                else s0)
      in and_then
           (case get_prop notionConfig ''args'' of
              Inl e \<Rightarrow> Throws e s1
            | Inr None \<Rightarrow>
                Returns (verifier_warning
                           ''Claude Desktop config args do not point to correct CLI binary'' s1)
            | Inr (Some args) \<Rightarrow>
                if \<not> truthy args then
                  Returns (verifier_warning
                             ''Claude Desktop config args do not point to correct CLI binary'' s1)
                else
                  (case js_includes args cliBinaryPath of
                     Inl e \<Rightarrow> Throws e s1
                   | Inr found \<Rightarrow>
                       if \<not> found
                       then Returns (verifier_warning
                                       ''Claude Desktop config args do not point to correct CLI binary'' s1)
                       else Returns s1))
           (\<lambda>s2.
              and_then
                (case get_prop notionConfig ''env'' of
                   Inl e \<Rightarrow> Throws e s2
                 | Inr None \<Rightarrow>
                     Returns (verifier_warning
                       ''NOTION_TOKEN not configured in Claude Desktop (may need to be set manually)'' s2)
                 | Inr (Some env) \<Rightarrow>
                     if \<not> truthy env then
                       Returns (verifier_warning
                         ''NOTION_TOKEN not configured in Claude Desktop (may need to be set manually)'' s2)
                     else
                       (case js_hasOwnProperty env ''NOTION_TOKEN'' of
                          Inl e \<Rightarrow> Throws e s2
                        | Inr has \<Rightarrow>
                            if \<not> has
                            then Returns (verifier_warning
                              ''NOTION_TOKEN not configured in Claude Desktop (may need to be set manually)'' s2)
                            else Returns s2))
                (\<lambda>s3. Returns (success ''Claude Desktop configuration looks correct'' s3))))"

text \<open>The body of the \<^verbatim>\<open>try\<close> block, lines 468 to 496.\<close>

definition check_desktop_document ::
  "('n::zero) runtime \<Rightarrow> string \<Rightarrow> verifier \<Rightarrow> verifier outcome" where
  "check_desktop_document rt configPath s =
     (case readFileSync (fs s) configPath of
        Inl e \<Rightarrow> Throws e s
      | Inr content \<Rightarrow>
     (case json_parse rt content of
        Inl e \<Rightarrow> Throws e s
      | Inr cfg \<Rightarrow>
     (case get_prop cfg ''mcpServers'' of
        Inl e \<Rightarrow> Throws e s
      | Inr servers \<Rightarrow>
          if \<not> truthy_opt servers then
            Returns (verifier_warning ''No MCP servers configured in Claude Desktop'' s)
          else
            (case get_prop (the servers) ''notion-mcp'' of
               Inl e \<Rightarrow> Throws e s
             | Inr entry \<Rightarrow>
                 if \<not> truthy_opt entry then
                   Returns (verifier_warning ''Notion MCP server not found in Claude Desktop config'' s)
                 else check_notion_entry rt (the entry) s))))"

definition verifier_checkClaudeDesktopConfig ::
  "('n::zero) runtime \<Rightarrow> verifier \<Rightarrow> verifier outcome" where
  "verifier_checkClaudeDesktopConfig rt s0 =
     (let s1 = log ''Checking Claude Desktop configuration...'' Info s0;
          configPath = path_join rt [claudeConfigDir s1, ''claude_desktop_config.json'']
      in if \<not> existsSync (fs s1) configPath then
           Returns (verifier_warning ''Claude Desktop config file not found'' s1)
         else
           try_catch (check_desktop_document rt configPath s1)
             (\<lambda>e s. Returns (verifier_error (''Failed to parse Claude Desktop config: '' @ message e) s)))"

subsection \<open>checkClaudeCodeCLI\<close>

definition verifier_checkClaudeCodeCLI :: "environment \<Rightarrow> verifier \<Rightarrow> verifier outcome" where
  "verifier_checkClaudeCodeCLI env s0 =
     (let s1 = log ''Checking Claude Code CLI configuration...'' Info s0 in
      case execSync env ''claude --version'' None (fs s1) of
        Blocked \<Rightarrow> Hangs s1
      | Failed e fs' \<Rightarrow>
          Returns (verifier_warning ''Claude Code CLI not found - cannot verify MCP configuration''
                     (s1\<lparr>fs := fs'\<rparr>))
      | Output version fs' \<Rightarrow>
          (let s2 = s1\<lparr>fs := fs'\<rparr> in
           case execSync env ''claude mcp list'' (Some 30000) (fs s2) of
             Blocked \<Rightarrow> Hangs s2
           | Failed e fs'' \<Rightarrow>
               Returns (verifier_error (''Failed to check Claude Code CLI MCP servers: '' @ message e)
                          (s2\<lparr>fs := fs''\<rparr>))
           | Output result fs'' \<Rightarrow>
               (let s3 = s2\<lparr>fs := fs''\<rparr> in
                if str_includes result ''notion-mcp'' then
                  (if str_includes result (check_mark @ '' Connected'') then
                     Returns (success ''Notion MCP server is connected in Claude Code CLI'' s3)
                   else if str_includes result (ballot_x @ '' Failed to connect'') then
                     Returns (verifier_warning
                                ''Notion MCP server found but failed to connect in Claude Code CLI'' s3)
                   else
                     Returns (verifier_warning
                                ''Notion MCP server found with unknown status in Claude Code CLI'' s3))
                else
                  Returns (verifier_warning
                             ''Notion MCP server not found in Claude Code CLI configuration'' s3))))"

subsection \<open>checkNotionIntegration\<close>

text \<open>\<^verbatim>\<open>token.length > 0\<close> for a truthy \<^verbatim>\<open>token\<close>.\<close>

fun length_positive :: "'n runtime \<Rightarrow> 'n json \<Rightarrow> bool" where
  "length_positive rt (JStr s) = (0 < length s)"
| "length_positive rt (JArr xs ps) = (0 < length xs)"
| "length_positive rt (JObj kvs) =
     (case map_of kvs ''length'' of None \<Rightarrow> False | Some v \<Rightarrow> greater_than_zero rt v)"
| "length_positive rt v = False"

text \<open>
  The condition of lines 564 to 566, a chain of \<^verbatim>\<open>&&\<close>: \<open>Inr None\<close> when some link is
  falsy, \<open>Inr (Some token)\<close> when all are truthy.
\<close>

definition configured_token :: "('n::zero) json \<Rightarrow> js_error + 'n json option" where
  "configured_token cfg =
     (case get_prop cfg ''mcpServers'' of
        Inl e \<Rightarrow> Inl e
      | Inr servers \<Rightarrow>
          if \<not> truthy_opt servers then Inr None
          else
     (case get_prop (the servers) ''notion-mcp'' of
        Inl e \<Rightarrow> Inl e
      | Inr entry \<Rightarrow>
          if \<not> truthy_opt entry then Inr None
          else
     (case get_prop (the entry) ''env'' of
        Inl e \<Rightarrow> Inl e
      | Inr env \<Rightarrow>
          if \<not> truthy_opt env then Inr None
          else
     (case get_prop (the env) ''NOTION_TOKEN'' of
        Inl e \<Rightarrow> Inl e
      | Inr token \<Rightarrow> if \<not> truthy_opt token then Inr None else Inr token))))"

definition setup_instructions :: "string list" where
  "setup_instructions =
     ['''',
      memo @ '' Notion Integration Setup Instructions:'',
      ''1. Go to https://www.notion.so/profile/integrations'',
      ''2. Create a new internal integration or select an existing one'',
      ''3. Copy the integration token (starts with '' @ quoted ''ntn_'' @ '')'',
      ''4. Add the token to your Claude configurations'',
      ''5. Grant page access to your integration in Notion'']"

definition verifier_checkNotionIntegration ::
  "('n::zero) runtime \<Rightarrow> environment \<Rightarrow> verifier \<Rightarrow> verifier" where
  "verifier_checkNotionIntegration rt env s0 =
     (let s1 = log ''Checking Notion integration setup...'' Info s0;
          s2 = (case env_NOTION_TOKEN env of
                  None \<Rightarrow>
                    verifier_warning
                      ''NOTION_TOKEN not set in environment - will need to be configured in Claude configs''
                      s1
                | Some v \<Rightarrow>
                    if v \<noteq> [] then success ''NOTION_TOKEN found in environment'' s1
                    else verifier_warning
                      ''NOTION_TOKEN not set in environment - will need to be configured in Claude configs''
                      s1);
          configPath = path_join rt [claudeConfigDir s2, ''claude_desktop_config.json''];
          s3 = (if existsSync (fs s2) configPath then
                  (case readFileSync (fs s2) configPath of
                     Inl e \<Rightarrow> s2
                   | Inr content \<Rightarrow>
                       (case json_parse rt content of
                          Inl e \<Rightarrow> s2
                        | Inr cfg \<Rightarrow>
                            (case configured_token cfg of
                               Inl e \<Rightarrow> s2
                             | Inr None \<Rightarrow> s2
                             | Inr (Some token) \<Rightarrow>
                                 if length_positive rt token
                                 then success ''NOTION_TOKEN configured in Claude Desktop'' s2
                                 else verifier_warning ''NOTION_TOKEN is empty in Claude Desktop config'' s2)))
                else s2)
      in log_all setup_instructions s3)"

subsection \<open>verify\<close>

text \<open>The summary, lines 593 to 620.\<close>

definition summary :: "verifier \<Rightarrow> verifier outcome" where
  "summary s0 =
     (let s1 = log (replicate 50 (CHR ''='')) Info
                 (log ''VERIFICATION SUMMARY'' Info (log (replicate 50 (CHR ''='')) Info s0))
      in if errors s1 = [] \<and> warnings s1 = [] then
           Returns (success ''All checks passed! Notion MCP server is ready to use.'' s1)
         else
           (let s2 = (if 0 < length (errors s1)
                      then log_all (map (\<lambda>e. ''   - '' @ e) (errors s1))
                             (log (cross_mark @ '' '' @ dec (length (errors s1)) @ '' error(s) found:'')
                                Info s1)
                      else s1);
                s3 = (if 0 < length (warnings s2)
                      then log_all (map (\<lambda>w. ''   - '' @ w) (warnings s2))
                             (log (warning_sign @ '' '' @ dec (length (warnings s2)) @ '' warning(s) found:'')
                                Info s2)
                      else s2)
            in if 0 < length (errors s3) then
                 Exits 1
                   (log (cross_mark @ '' Please fix the errors above before using the Notion MCP server.'')
                      Info (log '''' Info s3))
               else
                 Returns
                   (log (warning_sign
                         @ '' The server should work, but consider addressing the warnings above.'')
                      Info (log '''' Info s3))))"

definition verify :: "('n::zero) runtime \<Rightarrow> environment \<Rightarrow> verifier \<Rightarrow> verifier outcome" where
  "verify rt env s0 =
     and_then
       (verifier_checkSystemDependencies env
          (log '''' Info (log ''Starting Notion MCP Server verification...'' Info s0)))
       (\<lambda>s1.
     and_then (verifier_checkProjectBuild rt env (log '''' Info s1))
       (\<lambda>s2.
     and_then (verifier_checkClaudeDesktopConfig rt (log '''' Info s2))
       (\<lambda>s3.
     and_then (verifier_checkClaudeCodeCLI env (log '''' Info s3))
       (\<lambda>s4.
          summary (log '''' Info (verifier_checkNotionIntegration rt env (log '''' Info s4)))))))"

section \<open>The constructors and the entry points\<close>

text \<open>
  \<^verbatim>\<open>getClaudeConfigDir\<close>, the same \<^verbatim>\<open>switch\<close> in both classes: the configuration directory
  of the platform, \<open>None\<close> in the \<^verbatim>\<open>default\<close> branch.
\<close>

definition getClaudeConfigDir :: "'n runtime \<Rightarrow> environment \<Rightarrow> string option" where
  "getClaudeConfigDir rt env =
     (if os_platform env = ''win32''
      then Some (path_join rt [homedir env, ''AppData'', ''Roaming'', ''Claude''])
      else if os_platform env = ''darwin''
      then Some (path_join rt [homedir env, ''Library'', ''Application Support'', ''Claude''])
      else if os_platform env = ''linux''
      then Some (path_join rt [homedir env, ''.config'', ''claude''])
      else None)"

text \<open>
  The constructor of the installer, lines 19 to 25. In the \<^verbatim>\<open>default\<close> branch
  \<^verbatim>\<open>getClaudeConfigDir\<close> calls \<^verbatim>\<open>this.error\<close>, which prints the message and ends the
  process; the field \<^verbatim>\<open>claudeConfigDir\<close> has no value yet (the empty string stands for
  that).
\<close>

definition new_installer :: "'n runtime \<Rightarrow> environment \<Rightarrow> filesystem \<Rightarrow> 'n installer outcome" where
  "new_installer rt env fsys =
     (let s = \<lparr>platform = os_platform env, projectRoot = project_root env, claudeConfigDir = [],
               fs = fsys, console = [], config = JNull\<rparr>
      in case getClaudeConfigDir rt env of
           None \<Rightarrow> error (''Unsupported platform: '' @ os_platform env) s
         | Some dir \<Rightarrow> Returns (s\<lparr>claudeConfigDir := dir\<rparr>))"

text \<open>
  Lines 306 to 312: the script constructs the installer and calls \<^verbatim>\<open>install\<close>; the
  handler of a rejected promise ends the process with exit code 1.
\<close>

definition installer_main ::
  "('n::zero) runtime \<Rightarrow> environment \<Rightarrow> filesystem \<Rightarrow> 'n installer outcome" where
  "installer_main rt env fsys =
     and_then (new_installer rt env fsys)
       (\<lambda>s. try_catch (install rt env s) (\<lambda>e s'. Exits 1 s'))"

text \<open>
  The constructor of the verifier, lines 352 to 359 of the guide. Its
  \<^verbatim>\<open>getClaudeConfigDir\<close> throws in the \<^verbatim>\<open>default\<close> branch, before the lists of errors and
  warnings are created.
\<close>

definition new_verifier :: "'n runtime \<Rightarrow> environment \<Rightarrow> filesystem \<Rightarrow> js_error + verifier" where
  "new_verifier rt env fsys =
     (case getClaudeConfigDir rt env of
        None \<Rightarrow> Inl (JsError (''Unsupported platform: '' @ os_platform env))
      | Some dir \<Rightarrow>
          Inr \<lparr>platform = os_platform env, projectRoot = project_root env, claudeConfigDir = dir,
               fs = fsys, console = [], errors = [], warnings = []\<rparr>)"

text \<open>
  Lines 624 to 630 of the guide: the constructor is called outside any \<^verbatim>\<open>try\<close>, so its
  exception is caught by nobody (\<open>Inl\<close>); a rejected promise of \<^verbatim>\<open>verify\<close> ends the
  process with exit code 1.
\<close>

definition verifier_main ::
  "('n::zero) runtime \<Rightarrow> environment \<Rightarrow> filesystem \<Rightarrow> js_error + verifier outcome" where
  "verifier_main rt env fsys =
     (case new_verifier rt env fsys of
        Inl e \<Rightarrow> Inl e
      | Inr v \<Rightarrow> Inr (try_catch (verify rt env v) (\<lambda>e s. Exits 1 s)))"

section \<open>Notions used in the statements\<close>

definition desktop_config_path :: "'n runtime \<Rightarrow> 'a script_scheme \<Rightarrow> string" where
  "desktop_config_path rt s = path_join rt [claudeConfigDir s, ''claude_desktop_config.json'']"

definition cli_binary_path :: "'n runtime \<Rightarrow> 'a script_scheme \<Rightarrow> string" where
  "cli_binary_path rt s = path_join rt [projectRoot s, ''bin'', ''cli.mjs'']"

text \<open>A file can be created or overwritten at the path.\<close>

definition writable :: "filesystem \<Rightarrow> string \<Rightarrow> bool" where
  "writable fsys p = (p \<notin> write_fails fsys \<and> p \<notin> dirs fsys)"

text \<open>
  A configuration document in the sense of the data model: an object whose
  \<^verbatim>\<open>mcpServers\<close>, when present, is an object.
\<close>

fun is_object :: "'n json \<Rightarrow> bool" where
  "is_object (JObj kvs) = True"
| "is_object v = False"

fun valid_document :: "'n json \<Rightarrow> bool" where
  "valid_document (JObj kvs) =
     (case map_of kvs ''mcpServers'' of None \<Rightarrow> True | Some servers \<Rightarrow> is_object servers)"
| "valid_document v = False"

text \<open>An object or an array: the values on which lines 188 to 190 do not throw.\<close>

fun is_container :: "'n json \<Rightarrow> bool" where
  "is_container (JObj kvs) = True"
| "is_container (JArr xs ps) = True"
| "is_container v = False"

text \<open>The members of a document, and the entries of its \<^verbatim>\<open>mcpServers\<close> object.\<close>

fun members :: "'n json \<Rightarrow> string \<rightharpoonup> 'n json" where
  "members (JObj kvs) = map_of kvs"
| "members v = Map.empty"

definition servers :: "'n json \<Rightarrow> string \<rightharpoonup> 'n json" where
  "servers doc = (case members doc ''mcpServers'' of None \<Rightarrow> Map.empty | Some v \<Rightarrow> members v)"

text \<open>Lines 188 to 209 as one step on the parsed document.\<close>

definition merge_entry ::
  "('n::zero) runtime \<Rightarrow> string \<Rightarrow> 'n json \<Rightarrow> 'n json \<Rightarrow> js_error + 'n json" where
  "merge_entry rt cliBinaryPath cfg parsed =
     (case ensure_mcpServers rt parsed of
        Inl e \<Rightarrow> Inl e
      | Inr claudeConfig \<Rightarrow> add_notion_entry rt cliBinaryPath cfg claudeConfig)"

fun hangs :: "'s outcome \<Rightarrow> bool" where
  "hangs (Hangs s) = True"
| "hangs other = False"

fun returns :: "'s outcome \<Rightarrow> bool" where
  "returns (Returns s) = True"
| "returns other = False"

section \<open>A sample runtime and sample states\<close>

text \<open>
  A runtime for the examples: \<^verbatim>\<open>JSON.stringify(v, null, 2)\<close> as Node prints documents
  whose strings need no escape and whose numbers are integers, \<^verbatim>\<open>JSON.parse\<close> on the
  texts of the sample documents (every other text is rejected), \<^verbatim>\<open>path.join\<close> on
  POSIX path segments that need no normalisation, and the string conversion of values
  that are not arrays.
\<close>

fun join_with :: "string \<Rightarrow> string list \<Rightarrow> string" where
  "join_with sep [] = []"
| "join_with sep [x] = x"
| "join_with sep (x # y # ys) = x @ sep @ join_with sep (y # ys)"

definition show_int :: "int \<Rightarrow> string" where
  "show_int n = (if n < 0 then ''-'' @ dec (nat (- n)) else dec (nat n))"

definition line_break :: "nat \<Rightarrow> string" where
  "line_break depth = CHR 0x0A # replicate (2 * depth) (CHR '' '')"

fun render :: "nat \<Rightarrow> int json \<Rightarrow> string"
  and render_elements :: "nat \<Rightarrow> int json list \<Rightarrow> string list"
  and render_members :: "nat \<Rightarrow> (string \<times> int json) list \<Rightarrow> string list" where
  "render depth JNull = ''null''"
| "render depth (JBool b) = (if b then ''true'' else ''false'')"
| "render depth (JNum n) = show_int n"
| "render depth (JStr s) = quoted s"
| "render depth (JArr xs ps) =
     (if xs = [] then ''[]''
      else ''['' @ line_break (Suc depth)
           @ join_with ('','' @ line_break (Suc depth)) (render_elements (Suc depth) xs)
           @ line_break depth @ '']'')"
| "render depth (JObj kvs) =
     (if kvs = [] then ''{}''
      else ''{'' @ line_break (Suc depth)
           @ join_with ('','' @ line_break (Suc depth)) (render_members (Suc depth) kvs)
           @ line_break depth @ ''}'')"
| "render_elements depth [] = []"
| "render_elements depth (x # xs) = render depth x # render_elements depth xs"
| "render_members depth [] = []"
| "render_members depth (kv # kvs) =
     (quoted (fst kv) @ '': '' @ render depth (snd kv)) # render_members depth kvs"

definition other_entry :: "int json" where
  "other_entry = JObj [(''command'', JStr ''npx''), (''args'', JArr [JStr ''-y'', JStr ''other-server''] [])]"

definition sample_entry :: "int json" where
  "sample_entry = notion_entry ''/opt/notion/bin/cli.mjs'' (JStr '''')"

definition existing_document :: "int json" where
  "existing_document =
     JObj [(''theme'', JStr ''dark''), (''mcpServers'', JObj [(''other'', other_entry)])]"

definition reconciled_document :: "int json" where
  "reconciled_document =
     JObj [(''theme'', JStr ''dark''),
           (''mcpServers'', JObj [(''other'', other_entry), (''notion-mcp'', sample_entry)])]"

definition fresh_document :: "int json" where
  "fresh_document = JObj [(''mcpServers'', JObj [(''notion-mcp'', sample_entry)])]"

definition sample_documents :: "int json list" where
  "sample_documents = [JNull, existing_document, reconciled_document, fresh_document]"

definition sample_parse :: "string \<Rightarrow> js_error + int json" where
  "sample_parse text =
     (case find (\<lambda>d. render 0 d = text) sample_documents of
        Some d \<Rightarrow> Inr d
      | None \<Rightarrow> Inl (JsError ''Unexpected token in JSON''))"

fun sample_to_string :: "int json \<Rightarrow> string" where
  "sample_to_string (JStr s) = s"
| "sample_to_string JNull = ''null''"
| "sample_to_string (JBool b) = (if b then ''true'' else ''false'')"
| "sample_to_string (JNum n) = show_int n"
| "sample_to_string (JObj kvs) = ''[object Object]''"
| "sample_to_string (JArr xs ps) = []"

fun sample_greater_than_zero :: "int json \<Rightarrow> bool" where
  "sample_greater_than_zero (JNum n) = (0 < n)"
| "sample_greater_than_zero (JBool b) = b"
| "sample_greater_than_zero v = False"

definition sample_runtime :: "int runtime" where
  "sample_runtime =
     \<lparr>json_parse = sample_parse, json_stringify = render 0, to_string = sample_to_string,
      greater_than_zero = sample_greater_than_zero, path_join = join_with ''/''\<rparr>"

definition sample_config_path :: string where
  "sample_config_path = ''/home/u/.config/claude/claude_desktop_config.json''"

definition sample_fs :: "string \<Rightarrow> filesystem" where
  "sample_fs content =
     \<lparr>files = [sample_config_path \<mapsto> content], dirs = {''/home/u/.config/claude''},
      read_fails = {}, write_fails = {}\<rparr>"

definition empty_fs :: filesystem where
  "empty_fs = \<lparr>files = Map.empty, dirs = {}, read_fails = {}, write_fails = {}\<rparr>"

definition sample_installer :: "filesystem \<Rightarrow> int installer" where
  "sample_installer fsys =
     \<lparr>platform = ''linux'', projectRoot = ''/opt/notion'', claudeConfigDir = ''/home/u/.config/claude'',
      fs = fsys, console = [], config = default_config\<rparr>"

definition sample_verifier :: "filesystem \<Rightarrow> verifier" where
  "sample_verifier fsys =
     \<lparr>platform = ''linux'', projectRoot = ''/opt/notion'', claudeConfigDir = ''/home/u/.config/claude'',
      fs = fsys, console = [], errors = [], warnings = []\<rparr>"

text \<open>
  A Linux machine with the clock value and the behaviour of the commands given; every
  child exits when it is sent \<^verbatim>\<open>SIGTERM\<close>.
\<close>

definition sample_env :: "nat \<Rightarrow> (string \<Rightarrow> process) \<Rightarrow> environment" where
  "sample_env time behaviour =
     \<lparr>argv = [''node'', ''scripts/install.cjs''], homedir = ''/home/u'', os_platform = ''linux'',
      project_root = ''/opt/notion'', now = time, run = behaviour,
      handles_SIGTERM = (\<lambda>cmd. False), env_NOTION_TOKEN = None\<rparr>"

text \<open>A command that finishes at once, successfully, printing nothing.\<close>

definition all_succeed :: "string \<Rightarrow> process" where
  "all_succeed cmd = Finishes 5 (Inr []) (\<lambda>fsys. fsys)"

section \<open>States and documents named in the statements\<close>

text \<open>The document written when the installer starts from the empty base.\<close>

definition fresh_entry_document :: "('n::zero) runtime \<Rightarrow> 'n installer \<Rightarrow> 'n json option \<Rightarrow> 'n json" where
  "fresh_entry_document rt s token =
     JObj [(''mcpServers'',
            JObj [(''notion-mcp'', notion_entry (cli_binary_path rt s) (or_empty token))])]"

text \<open>The state right after the backup copy of line 194 and its log line.\<close>

definition backed_up_state :: "environment \<Rightarrow> string \<Rightarrow> string \<Rightarrow> 'n installer \<Rightarrow> 'n installer" where
  "backed_up_state env configPath content s =
     s\<lparr>fs := (fs s)\<lparr>files := (files (fs s))(backup_path env configPath \<mapsto> content)\<rparr>,
       console := console s @
         [(Info, ''Configuring Claude Desktop...''),
          (Info, ''Backed up existing configuration to: '' @ backup_path env configPath)]\<rparr>"

text \<open>The \<^verbatim>\<open>mcpServers\<close> object of a valid document after the entry is set.\<close>

definition merged_servers :: "string \<Rightarrow> 'n json \<Rightarrow> (string \<times> 'n json) list \<Rightarrow> 'n json" where
  "merged_servers cliBinaryPath token kvs =
     JObj (AList.update ''notion-mcp'' (notion_entry cliBinaryPath token)
             (case map_of kvs ''mcpServers'' of Some (JObj es) \<Rightarrow> es | _ \<Rightarrow> []))"

text \<open>
  Sample situations. The installer runs at the clock value 1700000000000, and a second
  time a minute later; the configuration directory may refuse new files while the
  existing configuration file stays writable.
\<close>

definition first_run :: environment where
  "first_run = sample_env 1700000000000 all_succeed"

definition second_run :: environment where
  "second_run = sample_env 1700000060000 all_succeed"

definition locked_directory_fs :: "string \<Rightarrow> filesystem" where
  "locked_directory_fs content =
     (sample_fs content)\<lparr>write_fails := {sample_config_path @ ''.backup.1700000000000''}\<rparr>"

text \<open>
  Two installations over an existing valid document: at the same clock value; and in a
  configuration directory that refuses both backup files.
\<close>

definition reinstall_once :: "int installer outcome" where
  "reinstall_once =
     configureClaudeDesktop sample_runtime first_run
       (sample_installer (sample_fs (render 0 existing_document)))"

definition reinstall_same_clock :: "int installer outcome" where
  "reinstall_same_clock = configureClaudeDesktop sample_runtime first_run (final reinstall_once)"

definition sealed_directory_fs :: "string \<Rightarrow> filesystem" where
  "sealed_directory_fs content =
     (sample_fs content)
       \<lparr>write_fails := {sample_config_path @ ''.backup.1700000000000'',
                        sample_config_path @ ''.backup.1700000060000''}\<rparr>"

definition sealed_once :: "int installer outcome" where
  "sealed_once =
     configureClaudeDesktop sample_runtime first_run
       (sample_installer (sealed_directory_fs (render 0 existing_document)))"

definition sealed_twice :: "int installer outcome" where
  "sealed_twice = configureClaudeDesktop sample_runtime second_run (final sealed_once)"

text \<open>
  An outcome is orderly when the method returns, waits, or ends the process with exit
  code 1: it neither throws nor exits with another code.
\<close>

fun orderly :: "'s outcome \<Rightarrow> bool" where
  "orderly (Returns s) = True"
| "orderly (Exits c s) = (c = 1)"
| "orderly (Throws e s) = False"
| "orderly (Hangs s) = True"

text \<open>Sample surroundings for the examples about external commands and the local configuration file.\<close>

definition broken_install_config_fs :: filesystem where
  "broken_install_config_fs =
     \<lparr>files = [''/opt/notion/scripts/install-config.json'' \<mapsto> ''{ mcpServers: ''],
      dirs = {}, read_fails = {}, write_fails = {}\<rparr>"

definition old_node :: "string \<Rightarrow> process" where
  "old_node cmd =
     (if cmd = ''node --version'' then Finishes 5 (Inr ''v14.17.0\<newline>'') (\<lambda>fsys. fsys)
      else all_succeed cmd)"

definition no_node :: "string \<Rightarrow> process" where
  "no_node cmd =
     (if cmd = ''node --version''
      then Finishes 5 (Inl ''Command failed: node --version'') (\<lambda>fsys. fsys)
      else all_succeed cmd)"

definition node_never_answers :: "string \<Rightarrow> process" where
  "node_never_answers cmd = (if cmd = ''node --version'' then Never else all_succeed cmd)"

definition sample_add_command :: string where
  "sample_add_command = manual_command ''/opt/notion/bin/cli.mjs''"

definition already_registered :: "string \<Rightarrow> process" where
  "already_registered cmd =
     (if cmd = sample_add_command
      then Finishes 5 (Inl ''Command failed: MCP server notion-mcp already exists in user config'')
             (\<lambda>fsys. fsys)
      else all_succeed cmd)"

definition add_rejected :: "string \<Rightarrow> process" where
  "add_rejected cmd =
     (if cmd = sample_add_command
      then Finishes 5 (Inl ''Command failed: claude: command not found'') (\<lambda>fsys. fsys)
      else if cmd = remove_command
      then Finishes 5 (Inl ''Command failed: claude: command not found'') (\<lambda>fsys. fsys)
      else all_succeed cmd)"

text \<open>Outcomes that end the process only with exit code 1, and outcomes that never end it.\<close>

fun exits_with_1 :: "'s outcome \<Rightarrow> bool" where
  "exits_with_1 (Exits c s) = (c = 1)"
| "exits_with_1 other = True"

fun returns_or_hangs :: "'s outcome \<Rightarrow> bool" where
  "returns_or_hangs (Returns s) = True"
| "returns_or_hangs (Hangs s) = True"
| "returns_or_hangs other = False"

fun returns_or_throws :: "'s outcome \<Rightarrow> bool" where
  "returns_or_throws (Returns s) = True"
| "returns_or_throws (Throws e s) = True"
| "returns_or_throws other = False"

text \<open>
  A machine on which everything is in place except the desktop configuration file and
  the registration with the external tool.
\<close>

definition built_fs :: filesystem where
  "built_fs =
     \<lparr>files = [''/opt/notion/bin/cli.mjs'' \<mapsto> ''#!/usr/bin/env node''],
      dirs = {''/opt/notion/node_modules''}, read_fails = {}, write_fails = {}\<rparr>"

definition healthy :: "string \<Rightarrow> process" where
  "healthy cmd =
     (if cmd = ''node --version'' then Finishes 5 (Inr ''v20.11.0\<newline>'') (\<lambda>fsys. fsys)
      else if cmd = help_command ''/opt/notion/bin/cli.mjs''
      then Finishes 200 (Inr ''Usage: notion-mcp-server [options]'') (\<lambda>fsys. fsys)
      else all_succeed cmd)"

text \<open>A machine on which every command fails and the configuration file cannot be written.\<close>

definition nothing_works :: "string \<Rightarrow> process" where
  "nothing_works cmd = Finishes 5 (Inl (''Command failed: '' @ cmd)) (\<lambda>fsys. fsys)"

definition read_only_fs :: filesystem where
  "read_only_fs =
     \<lparr>files = Map.empty, dirs = {''/home/u/.config/claude''}, read_fails = {},
      write_fails = {sample_config_path}\<rparr>"

text \<open>The healthy machine, except that one command never finishes.\<close>

definition never_finishes :: "string \<Rightarrow> string \<Rightarrow> process" where
  "never_finishes stuck cmd = (if cmd = stuck then Never else healthy cmd)"

text \<open>An old runtime whose version line is wrapped in no-break spaces (U+00A0).\<close>

definition old_node_padded :: "string \<Rightarrow> process" where
  "old_node_padded cmd =
     (if cmd = ''node --version''
      then Finishes 5 (Inr ([CHR 0xC2, CHR 0xA0] @ ''v14.17.0'' @ [CHR 0xC2, CHR 0xA0, CHR 0x0A]))
             (\<lambda>fsys. fsys)
      else all_succeed cmd)"

text \<open>
  The exit code of a whole run of the verifier (an exception nobody catches ends the
  process with exit code 1) and the errors it has recorded when it ends; there are none
  when the verifier was never constructed.
\<close>

fun run_exit_code :: "js_error + 's outcome \<Rightarrow> nat option" where
  "run_exit_code (Inl e) = Some 1"
| "run_exit_code (Inr x) = exit_code x"

fun recorded_errors :: "js_error + verifier outcome \<Rightarrow> string list" where
  "recorded_errors (Inl e) = []"
| "recorded_errors (Inr x) = errors (final x)"

text \<open>
  A run of the installer up to the end of the dependency check, and up to the end of
  the smoke test.
\<close>

definition dependencies_checked ::
  "('n::zero) runtime \<Rightarrow> environment \<Rightarrow> filesystem \<Rightarrow> 'n installer outcome" where
  "dependencies_checked rt env fsys =
     and_then (new_installer rt env fsys)
       (\<lambda>s0. and_then (loadConfig rt env (log ''Starting Notion MCP Server installation...'' Info s0))
                (checkSystemDependencies env))"

definition smoke_tested ::
  "('n::zero) runtime \<Rightarrow> environment \<Rightarrow> filesystem \<Rightarrow> 'n installer outcome" where
  "smoke_tested rt env fsys =
     and_then (dependencies_checked rt env fsys)
       (\<lambda>s2. and_then (buildProject rt env s2) (testNotionMcpServer rt env))"

text \<open>
  Sample machines: one on which the build fails, one on which all is built but the
  desktop configuration file cannot be written, a FreeBSD machine, and one on which the
  runtime is missing and \<^verbatim>\<open>claude --version\<close> never finishes.
\<close>

definition build_fails :: "string \<Rightarrow> process" where
  "build_fails cmd =
     (if cmd = ''npm run build''
      then Finishes 900 (Inl ''Command failed: npm run build'') (\<lambda>fsys. fsys)
      else healthy cmd)"

definition built_read_only_fs :: filesystem where
  "built_read_only_fs = built_fs\<lparr>write_fails := {sample_config_path}\<rparr>"

definition freebsd_env :: environment where
  "freebsd_env = (sample_env 1700000000000 healthy)\<lparr>os_platform := ''freebsd''\<rparr>"

definition no_node_stuck_claude :: "string \<Rightarrow> process" where
  "no_node_stuck_claude cmd = (if cmd = ''claude --version'' then Never else no_node cmd)"

section \<open>Basic facts about the model\<close>

lemma log_fields [simp]:
  "fs (log m t s) = fs s"
  "claudeConfigDir (log m t s) = claudeConfigDir s"
  "projectRoot (log m t s) = projectRoot s"
  "platform (log m t s) = platform s"
  "console (log m t s) = console s @ [(t, m)]"
  by (simp_all add: log_def)

lemma log_config [simp]: "config (log m t s) = config s"
  by (simp add: log_def)

lemma log_errors [simp]: "errors (log m t s) = errors s" "warnings (log m t s) = warnings s"
  by (simp_all add: log_def)

lemma paths_log [simp]:
  "desktop_config_path rt (log m t s) = desktop_config_path rt s"
  "cli_binary_path rt (log m t s) = cli_binary_path rt s"
  by (simp_all add: desktop_config_path_def cli_binary_path_def)

lemma backup_path_neq [simp]: "backup_path env p \<noteq> p" "p \<noteq> backup_path env p"
  by (simp_all add: backup_path_def)

lemma readFileSync_exists: "readFileSync fsys p = Inr content \<Longrightarrow> existsSync fsys p"
  by (auto simp add: readFileSync_def existsSync_def split: if_splits option.splits)

lemma writeFileSync_cases:
  "writeFileSync p text fsys =
     (if writable fsys p then Inr (fsys\<lparr>files := (files fsys)(p \<mapsto> text)\<rparr>)
      else Inl (JsError (if p \<in> write_fails fsys then ''EACCES: permission denied, open '' @ p
                         else ''EISDIR: illegal operation on a directory, open '' @ p)))"
  by (simp add: writeFileSync_def writable_def)

lemma copyFileSync_unwritable:
  "readFileSync fsys src = Inr content \<Longrightarrow> \<not> writable fsys dest \<Longrightarrow>
   \<exists>e. copyFileSync src dest fsys = Inl e"
  by (auto simp add: copyFileSync_def writeFileSync_def writable_def)

lemma copyFileSync_writable:
  "readFileSync fsys src = Inr content \<Longrightarrow> writable fsys dest \<Longrightarrow>
   copyFileSync src dest fsys = Inr (fsys\<lparr>files := (files fsys)(dest \<mapsto> content)\<rparr>)"
  by (auto simp add: copyFileSync_def writeFileSync_def writable_def)

subsection \<open>The decimal digits determine the number\<close>

lemma digit_simps:
  "digit 0 = CHR ''0''" "digit 1 = CHR ''1''" "digit 2 = CHR ''2''" "digit 3 = CHR ''3''"
  "digit 4 = CHR ''4''" "digit 5 = CHR ''5''" "digit 6 = CHR ''6''" "digit 7 = CHR ''7''"
  "digit 8 = CHR ''8''" "digit 9 = CHR ''9''" "digit (Suc 0) = CHR ''1''"
  by (simp_all add: digit_def)

lemma digit_value_simps:
  "digit_value 10 (CHR ''0'') = Some 0" "digit_value 10 (CHR ''1'') = Some 1"
  "digit_value 10 (CHR ''2'') = Some 2" "digit_value 10 (CHR ''3'') = Some 3"
  "digit_value 10 (CHR ''4'') = Some 4" "digit_value 10 (CHR ''5'') = Some 5"
  "digit_value 10 (CHR ''6'') = Some 6" "digit_value 10 (CHR ''7'') = Some 7"
  "digit_value 10 (CHR ''8'') = Some 8" "digit_value 10 (CHR ''9'') = Some 9"
  by (simp_all add: digit_value_def)

lemma below_ten:
  "d < 10 \<Longrightarrow> d = 0 \<or> d = 1 \<or> d = 2 \<or> d = 3 \<or> d = 4 \<or> d = 5 \<or> d = 6 \<or> d = 7 \<or> d = 8 \<or> d = 9"
  for d :: nat
  by arith

lemma digit_value_digit: "d < 10 \<Longrightarrow> digit_value 10 (digit d) = Some d"
  by (drule below_ten, elim disjE) (simp_all only: digit_simps digit_value_simps)

lemma digit_in_range: "d < 10 \<Longrightarrow> digit d \<in> set ''0123456789''"
  by (drule below_ten, elim disjE) (simp_all add: digit_simps)

lemma decimal_char:
  "c \<in> set ''0123456789'' \<Longrightarrow>
   c = CHR ''0'' \<or> c = CHR ''1'' \<or> c = CHR ''2'' \<or> c = CHR ''3'' \<or> c = CHR ''4''
   \<or> c = CHR ''5'' \<or> c = CHR ''6'' \<or> c = CHR ''7'' \<or> c = CHR ''8'' \<or> c = CHR ''9''"
  by simp

lemma no_space_first:
  "\<forall>w \<in> set white_space. hd w \<noteq> c \<Longrightarrow> find (\<lambda>w. prefix w (c # cs)) white_space = None"
  by (auto simp add: find_None_iff white_space_def)

lemma decimal_char_facts:
  assumes "c \<in> set ''0123456789''"
  shows "digit_value 10 c \<noteq> None" "trim_start (c # cs) = c # cs" "c \<noteq> CHR ''.''"
    "c \<noteq> CHR ''-''" "c \<noteq> CHR ''+''" "c \<noteq> CHR ''x''" "c \<noteq> CHR ''X''"
proof -
  show "trim_start (c # cs) = c # cs"
    using assms by (subst trim_start.simps, subst no_space_first) (auto simp add: white_space_def)
  show "digit_value 10 c \<noteq> None" "c \<noteq> CHR ''.''" "c \<noteq> CHR ''-''" "c \<noteq> CHR ''+''"
    "c \<noteq> CHR ''x''" "c \<noteq> CHR ''X''"
    using decimal_char [OF assms]
    by (elim disjE; simp add: digit_value_simps)+
qed

lemma digits_value_snoc:
  "digits_value r (ds @ [c]) = digits_value r ds * r + the (digit_value r c)"
  by (simp add: digits_value_def)

lemma digits_value_dec: "digits_value 10 (dec n) = n"
proof (induction n rule: dec.induct)
  case (1 n)
  show ?case
  proof (cases "n < 10")
    case True
    then show ?thesis
      by (simp add: dec.simps [of n] digits_value_def digit_value_digit)
  next
    case False
    with "1" have "digits_value 10 (dec (n div 10)) = n div 10" by simp
    with False show ?thesis
      by (simp add: dec.simps [of n] digits_value_snoc digit_value_digit)
  qed
qed

lemma dec_inject: "dec a = dec b \<Longrightarrow> a = b"
proof -
  assume eq: "dec a = dec b"
  have "digits_value 10 (dec a) = digits_value 10 (dec b)"
    by (simp only: eq)
  then show "a = b"
    by (simp only: digits_value_dec)
qed

lemma backup_path_inject:
  "now env1 \<noteq> now env2 \<Longrightarrow> backup_path env1 p \<noteq> backup_path env2 p"
  by (auto simp add: backup_path_def dest: dec_inject)

section \<open>The desktop configuration: lines 182 to 217\<close>

lemma add_notion_entry_fresh:
  "get_prop cfg ''notionToken'' = Inr token \<Longrightarrow>
   add_notion_entry rt cli cfg fresh_config =
     Inr (JObj [(''mcpServers'', JObj [(''notion-mcp'', notion_entry cli (or_empty token))])])"
  by (simp add: add_notion_entry_def fresh_config_def)

text \<open>
  Whatever exception leaves the \<^verbatim>\<open>try\<close> block, the installer goes on from the empty
  base and writes a document that holds the one entry.
\<close>

lemma configureClaudeDesktop_fresh:
  assumes dir: "existsSync (fs s) (claudeConfigDir s)"
    and ex: "existsSync (fs s) (desktop_config_path rt s)"
    and fail: "read_and_backup rt env (desktop_config_path rt s)
                 (log ''Configuring Claude Desktop...'' Info s) = Inl e"
    and tok: "get_prop (config s) ''notionToken'' = Inr token"
  shows "configureClaudeDesktop rt env s =
     (case writeFileSync (desktop_config_path rt s)
             (json_stringify rt (fresh_entry_document rt s token)) (fs s) of
        Inl err \<Rightarrow>
          Exits 1 (s\<lparr>console := console s @
             [(Info, ''Configuring Claude Desktop...''),
              (Info, ''Warning: Could not parse existing config, creating new one''),
              (Error, ''Failed to write Claude Desktop configuration: '' @ message err)]\<rparr>)
      | Inr fs' \<Rightarrow>
          Returns (s\<lparr>fs := fs', console := console s @
             [(Info, ''Configuring Claude Desktop...''),
              (Info, ''Warning: Could not parse existing config, creating new one''),
              (Success, ''Claude Desktop configuration updated: '' @ desktop_config_path rt s)]\<rparr>))"
  using assms
  by (simp add: configureClaudeDesktop_def ensure_config_dir_def write_desktop_config_def Let_def load_existing_config_def desktop_config_path_def
        cli_binary_path_def add_notion_entry_fresh fresh_entry_document_def error_def success_def log_def
        split: sum.splits)

lemma read_and_backup_fails_parse:
  "readFileSync (fs s) p = Inr content \<Longrightarrow> json_parse rt content = Inl err \<Longrightarrow>
   read_and_backup rt env p (log m t s) = Inl err"
  by (simp add: read_and_backup_def)

lemma read_and_backup_fails_copy:
  "readFileSync (fs s) p = Inr content \<Longrightarrow> \<not> writable (fs s) (backup_path env p) \<Longrightarrow>
   \<exists>e. read_and_backup rt env p (log m t s) = Inl e"
  using copyFileSync_unwritable [of "fs s" p content "backup_path env p"]
  by (auto simp add: read_and_backup_def split: sum.splits)

lemma ensure_mcpServers_container:
  "is_container parsed \<Longrightarrow> \<exists>base. ensure_mcpServers rt parsed = Inr base \<and> is_container base"
  by (cases parsed) (auto simp add: ensure_mcpServers_def)

lemma read_and_backup_ok:
  assumes "readFileSync (fs s) p = Inr content" "json_parse rt content = Inr parsed"
    "ensure_mcpServers rt parsed = Inr base" "writable (fs s) (backup_path env p)"
  shows "read_and_backup rt env p (log ''Configuring Claude Desktop...'' Info s) =
           Inr (base, backed_up_state env p content s)"
  using assms copyFileSync_writable [of "fs s" p content "backup_path env p"]
  by (simp add: read_and_backup_def backed_up_state_def log_def)

lemma configureClaudeDesktop_backed_up:
  assumes dir: "existsSync (fs s) (claudeConfigDir s)"
    and rd: "readFileSync (fs s) (desktop_config_path rt s) = Inr content"
    and ok: "json_parse rt content = Inr parsed"
    and ens: "ensure_mcpServers rt parsed = Inr base"
    and bk: "writable (fs s) (backup_path env (desktop_config_path rt s))"
  shows "configureClaudeDesktop rt env s =
     (case add_notion_entry rt (cli_binary_path rt s) (config s) base of
        Inl e \<Rightarrow> Throws e (backed_up_state env (desktop_config_path rt s) content s)
      | Inr doc \<Rightarrow>
          (case writeFileSync (desktop_config_path rt s) (json_stringify rt doc)
                  (fs (backed_up_state env (desktop_config_path rt s) content s)) of
             Inl e \<Rightarrow>
               Exits 1 (log (''Failed to write Claude Desktop configuration: '' @ message e) Error
                          (backed_up_state env (desktop_config_path rt s) content s))
           | Inr fs' \<Rightarrow>
               Returns (log (''Claude Desktop configuration updated: '' @ desktop_config_path rt s) Success
                          ((backed_up_state env (desktop_config_path rt s) content s)\<lparr>fs := fs'\<rparr>))))"
proof -
  have cfg: "path_join rt [claudeConfigDir s, ''claude_desktop_config.json''] = desktop_config_path rt s"
    and cli: "path_join rt [projectRoot s, ''bin'', ''cli.mjs''] = cli_binary_path rt s"
    by (simp_all add: desktop_config_path_def cli_binary_path_def)
  have st: "cli_binary_path rt (backed_up_state env (desktop_config_path rt s) content s) = cli_binary_path rt s"
    "config (backed_up_state env (desktop_config_path rt s) content s) = config s"
    by (simp_all add: backed_up_state_def cli_binary_path_def)
  show ?thesis
    using dir readFileSync_exists [OF rd] read_and_backup_ok [OF rd ok ens bk] st
    by (simp add: configureClaudeDesktop_def ensure_config_dir_def write_desktop_config_def Let_def load_existing_config_def cfg cli
          error_def success_def split: sum.splits)
qed

subsection \<open>The merge on a valid document\<close>

lemma merge_entry_valid:
  assumes "valid_document (JObj kvs)" "get_prop cfg ''notionToken'' = Inr token"
  shows "merge_entry rt cli cfg (JObj kvs) =
           Inr (JObj (AList.update ''mcpServers'' (merged_servers cli (or_empty token) kvs) kvs))"
proof (cases "map_of kvs ''mcpServers''")
  case None
  with assms show ?thesis
    by (simp add: merge_entry_def ensure_mcpServers_def add_notion_entry_def merged_servers_def
          update_conv')
next
  case (Some v)
  with assms obtain es where "v = JObj es" by (cases v) auto
  with Some assms show ?thesis
    by (simp add: merge_entry_def ensure_mcpServers_def add_notion_entry_def merged_servers_def)
qed

text \<open>
  On a valid document the merge touches nothing but \<^verbatim>\<open>mcpServers["notion-mcp"]\<close>:
  every other member and every other server entry keeps its value.
\<close>

lemma merge_entry_frame:
  assumes "valid_document D" "get_prop cfg ''notionToken'' = Inr token"
  shows "\<exists>D'. merge_entry rt cli cfg D = Inr D' \<and> valid_document D'
           \<and> (\<forall>k. k \<noteq> ''mcpServers'' \<longrightarrow> members D' k = members D k)
           \<and> (\<forall>n. n \<noteq> ''notion-mcp'' \<longrightarrow> servers D' n = servers D n)
           \<and> servers D' ''notion-mcp'' = Some (notion_entry cli (or_empty token))"
proof -
  from assms obtain kvs where D: "D = JObj kvs" by (cases D) auto
  show ?thesis
    using assms unfolding D merge_entry_valid [OF assms [unfolded D]]
    by (auto simp add: update_conv' servers_def merged_servers_def split: option.splits json.splits)
qed

lemma merge_entry_idem:
  assumes "valid_document D" "get_prop cfg ''notionToken'' = Inr token"
    "merge_entry rt cli cfg D = Inr D'"
  shows "merge_entry rt cli cfg D' = Inr D' \<and> valid_document D'"
proof -
  from assms obtain kvs where D: "D = JObj kvs" by (cases D) auto
  have D': "D' = JObj (AList.update ''mcpServers'' (merged_servers cli (or_empty token) kvs) kvs)"
    using assms(3) unfolding D merge_entry_valid [OF assms(1,2) [unfolded D]] by simp
  have v: "valid_document (JObj (AList.update ''mcpServers'' (merged_servers cli (or_empty token) kvs) kvs))"
    by (simp add: update_conv' merged_servers_def)
  show ?thesis
    unfolding D' merge_entry_valid [OF v assms(2)]
    by (simp add: merged_servers_def update_conv')
qed

text \<open>The run that succeeds: backup, merge, write.\<close>

lemma configureClaudeDesktop_merge:
  assumes dir: "existsSync (fs s) (claudeConfigDir s)"
    and rd: "readFileSync (fs s) (desktop_config_path rt s) = Inr content"
    and ok: "json_parse rt content = Inr parsed"
    and merged: "merge_entry rt (cli_binary_path rt s) (config s) parsed = Inr doc"
    and bk: "writable (fs s) (backup_path env (desktop_config_path rt s))"
    and wr: "writable (fs s) (desktop_config_path rt s)"
  shows "configureClaudeDesktop rt env s =
     Returns (s\<lparr>fs := (fs s)\<lparr>files := (files (fs s))
                  (backup_path env (desktop_config_path rt s) \<mapsto> content,
                   desktop_config_path rt s \<mapsto> json_stringify rt doc)\<rparr>,
               console := console s @
                 [(Info, ''Configuring Claude Desktop...''),
                  (Info, ''Backed up existing configuration to: ''
                         @ backup_path env (desktop_config_path rt s)),
                  (Success, ''Claude Desktop configuration updated: '' @ desktop_config_path rt s)]\<rparr>)"
proof -
  from merged obtain base where ens: "ensure_mcpServers rt parsed = Inr base"
    and add: "add_notion_entry rt (cli_binary_path rt s) (config s) base = Inr doc"
    by (auto simp add: merge_entry_def split: sum.splits)
  have w: "writable (fs (backed_up_state env (desktop_config_path rt s) content s)) (desktop_config_path rt s)"
    using wr by (simp add: backed_up_state_def writable_def)
  show ?thesis
    unfolding configureClaudeDesktop_backed_up [OF dir rd ok ens bk]
    using add w by (simp add: writeFileSync_cases backed_up_state_def log_def)
qed

text \<open>
  The frame property on the path that succeeds: when the backup copy and the write go
  through, the document written differs from the valid document read only in
  \<^verbatim>\<open>mcpServers["notion-mcp"]\<close>.
\<close>

lemma configureClaudeDesktop_preserves:
  assumes dir: "existsSync (fs s) (claudeConfigDir s)"
    and rd: "readFileSync (fs s) (desktop_config_path rt s) = Inr content"
    and ok: "json_parse rt content = Inr D"
    and valid: "valid_document D"
    and tok: "get_prop (config s) ''notionToken'' = Inr token"
    and bk: "writable (fs s) (backup_path env (desktop_config_path rt s))"
    and wr: "writable (fs s) (desktop_config_path rt s)"
  shows "\<exists>D'. files (fs (final (configureClaudeDesktop rt env s))) (desktop_config_path rt s)
                 = Some (json_stringify rt D')
           \<and> (\<forall>k. k \<noteq> ''mcpServers'' \<longrightarrow> members D' k = members D k)
           \<and> (\<forall>n. n \<noteq> ''notion-mcp'' \<longrightarrow> servers D' n = servers D n)
           \<and> servers D' ''notion-mcp'' = Some (notion_entry (cli_binary_path rt s) (or_empty token))"
proof -
  from merge_entry_frame [OF valid tok, of rt "cli_binary_path rt s"]
  obtain D' where m: "merge_entry rt (cli_binary_path rt s) (config s) D = Inr D'"
    and frame: "(\<forall>k. k \<noteq> ''mcpServers'' \<longrightarrow> members D' k = members D k)"
      "(\<forall>n. n \<noteq> ''notion-mcp'' \<longrightarrow> servers D' n = servers D n)"
      "servers D' ''notion-mcp'' = Some (notion_entry (cli_binary_path rt s) (or_empty token))"
    by blast
  have "files (fs (final (configureClaudeDesktop rt env s))) (desktop_config_path rt s)
          = Some (json_stringify rt D')"
    unfolding configureClaudeDesktop_merge [OF dir rd ok m bk wr] by simp
  with frame show ?thesis by blast
qed

text \<open>
  The run in which the backup is made: when the target holds JSON that parses to an
  object or an array and the copy of line 194 succeeds, the backup file exists under
  its name when the method ends, however it ends, and holds the content the target had
  before the call. The target is rewritten only after the copy.
\<close>

lemma backup_holds_previous_content:
  assumes dir: "existsSync (fs s) (claudeConfigDir s)"
    and rd: "readFileSync (fs s) (desktop_config_path rt s) = Inr content"
    and ok: "json_parse rt content = Inr parsed"
    and cont: "is_container parsed"
    and bk: "writable (fs s) (backup_path env (desktop_config_path rt s))"
  shows "files (fs (final (configureClaudeDesktop rt env s)))
           (desktop_config_path rt s @ ''.backup.'' @ dec (now env)) = Some content"
proof -
  obtain base where ens: "ensure_mcpServers rt parsed = Inr base"
    using ensure_mcpServers_container [OF cont] by blast
  have "files (fs (final (configureClaudeDesktop rt env s)))
           (backup_path env (desktop_config_path rt s)) = Some content"
    unfolding configureClaudeDesktop_backed_up [OF dir rd ok ens bk]
    by (simp add: writeFileSync_def backed_up_state_def log_def split: sum.splits)
  then show ?thesis
    by (simp add: backup_path_def)
qed

text \<open>
  A document that is neither an object nor an array (\<^verbatim>\<open>null\<close>, a boolean, a number, a
  string) makes lines 188 to 190 throw, in strict mode, before the copy: the installer
  starts from the empty base, as it does for text that does not parse, and makes no
  backup.
\<close>

lemma ensure_mcpServers_primitive:
  "\<not> is_container parsed \<Longrightarrow> \<exists>e. ensure_mcpServers rt parsed = Inl e"
  by (cases parsed) (auto simp add: ensure_mcpServers_def)

lemma primitive_document_starts_fresh:
  assumes dir: "existsSync (fs s) (claudeConfigDir s)"
    and rd: "readFileSync (fs s) (desktop_config_path rt s) = Inr content"
    and ok: "json_parse rt content = Inr parsed"
    and prim: "\<not> is_container parsed"
    and tok: "get_prop (config s) ''notionToken'' = Inr token"
    and wr: "writable (fs s) (desktop_config_path rt s)"
  shows "configureClaudeDesktop rt env s =
           Returns (s\<lparr>fs := (fs s)\<lparr>files := (files (fs s))
                       (desktop_config_path rt s \<mapsto> json_stringify rt (fresh_entry_document rt s token))\<rparr>,
                     console := console s @
                       [(Info, ''Configuring Claude Desktop...''),
                        (Info, ''Warning: Could not parse existing config, creating new one''),
                        (Success, ''Claude Desktop configuration updated: '' @ desktop_config_path rt s)]\<rparr>)"
proof -
  obtain e where "ensure_mcpServers rt parsed = Inl e"
    using ensure_mcpServers_primitive [OF prim] by blast
  then have "read_and_backup rt env (desktop_config_path rt s)
               (log ''Configuring Claude Desktop...'' Info s) = Inl e"
    by (simp add: read_and_backup_def rd ok)
  from configureClaudeDesktop_fresh [OF dir readFileSync_exists [OF rd] this tok] wr
  show ?thesis by (simp add: writeFileSync_cases)
qed

subsection \<open>The sample runtime on the sample documents\<close>

lemma sample_paths [simp]:
  "desktop_config_path sample_runtime (sample_installer F) = sample_config_path"
  "cli_binary_path sample_runtime (sample_installer F) = ''/opt/notion/bin/cli.mjs''"
  by (simp_all add: desktop_config_path_def cli_binary_path_def sample_runtime_def
        sample_installer_def sample_config_path_def)

lemma sample_installer_fields [simp]:
  "fs (sample_installer F) = F"
  "config (sample_installer F) = default_config"
  "console (sample_installer F) = []"
  "claudeConfigDir (sample_installer F) = ''/home/u/.config/claude''"
  "projectRoot (sample_installer F) = ''/opt/notion''"
  by (simp_all add: sample_installer_def)

lemma sample_runtime_fields [simp]:
  "json_parse sample_runtime = sample_parse"
  "json_stringify sample_runtime = render 0"
  "path_join sample_runtime = join_with ''/''"
  by (simp_all add: sample_runtime_def)

lemma sample_token [simp]: "get_prop default_config ''notionToken'' = Inr (Some (JStr ''''))"
  by (simp add: default_config_def)

lemma sample_fresh_document [simp]:
  "fresh_entry_document sample_runtime (sample_installer F) (Some (JStr '''')) = fresh_document"
  by (simp add: fresh_entry_document_def fresh_document_def sample_entry_def or_empty_def)

lemma sample_parse_existing: "sample_parse (render 0 existing_document) = Inr existing_document"
  by (simp add: sample_parse_def sample_documents_def existing_document_def other_entry_def
        quoted_def line_break_def)

lemma sample_parse_reconciled: "sample_parse (render 0 reconciled_document) = Inr reconciled_document"
  by (simp add: sample_parse_def sample_documents_def existing_document_def other_entry_def
        reconciled_document_def sample_entry_def notion_entry_def quoted_def line_break_def)

lemma sample_parse_invalid:
  "sample_parse ''{ mcpServers: '' = Inl (JsError ''Unexpected token in JSON'')"
  by (simp add: sample_parse_def sample_documents_def existing_document_def other_entry_def
        reconciled_document_def fresh_document_def sample_entry_def notion_entry_def
        quoted_def line_break_def)

lemma sample_document_facts [simp]:
  "is_container existing_document"
  "valid_document existing_document"
  "valid_document reconciled_document"
  "valid_document fresh_document"
  "members existing_document ''theme'' = Some (JStr ''dark'')"
  "members reconciled_document ''theme'' = Some (JStr ''dark'')"
  "members fresh_document ''theme'' = None"
  "servers existing_document ''other'' = Some other_entry"
  "servers fresh_document ''other'' = None"
  by (simp_all add: existing_document_def reconciled_document_def fresh_document_def servers_def)

lemma sample_backup_paths [simp]:
  "backup_path first_run p = p @ ''.backup.1700000000000''"
  "backup_path second_run p = p @ ''.backup.1700000060000''"
  by (simp_all add: backup_path_def first_run_def second_run_def sample_env_def dec.simps digit_def)

lemma sample_fs_facts [simp]:
  "existsSync (sample_fs content) ''/home/u/.config/claude''"
  "readFileSync (sample_fs content) sample_config_path = Inr content"
  "writable (sample_fs content) sample_config_path"
  "writable (sample_fs content) (sample_config_path @ ''.backup.1700000000000'')"
  by (simp_all add: sample_fs_def existsSync_def readFileSync_def writable_def sample_config_path_def)

lemma locked_directory_fs_facts [simp]:
  "existsSync (locked_directory_fs content) ''/home/u/.config/claude''"
  "readFileSync (locked_directory_fs content) sample_config_path = Inr content"
  "writable (locked_directory_fs content) sample_config_path"
  "\<not> writable (locked_directory_fs content) (sample_config_path @ ''.backup.1700000000000'')"
  by (simp_all add: locked_directory_fs_def sample_fs_def existsSync_def readFileSync_def
        writable_def sample_config_path_def)

section \<open>Claims about the desktop configuration\<close>

text \<open>
  Claim C1 says that for every valid configuration document at the target path the
  reconciliation keeps every top-level key other than \<^verbatim>\<open>mcpServers\<close> and every server
  entry other than \<^verbatim>\<open>notion-mcp\<close>. The installer does so when the backup copy succeeds
  (\<open>configureClaudeDesktop_preserves\<close>). It does not when the copy fails: here the
  configuration directory refuses new files, the existing file holds a valid document
  with the key \<^verbatim>\<open>theme\<close> and the server \<^verbatim>\<open>other\<close>, and the file written afterwards holds
  neither.
\<close>

theorem locked_directory_loses_existing_keys:
  "sample_parse (render 0 existing_document) = Inr existing_document
   \<and> valid_document existing_document
   \<and> members existing_document ''theme'' = Some (JStr ''dark'')
   \<and> servers existing_document ''other'' = Some other_entry
   \<and> exit_code (configureClaudeDesktop sample_runtime first_run
        (sample_installer (locked_directory_fs (render 0 existing_document)))) = Some 0
   \<and> files (fs (final (configureClaudeDesktop sample_runtime first_run
        (sample_installer (locked_directory_fs (render 0 existing_document)))))) sample_config_path
        = Some (render 0 fresh_document)
   \<and> members fresh_document ''theme'' = None
   \<and> servers fresh_document ''other'' = None"
proof -
  let ?s = "sample_installer (locked_directory_fs (render 0 existing_document))"
  obtain e where "read_and_backup sample_runtime first_run (desktop_config_path sample_runtime ?s)
                    (log ''Configuring Claude Desktop...'' Info ?s) = Inl e"
    using read_and_backup_fails_copy
      [where s = ?s and p = sample_config_path and content = "render 0 existing_document"
         and env = first_run and rt = sample_runtime and m = "''Configuring Claude Desktop...''"
         and t = Info]
    by auto
  then have "configureClaudeDesktop sample_runtime first_run ?s =
      Returns (?s\<lparr>fs := (fs ?s)\<lparr>files := (files (fs ?s))(sample_config_path \<mapsto> render 0 fresh_document)\<rparr>,
                 console := console ?s @
                   [(Info, ''Configuring Claude Desktop...''),
                    (Info, ''Warning: Could not parse existing config, creating new one''),
                    (Success, ''Claude Desktop configuration updated: '' @ sample_config_path)]\<rparr>)"
    using configureClaudeDesktop_fresh [of ?s sample_runtime first_run e "Some (JStr '''')"]
    by (simp add: readFileSync_exists [of _ _ "render 0 existing_document"] writeFileSync_cases)
  then show ?thesis
    by (simp add: sample_parse_existing)
qed

text \<open>
  Claim C2 says that after a call on a target that held valid parseable JSON a backup
  file exists and holds the content the target had before the call. The installer
  makes that backup when the copy of line 194 succeeds (\<open>backup_holds_previous_content\<close>).
  The copy stands inside the \<^verbatim>\<open>try\<close> block whose handler is written for parse failures:
  when the copy fails, the handler swallows the exception, the target is rewritten and
  the method reports success. Here the configuration directory refuses new files and
  the existing file holds a valid document: afterwards the target is the only file, it
  holds the new document, and the previous content is nowhere.
\<close>

theorem locked_directory_leaves_no_backup:
  "sample_parse (render 0 existing_document) = Inr existing_document
   \<and> valid_document existing_document
   \<and> files (locked_directory_fs (render 0 existing_document)) sample_config_path
       = Some (render 0 existing_document)
   \<and> exit_code (configureClaudeDesktop sample_runtime first_run
        (sample_installer (locked_directory_fs (render 0 existing_document)))) = Some 0
   \<and> dom (files (fs (final (configureClaudeDesktop sample_runtime first_run
        (sample_installer (locked_directory_fs (render 0 existing_document))))))) = {sample_config_path}
   \<and> files (fs (final (configureClaudeDesktop sample_runtime first_run
        (sample_installer (locked_directory_fs (render 0 existing_document)))))) sample_config_path
        = Some (render 0 fresh_document)
   \<and> render 0 fresh_document \<noteq> render 0 existing_document
   \<and> console (final (configureClaudeDesktop sample_runtime first_run
        (sample_installer (locked_directory_fs (render 0 existing_document)))))
       = [(Info, ''Configuring Claude Desktop...''),
          (Info, ''Warning: Could not parse existing config, creating new one''),
          (Success, ''Claude Desktop configuration updated: '' @ sample_config_path)]"
proof -
  let ?s = "sample_installer (locked_directory_fs (render 0 existing_document))"
  obtain e where "read_and_backup sample_runtime first_run (desktop_config_path sample_runtime ?s)
                    (log ''Configuring Claude Desktop...'' Info ?s) = Inl e"
    using read_and_backup_fails_copy
      [where s = ?s and p = sample_config_path and content = "render 0 existing_document"
         and env = first_run and rt = sample_runtime and m = "''Configuring Claude Desktop...''"
         and t = Info]
    by auto
  then have run: "configureClaudeDesktop sample_runtime first_run ?s =
      Returns (?s\<lparr>fs := (fs ?s)\<lparr>files := (files (fs ?s))(sample_config_path \<mapsto> render 0 fresh_document)\<rparr>,
                 console := console ?s @
                   [(Info, ''Configuring Claude Desktop...''),
                    (Info, ''Warning: Could not parse existing config, creating new one''),
                    (Success, ''Claude Desktop configuration updated: '' @ sample_config_path)]\<rparr>)"
    using configureClaudeDesktop_fresh [of ?s sample_runtime first_run e "Some (JStr '''')"]
    by (simp add: readFileSync_exists [of _ _ "render 0 existing_document"] writeFileSync_cases)
  have differ: "render 0 fresh_document \<noteq> render 0 existing_document"
    by (simp add: fresh_document_def existing_document_def line_break_def quoted_def)
  have before: "files (locked_directory_fs (render 0 existing_document)) sample_config_path
       = Some (render 0 existing_document)"
    and only: "dom (files (locked_directory_fs (render 0 existing_document))) = {sample_config_path}"
    by (simp_all add: locked_directory_fs_def sample_fs_def)
  show ?thesis
    unfolding run using differ before only
    by (simp add: sample_parse_existing)
qed

text \<open>
  Claim C3: when the file at the target path holds invalid JSON, the method neither
  throws nor waits; it logs the parse failure as an information line that starts with
  \<^verbatim>\<open>Warning:\<close> and goes on. If the target can be written it returns, the file system
  differs from the one before only in the target, which now holds exactly
  \<^verbatim>\<open>{ mcpServers: { "notion-mcp": entry } }\<close>, so no backup was made. If the target
  cannot be written, the write failure (not the parse failure) ends the run with
  exit code 1 and the file system is unchanged.
\<close>

theorem invalid_json_starts_fresh:
  assumes dir: "existsSync (fs s) (claudeConfigDir s)"
    and rd: "readFileSync (fs s) (desktop_config_path rt s) = Inr content"
    and bad: "json_parse rt content = Inl err"
    and tok: "get_prop (config s) ''notionToken'' = Inr token"
  shows "(writable (fs s) (desktop_config_path rt s) \<longrightarrow>
            configureClaudeDesktop rt env s =
              Returns (s\<lparr>fs := (fs s)\<lparr>files := (files (fs s))
                          (desktop_config_path rt s \<mapsto> json_stringify rt (fresh_entry_document rt s token))\<rparr>,
                        console := console s @
                          [(Info, ''Configuring Claude Desktop...''),
                           (Info, ''Warning: Could not parse existing config, creating new one''),
                           (Success, ''Claude Desktop configuration updated: '' @ desktop_config_path rt s)]\<rparr>))
       \<and> (\<not> writable (fs s) (desktop_config_path rt s) \<longrightarrow>
            exit_code (configureClaudeDesktop rt env s) = Some 1
            \<and> fs (final (configureClaudeDesktop rt env s)) = fs s
            \<and> take 2 (drop (length (console s)) (console (final (configureClaudeDesktop rt env s))))
                = [(Info, ''Configuring Claude Desktop...''),
                   (Info, ''Warning: Could not parse existing config, creating new one'')])"
  using configureClaudeDesktop_fresh [OF dir readFileSync_exists [OF rd]
          read_and_backup_fails_parse [OF rd bad] tok, of env]
  by (simp add: writeFileSync_cases)

theorem invalid_json_starts_fresh_witness:
  "configureClaudeDesktop sample_runtime first_run (sample_installer (sample_fs ''{ mcpServers: '')) =
     Returns ((sample_installer (sample_fs ''{ mcpServers: ''))
       \<lparr>fs := (sample_fs ''{ mcpServers: '')
          \<lparr>files := [sample_config_path \<mapsto> render 0 fresh_document]\<rparr>,
        console :=
          [(Info, ''Configuring Claude Desktop...''),
           (Info, ''Warning: Could not parse existing config, creating new one''),
           (Success, ''Claude Desktop configuration updated: '' @ sample_config_path)]\<rparr>)"
  using invalid_json_starts_fresh
    [of "sample_installer (sample_fs ''{ mcpServers: '')" sample_runtime "''{ mcpServers: ''"
        "JsError ''Unexpected token in JSON''" "Some (JStr '''')" first_run]
  by (simp add: sample_parse_invalid) (simp add: sample_fs_def)

text \<open>
  Claim C9: when the existing file is read and parsed but the backup copy fails, the
  exception lands in the handler meant for parse failures. The parsed document is
  dropped, whatever it held, and the file written holds only the \<^verbatim>\<open>notion-mcp\<close> entry.
\<close>

theorem failed_backup_discards_document:
  assumes dir: "existsSync (fs s) (claudeConfigDir s)"
    and rd: "readFileSync (fs s) (desktop_config_path rt s) = Inr content"
    and ok: "json_parse rt content = Inr parsed"
    and nobackup: "\<not> writable (fs s) (backup_path env (desktop_config_path rt s))"
    and tok: "get_prop (config s) ''notionToken'' = Inr token"
    and wr: "writable (fs s) (desktop_config_path rt s)"
  shows "configureClaudeDesktop rt env s =
              Returns (s\<lparr>fs := (fs s)\<lparr>files := (files (fs s))
                          (desktop_config_path rt s \<mapsto> json_stringify rt (fresh_entry_document rt s token))\<rparr>,
                        console := console s @
                          [(Info, ''Configuring Claude Desktop...''),
                           (Info, ''Warning: Could not parse existing config, creating new one''),
                           (Success, ''Claude Desktop configuration updated: '' @ desktop_config_path rt s)]\<rparr>)"
proof -
  obtain e where "read_and_backup rt env (desktop_config_path rt s)
                    (log ''Configuring Claude Desktop...'' Info s) = Inl e"
    using read_and_backup_fails_copy [OF rd nobackup] by blast
  from configureClaudeDesktop_fresh [OF dir readFileSync_exists [OF rd] this tok] wr
  show ?thesis by (simp add: writeFileSync_cases)
qed

theorem failed_backup_discards_document_witness:
  "sample_parse (render 0 reconciled_document) = Inr reconciled_document
   \<and> members reconciled_document ''theme'' = Some (JStr ''dark'')
   \<and> files (fs (final (configureClaudeDesktop sample_runtime first_run
        (sample_installer (locked_directory_fs (render 0 reconciled_document)))))) sample_config_path
       = Some (render 0 fresh_document)
   \<and> members fresh_document ''theme'' = None
   \<and> files (fs (final (configureClaudeDesktop sample_runtime first_run
        (sample_installer (locked_directory_fs (render 0 reconciled_document))))))
        (sample_config_path @ ''.backup.1700000000000'') = None"
  using failed_backup_discards_document
    [of "sample_installer (locked_directory_fs (render 0 reconciled_document))" sample_runtime
        "render 0 reconciled_document" reconciled_document first_run "Some (JStr '''')"]
  by (simp add: sample_parse_reconciled)
     (simp add: locked_directory_fs_def sample_fs_def sample_config_path_def)

text \<open>
  Claim C4 says that of two calls in succession each produces its own backup file. The
  name of the backup is the target's name, \<^verbatim>\<open>.backup.\<close> and the clock value in
  milliseconds, and the copy of line 194 can fail. Two calls over an existing valid
  document that read the same clock value leave one backup file, and it holds what the
  first call wrote: the original content is overwritten. Two calls in a configuration
  directory that refuses new files both report success and leave no backup at all.
\<close>

theorem same_clock_overwrites_backup:
  "exit_code reinstall_once = Some 0
   \<and> exit_code reinstall_same_clock = Some 0
   \<and> dom (files (fs (final reinstall_same_clock)))
       = {sample_config_path, sample_config_path @ ''.backup.1700000000000''}
   \<and> files (fs (final reinstall_same_clock)) (sample_config_path @ ''.backup.1700000000000'')
       = Some (render 0 reconciled_document)
   \<and> render 0 reconciled_document \<noteq> render 0 existing_document
   \<and> exit_code sealed_once = Some 0
   \<and> exit_code sealed_twice = Some 0
   \<and> dom (files (fs (final sealed_twice))) = {sample_config_path}"
proof -
  let ?p = sample_config_path
  let ?b = "sample_config_path @ ''.backup.1700000000000''"
  let ?lines = "\<lambda>second. [(Info, ''Configuring Claude Desktop...''), (Info, second),
                  (Success, ''Claude Desktop configuration updated: '' @ sample_config_path)]"
  let ?s0 = "sample_installer (sample_fs (render 0 existing_document))"
  define s1 where "s1 =
     ?s0\<lparr>fs := (fs ?s0)\<lparr>files := (files (fs ?s0))
                  (?b \<mapsto> render 0 existing_document, ?p \<mapsto> render 0 reconciled_document)\<rparr>,
         console := console ?s0 @ ?lines (''Backed up existing configuration to: '' @ ?b)\<rparr>"
  have merged: "merge_entry sample_runtime (cli_binary_path sample_runtime ?s0) (config ?s0)
                  existing_document = Inr reconciled_document"
    by (simp add: merge_entry_def ensure_mcpServers_def add_notion_entry_def existing_document_def
          reconciled_document_def sample_entry_def or_empty_def)
  have once: "reinstall_once = Returns s1"
    unfolding reinstall_once_def s1_def
    using configureClaudeDesktop_merge
      [where s = ?s0 and rt = sample_runtime and env = first_run
         and content = "render 0 existing_document" and parsed = existing_document
         and doc = reconciled_document, OF _ _ _ merged]
    by (simp add: sample_parse_existing)
  have paths: "desktop_config_path sample_runtime s1 = ?p"
    "cli_binary_path sample_runtime s1 = ''/opt/notion/bin/cli.mjs''"
    by (simp_all add: s1_def desktop_config_path_def cli_binary_path_def sample_installer_def
          sample_config_path_def)
  have dir1: "existsSync (fs s1) (claudeConfigDir s1)"
    by (simp add: s1_def sample_fs_def existsSync_def)
  have rd1: "readFileSync (fs s1) (desktop_config_path sample_runtime s1)
               = Inr (render 0 reconciled_document)"
    unfolding paths by (simp add: s1_def sample_fs_def readFileSync_def)
  have ok1: "json_parse sample_runtime (render 0 reconciled_document) = Inr reconciled_document"
    by (simp add: sample_parse_reconciled)
  have merged1: "merge_entry sample_runtime (cli_binary_path sample_runtime s1) (config s1)
                   reconciled_document = Inr reconciled_document"
    unfolding paths
    by (simp add: s1_def merge_entry_def ensure_mcpServers_def add_notion_entry_def
          reconciled_document_def sample_entry_def or_empty_def)
  have bk1: "writable (fs s1) (backup_path first_run (desktop_config_path sample_runtime s1))"
    and wr1: "writable (fs s1) (desktop_config_path sample_runtime s1)"
    unfolding paths by (simp_all add: s1_def sample_fs_def writable_def sample_config_path_def)
  have files1: "files (fs s1)
      = [?p \<mapsto> render 0 existing_document, ?b \<mapsto> render 0 existing_document,
         ?p \<mapsto> render 0 reconciled_document]"
    by (simp add: s1_def sample_fs_def)
  have differ: "render 0 reconciled_document \<noteq> render 0 existing_document"
    by (simp add: reconciled_document_def existing_document_def line_break_def quoted_def)
  have same_clock: "exit_code reinstall_same_clock = Some 0
     \<and> dom (files (fs (final reinstall_same_clock))) = {?p, ?b}
     \<and> files (fs (final reinstall_same_clock)) ?b = Some (render 0 reconciled_document)"
    unfolding reinstall_same_clock_def once final.simps
      configureClaudeDesktop_merge [OF dir1 rd1 ok1 merged1 bk1 wr1] paths
    by (auto simp add: files1)
  let ?t0 = "sample_installer (sealed_directory_fs (render 0 existing_document))"
  define t1 where "t1 =
     ?t0\<lparr>fs := (fs ?t0)\<lparr>files := (files (fs ?t0))(?p \<mapsto> render 0 fresh_document)\<rparr>,
         console := console ?t0
           @ ?lines ''Warning: Could not parse existing config, creating new one''\<rparr>"
  have sealed: "existsSync (sealed_directory_fs c) ''/home/u/.config/claude''"
    "readFileSync (sealed_directory_fs c) ?p = Inr c"
    "writable (sealed_directory_fs c) ?p"
    "\<not> writable (sealed_directory_fs c) ?b"
    "\<not> writable (sealed_directory_fs c) (sample_config_path @ ''.backup.1700000060000'')"
    for c
    by (simp_all add: sealed_directory_fs_def sample_fs_def existsSync_def readFileSync_def
          writable_def sample_config_path_def)
  obtain e where "read_and_backup sample_runtime first_run (desktop_config_path sample_runtime ?t0)
                    (log ''Configuring Claude Desktop...'' Info ?t0) = Inl e"
    using read_and_backup_fails_copy
      [where s = ?t0 and p = ?p and content = "render 0 existing_document"
         and env = first_run and rt = sample_runtime and m = "''Configuring Claude Desktop...''"
         and t = Info]
    by (auto simp add: sealed)
  then have first: "sealed_once = Returns t1"
    unfolding sealed_once_def t1_def
    using configureClaudeDesktop_fresh [of ?t0 sample_runtime first_run e "Some (JStr '''')"]
    by (simp add: sealed readFileSync_exists [of _ _ "render 0 existing_document"] writeFileSync_cases)
  have tpaths: "desktop_config_path sample_runtime t1 = ?p"
    by (simp add: t1_def desktop_config_path_def sample_installer_def sample_config_path_def)
  have tfs: "fs t1 = (sealed_directory_fs (render 0 existing_document))
                       \<lparr>files := [?p \<mapsto> render 0 fresh_document]\<rparr>"
    by (simp add: t1_def sealed_directory_fs_def sample_fs_def)
  have tdir: "existsSync (fs t1) (claudeConfigDir t1)"
    and trd: "readFileSync (fs t1) ?p = Inr (render 0 fresh_document)"
    and twr: "writable (fs t1) ?p"
    and tbk: "\<not> writable (fs t1) (backup_path second_run ?p)"
    unfolding tfs
    by (simp_all add: t1_def sealed_directory_fs_def sample_fs_def existsSync_def readFileSync_def
          writable_def sample_config_path_def)
  have ttok: "get_prop (config t1) ''notionToken'' = Inr (Some (JStr ''''))"
    by (simp add: t1_def)
  obtain e' where "read_and_backup sample_runtime second_run (desktop_config_path sample_runtime t1)
                    (log ''Configuring Claude Desktop...'' Info t1) = Inl e'"
    unfolding tpaths using read_and_backup_fails_copy [OF trd tbk] by blast
  from configureClaudeDesktop_fresh [OF tdir _ this ttok] readFileSync_exists [OF trd] twr
  have second: "exit_code sealed_twice = Some 0
     \<and> dom (files (fs (final sealed_twice))) = {?p}"
    unfolding sealed_twice_def first final.simps tpaths
    by (simp add: writeFileSync_cases tfs)
  show ?thesis
    using same_clock second differ by (simp add: once first)
qed

text \<open>
  Claim C4, amended: the configuration directory exists and the target holds a valid
  configuration document \<open>D\<close>; the installer's own configuration is loaded (reading
  \<^verbatim>\<open>notionToken\<close> from it does not throw); the target can be written and both backup
  copies succeed; \<open>D1\<close>, the document the merge makes of \<open>D\<close>, is read back unchanged by
  \<^verbatim>\<open>JSON.parse\<close> after \<^verbatim>\<open>JSON.stringify\<close>; the two calls read different clock values.
  Then both calls return, both write the same document \<open>D1\<close>, whose
  \<^verbatim>\<open>mcpServers["notion-mcp"]\<close> is the desired entry, and each call has its own backup
  file: the first holds the original content, the second the text the first call wrote.
\<close>

theorem reconcile_twice:
  assumes dir: "existsSync (fs s0) (claudeConfigDir s0)"
    and rd: "readFileSync (fs s0) (desktop_config_path rt s0) = Inr content0"
    and ok: "json_parse rt content0 = Inr D"
    and valid: "valid_document D"
    and tok: "get_prop (config s0) ''notionToken'' = Inr token"
    and merged: "merge_entry rt (cli_binary_path rt s0) (config s0) D = Inr D1"
    and roundtrip: "json_parse rt (json_stringify rt D1) = Inr D1"
    and wr: "writable (fs s0) (desktop_config_path rt s0)"
    and b1: "writable (fs s0) (backup_path env1 (desktop_config_path rt s0))"
    and b2: "writable (fs s0) (backup_path env2 (desktop_config_path rt s0))"
    and clock: "now env1 \<noteq> now env2"
  shows "\<exists>s1 s2.
           configureClaudeDesktop rt env1 s0 = Returns s1
         \<and> configureClaudeDesktop rt env2 s1 = Returns s2
         \<and> files (fs s1) (desktop_config_path rt s0) = Some (json_stringify rt D1)
         \<and> files (fs s2) (desktop_config_path rt s0) = Some (json_stringify rt D1)
         \<and> servers D1 ''notion-mcp'' = Some (notion_entry (cli_binary_path rt s0) (or_empty token))
         \<and> files (fs s2) (backup_path env1 (desktop_config_path rt s0)) = Some content0
         \<and> files (fs s2) (backup_path env2 (desktop_config_path rt s0)) = Some (json_stringify rt D1)
         \<and> backup_path env1 (desktop_config_path rt s0) \<noteq> backup_path env2 (desktop_config_path rt s0)"
proof -
  let ?p = "desktop_config_path rt s0"
  define s1 where "s1 =
     s0\<lparr>fs := (fs s0)\<lparr>files := (files (fs s0))
                  (backup_path env1 ?p \<mapsto> content0, ?p \<mapsto> json_stringify rt D1)\<rparr>,
        console := console s0 @
          [(Info, ''Configuring Claude Desktop...''),
           (Info, ''Backed up existing configuration to: '' @ backup_path env1 ?p),
           (Success, ''Claude Desktop configuration updated: '' @ ?p)]\<rparr>"
  have first: "configureClaudeDesktop rt env1 s0 = Returns s1"
    unfolding s1_def by (rule configureClaudeDesktop_merge [OF dir rd ok merged b1 wr])
  have same: "desktop_config_path rt s1 = ?p" "cli_binary_path rt s1 = cli_binary_path rt s0"
    "config s1 = config s0" "claudeConfigDir s1 = claudeConfigDir s0"
    by (simp_all add: s1_def desktop_config_path_def cli_binary_path_def)
  have idem: "merge_entry rt (cli_binary_path rt s0) (config s0) D1 = Inr D1"
    using merge_entry_idem [OF valid tok merged] by simp
  have entry: "servers D1 ''notion-mcp'' = Some (notion_entry (cli_binary_path rt s0) (or_empty token))"
    using merge_entry_frame [OF valid tok, of rt "cli_binary_path rt s0"] merged by auto
  have readable: "?p \<notin> read_fails (fs s0)"
    using rd by (auto simp add: readFileSync_def split: if_splits)
  have dir1: "existsSync (fs s1) (claudeConfigDir s1)"
    using dir by (auto simp add: s1_def existsSync_def)
  have rd1: "readFileSync (fs s1) (desktop_config_path rt s1) = Inr (json_stringify rt D1)"
    unfolding same using readable by (simp add: s1_def readFileSync_def)
  have m1: "merge_entry rt (cli_binary_path rt s1) (config s1) D1 = Inr D1"
    unfolding same by (rule idem)
  have b2': "writable (fs s1) (backup_path env2 (desktop_config_path rt s1))"
    and wr1: "writable (fs s1) (desktop_config_path rt s1)"
    unfolding same using b2 wr by (simp_all add: s1_def writable_def)
  define s2 where "s2 =
     s1\<lparr>fs := (fs s1)\<lparr>files := (files (fs s1))
                  (backup_path env2 ?p \<mapsto> json_stringify rt D1, ?p \<mapsto> json_stringify rt D1)\<rparr>,
        console := console s1 @
          [(Info, ''Configuring Claude Desktop...''),
           (Info, ''Backed up existing configuration to: '' @ backup_path env2 ?p),
           (Success, ''Claude Desktop configuration updated: '' @ ?p)]\<rparr>"
  have second: "configureClaudeDesktop rt env2 s1 = Returns s2"
    using configureClaudeDesktop_merge [OF dir1 rd1 roundtrip m1 b2' wr1]
    unfolding same s2_def .
  have distinct: "backup_path env1 ?p \<noteq> backup_path env2 ?p"
    by (rule backup_path_inject [OF clock])
  have "files (fs s1) ?p = Some (json_stringify rt D1)"
    by (simp add: s1_def)
  moreover have "files (fs s2) ?p = Some (json_stringify rt D1)"
    by (simp add: s2_def)
  moreover have "files (fs s2) (backup_path env1 ?p) = Some content0"
    using distinct by (simp add: s2_def s1_def)
  moreover have "files (fs s2) (backup_path env2 ?p) = Some (json_stringify rt D1)"
    by (simp add: s2_def)
  ultimately show ?thesis
    using first second entry distinct by blast
qed

theorem reconcile_twice_witness:
  "\<exists>s1 s2.
     configureClaudeDesktop sample_runtime first_run
       (sample_installer (sample_fs (render 0 existing_document))) = Returns s1
   \<and> configureClaudeDesktop sample_runtime second_run s1 = Returns s2
   \<and> files (fs s1) sample_config_path = Some (render 0 reconciled_document)
   \<and> files (fs s2) sample_config_path = Some (render 0 reconciled_document)
   \<and> servers reconciled_document ''notion-mcp'' = Some sample_entry
   \<and> files (fs s2) (sample_config_path @ ''.backup.1700000000000'') = Some (render 0 existing_document)
   \<and> files (fs s2) (sample_config_path @ ''.backup.1700000060000'') = Some (render 0 reconciled_document)"
proof -
  let ?s0 = "sample_installer (sample_fs (render 0 existing_document))"
  have merged: "merge_entry sample_runtime (cli_binary_path sample_runtime ?s0) (config ?s0)
                  existing_document = Inr reconciled_document"
    by (simp add: merge_entry_def ensure_mcpServers_def add_notion_entry_def existing_document_def
          reconciled_document_def sample_entry_def or_empty_def)
  have b2: "writable (fs ?s0) (backup_path second_run (desktop_config_path sample_runtime ?s0))"
    by (simp add: sample_fs_def writable_def sample_config_path_def)
  have clock: "now first_run \<noteq> now second_run"
    by (simp add: first_run_def second_run_def sample_env_def)
  have entry: "notion_entry ''/opt/notion/bin/cli.mjs'' (or_empty (Some (JStr ''''))) = sample_entry"
    by (simp add: sample_entry_def or_empty_def)
  show ?thesis
    using reconcile_twice [where ?s0.0 = ?s0 and rt = sample_runtime
        and ?content0.0 = "render 0 existing_document" and D = existing_document
        and token = "Some (JStr '''')" and ?D1.0 = reconciled_document
        and ?env1.0 = first_run and ?env2.0 = second_run, OF _ _ _ _ _ merged _ _ _ b2 clock]
    by (simp add: sample_parse_existing sample_parse_reconciled entry)
qed

section \<open>Claims about the local configuration file and the dependency check\<close>

text \<open>
  Claim C10: \<^verbatim>\<open>loadConfig\<close> applies the default configuration
  \<^verbatim>\<open>{ notionToken: "", verbose: false }\<close> only when no file exists at the resolved path.
  When a file exists there, the method either loads what the file parses to or ends the
  process with exit code 1; malformed JSON ends it with exit code 1.
\<close>

theorem malformed_install_config_is_fatal:
  assumes path: "config_path rt env s = Some p"
  shows "(readFileSync (fs s) p = Inr content \<and> json_parse rt content = Inl e \<longrightarrow>
            loadConfig rt env s
              = Exits 1 (log (''Failed to parse configuration file: '' @ message e) Error s))
       \<and> (\<not> existsSync (fs s) p \<longrightarrow>
            loadConfig rt env s
              = Returns (log ''Using default configuration (no config file found)'' Info
                           (s\<lparr>config := JObj [(''notionToken'', JStr ''''), (''verbose'', JBool False)]\<rparr>)))
       \<and> (existsSync (fs s) p \<longrightarrow>
            exit_code (loadConfig rt env s) = Some 1
            \<or> (\<exists>text cfg. readFileSync (fs s) p = Inr text \<and> json_parse rt text = Inr cfg
                  \<and> loadConfig rt env s
                      = Returns (log (''Loaded configuration from: '' @ p) Info (s\<lparr>config := cfg\<rparr>))))"
proof (intro conjI impI)
  assume "readFileSync (fs s) p = Inr content \<and> json_parse rt content = Inl e"
  then show "loadConfig rt env s
      = Exits 1 (log (''Failed to parse configuration file: '' @ message e) Error s)"
    using path readFileSync_exists [of "fs s" p content]
    by (simp add: loadConfig_def error_def)
next
  assume "\<not> existsSync (fs s) p"
  then show "loadConfig rt env s
      = Returns (log ''Using default configuration (no config file found)'' Info
                   (s\<lparr>config := JObj [(''notionToken'', JStr ''''), (''verbose'', JBool False)]\<rparr>))"
    using path by (simp add: loadConfig_def default_config_def)
next
  assume "existsSync (fs s) p"
  then show "exit_code (loadConfig rt env s) = Some 1
      \<or> (\<exists>text cfg. readFileSync (fs s) p = Inr text \<and> json_parse rt text = Inr cfg
            \<and> loadConfig rt env s
                = Returns (log (''Loaded configuration from: '' @ p) Info (s\<lparr>config := cfg\<rparr>)))"
    using path by (auto simp add: loadConfig_def error_def split: sum.splits)
qed

lemma sample_config_path_resolved:
  "config_path sample_runtime first_run (sample_installer F) = Some ''/opt/notion/scripts/install-config.json''"
  by (simp add: config_path_def first_run_def sample_env_def)

theorem malformed_install_config_is_fatal_witness:
  "loadConfig sample_runtime first_run (sample_installer broken_install_config_fs)
     = Exits 1 (log ''Failed to parse configuration file: Unexpected token in JSON'' Error
                  (sample_installer broken_install_config_fs))
   \<and> loadConfig sample_runtime first_run (sample_installer empty_fs)
     = Returns (log ''Using default configuration (no config file found)'' Info
                  ((sample_installer empty_fs)
                     \<lparr>config := JObj [(''notionToken'', JStr ''''), (''verbose'', JBool False)]\<rparr>))"
proof -
  have rd: "readFileSync (fs (sample_installer broken_install_config_fs))
              ''/opt/notion/scripts/install-config.json'' = Inr ''{ mcpServers: ''"
    by (simp add: broken_install_config_fs_def readFileSync_def)
  have absent: "\<not> existsSync (fs (sample_installer empty_fs)) ''/opt/notion/scripts/install-config.json''"
    by (simp add: empty_fs_def existsSync_def)
  show ?thesis
    using malformed_install_config_is_fatal
            [OF sample_config_path_resolved [of broken_install_config_fs],
             of "''{ mcpServers: ''" "JsError ''Unexpected token in JSON''"]
          malformed_install_config_is_fatal
            [OF sample_config_path_resolved [of empty_fs], of "[]" "JsError []"]
          rd absent
    by (simp add: sample_parse_invalid)
qed

subsection \<open>The version of the runtime\<close>

text \<open>
  A version string of the usual shape, \<^verbatim>\<open>v\<close>, the decimal digits of the major version,
  a dot and the rest, has that major version.
\<close>

lemma js_split_first:
  "sep \<notin> set ds \<Longrightarrow> js_split sep (ds @ sep # rest) = ds # js_split sep rest"
  by (induction ds) (auto split: list.splits)

lemma dec_chars: "set (dec n) \<subseteq> set ''0123456789''"
proof (induction n rule: dec.induct)
  case (1 n)
  show ?case
  proof (cases "n < 10")
    case True
    then have "digit n \<in> set ''0123456789''"
      by (rule digit_in_range)
    with True show ?thesis by (simp only: dec.simps [of n]) simp
  next
    case False
    with "1" have "set (dec (n div 10)) \<subseteq> set ''0123456789''" by simp
    moreover have "digit (n mod 10) \<in> set ''0123456789''"
      by (rule digit_in_range) simp
    ultimately show ?thesis using False by (simp only: dec.simps [of n]) simp
  qed
qed

lemma dec_not_empty: "dec n \<noteq> []"
  by (cases "n < 10") (simp_all add: dec.simps [of n])

lemma takeWhile_all: "\<forall>x \<in> set xs. P x \<Longrightarrow> takeWhile P xs = xs"
  by (induction xs) auto

lemma parseInt_dec: "parseInt (dec n) = Some (int n)"
proof -
  have chars: "\<forall>c \<in> set (dec n). c \<in> set ''0123456789''"
    using dec_chars [of n] by blast
  obtain c cs where d: "dec n = c # cs"
    using dec_not_empty [of n] by (cases "dec n") auto
  have c: "c \<in> set ''0123456789''" and cs: "\<forall>x \<in> set cs. x \<in> set ''0123456789''"
    using chars by (simp_all add: d)
  have space: "trim_start (dec n) = dec n"
    using decimal_char_facts(2) [OF c] by (simp add: d)
  have sign: "strip_sign (dec n) = (False, dec n)"
    using decimal_char_facts(4,5) [OF c] by (simp add: d)
  have hex: "strip_hex_prefix (dec n) = (10, dec n)"
  proof (cases cs)
    case Nil
    then show ?thesis by (simp add: d)
  next
    case (Cons b rest)
    with cs have "b \<in> set ''0123456789''" by simp
    from decimal_char_facts(6,7) [OF this] Cons show ?thesis by (simp add: d)
  qed
  have digits: "takeWhile (\<lambda>c. digit_value 10 c \<noteq> None) (dec n) = dec n"
    by (rule takeWhile_all) (use chars decimal_char_facts(1) in blast)
  have "parse_digits 10 (dec n) = Some n"
    unfolding parse_digits_def digits Let_def
    using dec_not_empty [of n] by (simp add: digits_value_dec)
  then show ?thesis
    by (simp add: parseInt_def space sign hex)
qed

text \<open>
  \<^verbatim>\<open>trim\<close> strips every white space character and line terminator of the list, at both
  ends and in any number; it leaves U+0085, U+180E and U+200B, which JavaScript does not
  count as white space.
\<close>

lemma trim_strips_white_space:
  "trim (concat white_space @ ''v14.17.0'' @ concat (rev white_space)) = ''v14.17.0''"
  "trim ([CHR 0xC2, CHR 0x85] @ ''v14'' @ [CHR 0xE2, CHR 0x80, CHR 0x8B])
     = [CHR 0xC2, CHR 0x85] @ ''v14'' @ [CHR 0xE2, CHR 0x80, CHR 0x8B]"
  "trim ([CHR 0xE1, CHR 0xA0, CHR 0x8E] @ ''v14'') = [CHR 0xE1, CHR 0xA0, CHR 0x8E] @ ''v14''"
  "parseInt ([CHR 0xC2, CHR 0xA0, CHR 0x20, CHR 0xEF, CHR 0xBB, CHR 0xBF] @ ''14'') = Some 14"
  by code_simp+

lemma major_version_standard:
  "major_version (''v'' @ dec m @ ''.'' @ rest) = Some (int m)"
proof -
  have "CHR ''.'' \<notin> set (dec m)"
    using dec_chars [of m] decimal_char_facts(3) by blast
  then have "js_split (CHR ''.'') (dec m @ CHR ''.'' # rest) = dec m # js_split (CHR ''.'') rest"
    by (rule js_split_first)
  then show ?thesis
    by (simp add: major_version_def parseInt_dec)
qed

subsection \<open>The dependency check of the installer and of the verifier\<close>

lemma execSync_unbounded:
  "run env cmd = Finishes d res effect \<Longrightarrow>
   execSync env cmd None fsys =
     (case res of Inl m \<Rightarrow> Failed (JsError m) (effect fsys) | Inr out \<Rightarrow> Output out (effect fsys))"
  by (simp add: execSync_def)

lemma verifier_fields [simp]:
  "errors (verifier_error m v) = errors v @ [m]"
  "warnings (verifier_error m v) = warnings v"
  "console (verifier_error m v) = console v @ [(Error, m)]"
  "fs (verifier_error m v) = fs v"
  "errors (verifier_warning m v) = errors v"
  "warnings (verifier_warning m v) = warnings v @ [m]"
  "console (verifier_warning m v) = console v @ [(Warning, m)]"
  "fs (verifier_warning m v) = fs v"
  "errors (success m v) = errors v"
  "warnings (success m v) = warnings v"
  "console (success m v) = console v @ [(Success, m)]"
  "fs (success m v) = fs v"
  by (simp_all add: verifier_error_def verifier_warning_def success_def)

lemma installer_too_old:
  assumes node: "run env ''node --version'' = Finishes d (Inr out) effect"
    and old: "below_16 (trim out)"
  shows "checkSystemDependencies env s =
           Exits 1 (s\<lparr>fs := effect (fs s),
                     console := console s @
                       [(Info, ''Checking system dependencies...''),
                        (Info, ''Node.js version: '' @ trim out @ '' '' @ check_mark),
                        (Error, ''Node.js version 16 or higher is required'')]\<rparr>)"
  using old
  by (simp add: checkSystemDependencies_def Let_def execSync_unbounded [OF node] error_def log_def)

lemma installer_no_node:
  assumes node: "run env ''node --version'' = Finishes d (Inl m) effect"
  shows "checkSystemDependencies env s =
           Exits 1 (s\<lparr>fs := effect (fs s),
                     console := console s @
                       [(Info, ''Checking system dependencies...''),
                        (Error, ''Node.js is not installed or not in PATH'')]\<rparr>)"
  by (simp add: checkSystemDependencies_def Let_def execSync_unbounded [OF node] error_def log_def)

lemma installer_no_npm:
  assumes node: "run env ''node --version'' = Finishes d (Inr out) effect"
    and fine: "\<not> below_16 (trim out)"
    and npm: "run env ''npm --version'' = Finishes d' (Inl m) effect'"
  shows "checkSystemDependencies env s =
           Exits 1 (s\<lparr>fs := effect' (effect (fs s)),
                     console := console s @
                       [(Info, ''Checking system dependencies...''),
                        (Info, ''Node.js version: '' @ trim out @ '' '' @ check_mark),
                        (Error, ''npm is not installed or not in PATH'')]\<rparr>)"
  using fine
  by (simp add: checkSystemDependencies_def Let_def execSync_unbounded [OF node]
        execSync_unbounded [OF npm] error_def log_def)

lemma verifier_too_old:
  assumes node: "run env ''node --version'' = Finishes d (Inr out) effect"
    and old: "below_16 (trim out)"
  shows "prefix (errors v @ [''Node.js version 16 or higher is required''])
           (errors (final (verifier_checkSystemDependencies env v)))
       \<and> warnings (final (verifier_checkSystemDependencies env v)) = warnings v
       \<and> prefix (console v @
                   [(Info, ''Checking system dependencies...''),
                    (Success, ''Node.js version: '' @ trim out),
                    (Error, ''Node.js version 16 or higher is required'')])
           (console (final (verifier_checkSystemDependencies env v)))"
proof (cases "run env ''npm --version''")
  case (Finishes d' res effect')
  then show ?thesis
    using old
    by (cases res)
       (simp_all add: verifier_checkSystemDependencies_def Let_def execSync_def node)
next
  case Never
  then show ?thesis
    using old
    by (simp add: verifier_checkSystemDependencies_def Let_def execSync_def node)
qed

lemma verifier_no_node:
  assumes node: "run env ''node --version'' = Finishes d (Inl m) effect"
  shows "prefix (errors v @ [''Node.js is not installed or not in PATH''])
           (errors (final (verifier_checkSystemDependencies env v)))
       \<and> warnings (final (verifier_checkSystemDependencies env v)) = warnings v"
proof (cases "run env ''npm --version''")
  case (Finishes d' res effect')
  then show ?thesis
    by (cases res)
       (simp_all add: verifier_checkSystemDependencies_def Let_def execSync_def node)
next
  case Never
  then show ?thesis
    by (simp add: verifier_checkSystemDependencies_def Let_def execSync_def node)
qed

lemma verifier_no_npm:
  assumes node: "run env ''node --version'' = Finishes d (Inr out) effect"
    and fine: "\<not> below_16 (trim out)"
    and npm: "run env ''npm --version'' = Finishes d' (Inl m) effect'"
  shows "errors (final (verifier_checkSystemDependencies env v))
           = errors v @ [''npm is not installed or not in PATH'']
       \<and> warnings (final (verifier_checkSystemDependencies env v)) = warnings v"
  using fine
  by (simp add: verifier_checkSystemDependencies_def Let_def execSync_unbounded [OF node]
        execSync_unbounded [OF npm])

text \<open>
  Claim C5. A runtime whose version string has a major version below 16 fails the
  check: the installer prints the version string as detected and ends the process with
  exit code 1; the verifier prints it and records an error, not a warning. A runtime
  or a package manager whose version query fails is a failure of its own, with its own
  message: the installer ends with exit code 1, the verifier records an error.
\<close>

theorem dependency_check_classifies:
  "(run env ''node --version'' = Finishes d (Inr out) effect
      \<and> major_version (trim out) = Some n \<and> n < 16 \<longrightarrow>
        checkSystemDependencies env s =
          Exits 1 (s\<lparr>fs := effect (fs s),
                    console := console s @
                      [(Info, ''Checking system dependencies...''),
                       (Info, ''Node.js version: '' @ trim out @ '' '' @ check_mark),
                       (Error, ''Node.js version 16 or higher is required'')]\<rparr>)
      \<and> prefix (errors v @ [''Node.js version 16 or higher is required''])
           (errors (final (verifier_checkSystemDependencies env v)))
      \<and> warnings (final (verifier_checkSystemDependencies env v)) = warnings v
      \<and> prefix (console v @
                  [(Info, ''Checking system dependencies...''),
                   (Success, ''Node.js version: '' @ trim out),
                   (Error, ''Node.js version 16 or higher is required'')])
           (console (final (verifier_checkSystemDependencies env v))))
   \<and> (run env ''node --version'' = Finishes d (Inl m) effect \<longrightarrow>
        checkSystemDependencies env s =
          Exits 1 (s\<lparr>fs := effect (fs s),
                    console := console s @
                      [(Info, ''Checking system dependencies...''),
                       (Error, ''Node.js is not installed or not in PATH'')]\<rparr>)
      \<and> prefix (errors v @ [''Node.js is not installed or not in PATH''])
           (errors (final (verifier_checkSystemDependencies env v)))
      \<and> warnings (final (verifier_checkSystemDependencies env v)) = warnings v)
   \<and> (run env ''node --version'' = Finishes d (Inr out) effect \<and> \<not> below_16 (trim out)
      \<and> run env ''npm --version'' = Finishes d' (Inl m') effect' \<longrightarrow>
        checkSystemDependencies env s =
          Exits 1 (s\<lparr>fs := effect' (effect (fs s)),
                    console := console s @
                      [(Info, ''Checking system dependencies...''),
                       (Info, ''Node.js version: '' @ trim out @ '' '' @ check_mark),
                       (Error, ''npm is not installed or not in PATH'')]\<rparr>)
      \<and> errors (final (verifier_checkSystemDependencies env v))
           = errors v @ [''npm is not installed or not in PATH'']
      \<and> warnings (final (verifier_checkSystemDependencies env v)) = warnings v)"
proof (intro conjI impI)
  assume a: "run env ''node --version'' = Finishes d (Inr out) effect
               \<and> major_version (trim out) = Some n \<and> n < 16"
  then have node: "run env ''node --version'' = Finishes d (Inr out) effect"
    and old: "below_16 (trim out)"
    by (simp_all add: below_16_def)
  show "checkSystemDependencies env s =
          Exits 1 (s\<lparr>fs := effect (fs s),
                    console := console s @
                      [(Info, ''Checking system dependencies...''),
                       (Info, ''Node.js version: '' @ trim out @ '' '' @ check_mark),
                       (Error, ''Node.js version 16 or higher is required'')]\<rparr>)"
    by (rule installer_too_old [OF node old])
  show "prefix (errors v @ [''Node.js version 16 or higher is required''])
           (errors (final (verifier_checkSystemDependencies env v)))"
    "warnings (final (verifier_checkSystemDependencies env v)) = warnings v"
    "prefix (console v @
                  [(Info, ''Checking system dependencies...''),
                   (Success, ''Node.js version: '' @ trim out),
                   (Error, ''Node.js version 16 or higher is required'')])
           (console (final (verifier_checkSystemDependencies env v)))"
    using verifier_too_old [OF node old, of v] by blast+
next
  assume node: "run env ''node --version'' = Finishes d (Inl m) effect"
  show "checkSystemDependencies env s =
          Exits 1 (s\<lparr>fs := effect (fs s),
                    console := console s @
                      [(Info, ''Checking system dependencies...''),
                       (Error, ''Node.js is not installed or not in PATH'')]\<rparr>)"
    by (rule installer_no_node [OF node])
  show "prefix (errors v @ [''Node.js is not installed or not in PATH''])
           (errors (final (verifier_checkSystemDependencies env v)))"
    "warnings (final (verifier_checkSystemDependencies env v)) = warnings v"
    using verifier_no_node [OF node, of v] by blast+
next
  assume a: "run env ''node --version'' = Finishes d (Inr out) effect \<and> \<not> below_16 (trim out)
      \<and> run env ''npm --version'' = Finishes d' (Inl m') effect'"
  then have node: "run env ''node --version'' = Finishes d (Inr out) effect"
    and fine: "\<not> below_16 (trim out)"
    and npm: "run env ''npm --version'' = Finishes d' (Inl m') effect'"
    by simp_all
  show "checkSystemDependencies env s =
          Exits 1 (s\<lparr>fs := effect' (effect (fs s)),
                    console := console s @
                      [(Info, ''Checking system dependencies...''),
                       (Info, ''Node.js version: '' @ trim out @ '' '' @ check_mark),
                       (Error, ''npm is not installed or not in PATH'')]\<rparr>)"
    by (rule installer_no_npm [OF node fine npm])
  show "errors (final (verifier_checkSystemDependencies env v))
           = errors v @ [''npm is not installed or not in PATH'']"
    "warnings (final (verifier_checkSystemDependencies env v)) = warnings v"
    using verifier_no_npm [OF node fine npm, of v] by blast+
qed

lemma sample_old_version:
  "trim ''v14.17.0\<newline>'' = ''v14.17.0''" "major_version ''v14.17.0'' = Some 14"
  "trim ([CHR 0xC2, CHR 0xA0] @ ''v14.17.0'' @ [CHR 0xC2, CHR 0xA0, CHR 0x0A]) = ''v14.17.0''"
  by code_simp+

theorem dependency_check_classifies_witness:
  "checkSystemDependencies (sample_env 1700000000000 old_node) (sample_installer empty_fs) =
     Exits 1 ((sample_installer empty_fs)
       \<lparr>console :=
          [(Info, ''Checking system dependencies...''),
           (Info, ''Node.js version: v14.17.0 '' @ check_mark),
           (Error, ''Node.js version 16 or higher is required'')]\<rparr>)
   \<and> prefix [''Node.js version 16 or higher is required'']
        (errors (final (verifier_checkSystemDependencies (sample_env 1700000000000 old_node)
                          (sample_verifier empty_fs))))
   \<and> warnings (final (verifier_checkSystemDependencies (sample_env 1700000000000 old_node)
                         (sample_verifier empty_fs))) = []
   \<and> checkSystemDependencies (sample_env 1700000000000 old_node_padded) (sample_installer empty_fs) =
     Exits 1 ((sample_installer empty_fs)
       \<lparr>console :=
          [(Info, ''Checking system dependencies...''),
           (Info, ''Node.js version: v14.17.0 '' @ check_mark),
           (Error, ''Node.js version 16 or higher is required'')]\<rparr>)
   \<and> exit_code (checkSystemDependencies (sample_env 1700000000000 no_node) (sample_installer empty_fs))
       = Some 1
   \<and> prefix [''Node.js is not installed or not in PATH'']
        (errors (final (verifier_checkSystemDependencies (sample_env 1700000000000 no_node)
                          (sample_verifier empty_fs))))"
proof -
  have old: "run (sample_env 1700000000000 old_node) ''node --version''
               = Finishes 5 (Inr ''v14.17.0\<newline>'') (\<lambda>fsys. fsys)"
    by (simp add: sample_env_def old_node_def)
  have padded: "run (sample_env 1700000000000 old_node_padded) ''node --version''
               = Finishes 5 (Inr ([CHR 0xC2, CHR 0xA0] @ ''v14.17.0'' @ [CHR 0xC2, CHR 0xA0, CHR 0x0A]))
                   (\<lambda>fsys. fsys)"
    by (simp add: sample_env_def old_node_padded_def)
  have none: "run (sample_env 1700000000000 no_node) ''node --version''
               = Finishes 5 (Inl ''Command failed: node --version'') (\<lambda>fsys. fsys)"
    by (simp add: sample_env_def no_node_def)
  show ?thesis
    using dependency_check_classifies
            [where env = "sample_env 1700000000000 old_node" and d = 5
               and out = "''v14.17.0\<newline>''" and effect = "\<lambda>fsys. fsys" and n = 14
               and s = "sample_installer empty_fs" and v = "sample_verifier empty_fs"]
          dependency_check_classifies
            [where env = "sample_env 1700000000000 old_node_padded" and d = 5
               and out = "[CHR 0xC2, CHR 0xA0] @ ''v14.17.0'' @ [CHR 0xC2, CHR 0xA0, CHR 0x0A]"
               and effect = "\<lambda>fsys. fsys" and n = 14
               and s = "sample_installer empty_fs" and v = "sample_verifier empty_fs"]
          dependency_check_classifies
            [where env = "sample_env 1700000000000 no_node" and d = 5
               and m = "''Command failed: node --version''" and effect = "\<lambda>fsys. fsys"
               and s = "sample_installer empty_fs" and v = "sample_verifier empty_fs"]
    unfolding old padded none sample_old_version
    by (simp add: sample_verifier_def sample_installer_def)
qed

section \<open>Claims about the external commands\<close>

lemma get_prop_not_null: "get_prop c k = Inr x \<Longrightarrow> \<exists>y. get_prop c k' = Inr y"
  by (cases c) auto

lemma remove_existing_finishes:
  "run env remove_command = Finishes d res effect \<Longrightarrow>
   remove_existing env s =
     Returns (s\<lparr>fs := effect (fs s),
               console := console s @
                 [(Info, ''Checking for existing Claude Code CLI MCP server...''),
                  (Info, case res of
                           Inl m \<Rightarrow> ''No existing MCP server found (expected for fresh installation)''
                         | Inr out \<Rightarrow> ''Removed existing MCP server configuration'')]\<rparr>)"
  by (cases res) (simp_all add: remove_existing_def Let_def execSync_def log_def)




subsection \<open>Which invocations are bounded\<close>

text \<open>
  The call waits forever exactly when the child never finishes and either no timeout
  was passed or the child handles the signal.
\<close>

lemma execSync_blocked:
  "(execSync env cmd timeout fsys = Blocked)
     = (run env cmd = Never \<and> (timeout = None \<or> handles_SIGTERM env cmd))"
  by (cases "run env cmd"; cases timeout) (simp_all add: execSync_def split: sum.splits)

lemma execSync_never: "run env cmd = Never \<Longrightarrow> execSync env cmd None fsys = Blocked"
  by (simp add: execSync_def)

lemma execSync_killed:
  "\<not> handles_SIGTERM env cmd \<Longrightarrow> (\<forall>d res e. run env cmd = Finishes d res e \<longrightarrow> t < d) \<Longrightarrow>
   execSync env cmd (Some t) fsys = Failed (JsError ''spawnSync /bin/sh ETIMEDOUT'') fsys"
  by (cases "run env cmd") (simp_all add: execSync_def)

lemma execSync_outlives:
  "run env cmd = Finishes d res e \<Longrightarrow> t < d \<Longrightarrow>
   execSync env cmd (Some t) fsys
     = Failed (JsError ''spawnSync /bin/sh ETIMEDOUT'') (if handles_SIGTERM env cmd then e fsys else fsys)"
  by (simp add: execSync_def)

lemma hangs_and_then:
  "hangs (and_then x f) = (hangs x \<or> (\<exists>s. x = Returns s \<and> hangs (f s)))"
  by (cases x) simp_all

lemma hangs_try_catch:
  "hangs (try_catch x h) = (hangs x \<or> (\<exists>e s. x = Throws e s \<and> hangs (h e s)))"
  by (cases x) simp_all

lemma checkSystemDependencies_hangs:
  "hangs (checkSystemDependencies env s)
     = (run env ''node --version'' = Never
        \<or> (\<exists>d out e. run env ''node --version'' = Finishes d (Inr out) e \<and> \<not> below_16 (trim out))
          \<and> run env ''npm --version'' = Never)"
proof (cases "run env ''node --version''")
  case Never
  then show ?thesis
    by (simp add: checkSystemDependencies_def Let_def execSync_def)
next
  case node: (Finishes d res e)
  show ?thesis
  proof (cases "run env ''npm --version''")
    case Never
    with node show ?thesis
      by (cases res) (simp_all add: checkSystemDependencies_def Let_def execSync_def error_def)
  next
    case (Finishes d' res' e')
    with node show ?thesis
      by (cases res; cases res') (simp_all add: checkSystemDependencies_def Let_def execSync_def error_def)
  qed
qed

lemma verifier_checkSystemDependencies_hangs:
  "hangs (verifier_checkSystemDependencies env v)
     = (run env ''node --version'' = Never \<or> run env ''npm --version'' = Never)"
proof (cases "run env ''node --version''")
  case Never
  then show ?thesis
    by (simp add: verifier_checkSystemDependencies_def Let_def execSync_def)
next
  case node: (Finishes d res e)
  show ?thesis
  proof (cases "run env ''npm --version''")
    case Never
    with node show ?thesis
      by (cases res) (simp_all add: verifier_checkSystemDependencies_def Let_def execSync_def)
  next
    case (Finishes d' res' e')
    with node show ?thesis
      by (cases res; cases res') (simp_all add: verifier_checkSystemDependencies_def Let_def execSync_def)
  qed
qed

lemma run_npm_hangs:
  "hangs (run_npm env cmd s) = (config s \<noteq> JNull \<and> run env cmd = Never)"
proof (cases "config s = JNull")
  case True
  then show ?thesis by (simp add: run_npm_def)
next
  case False
  then obtain verbose where "get_prop (config s) ''verbose'' = Inr verbose"
    by (cases "config s") auto
  with False show ?thesis
    by (cases "run env cmd") (simp_all add: run_npm_def execSync_def split: sum.splits)
qed

lemma run_npm_Returns:
  "(run_npm env cmd s = Returns s') =
     (config s \<noteq> JNull \<and> (\<exists>d out e. run env cmd = Finishes d (Inr out) e \<and> s' = s\<lparr>fs := e (fs s)\<rparr>))"
proof (cases "config s = JNull")
  case True
  then show ?thesis by (simp add: run_npm_def)
next
  case False
  then obtain verbose where "get_prop (config s) ''verbose'' = Inr verbose"
    by (cases "config s") auto
  with False show ?thesis
    by (cases "run env cmd") (auto simp add: run_npm_def execSync_def split: sum.splits)
qed

lemma buildProject_hangs:
  "hangs (buildProject rt env s)
     = (config s \<noteq> JNull
        \<and> (run env ''npm install'' = Never
           \<or> (\<exists>d out e. run env ''npm install'' = Finishes d (Inr out) e)
             \<and> run env ''npm run build'' = Never))"
  by (auto simp add: buildProject_def Let_def hangs_try_catch hangs_and_then run_npm_hangs
        run_npm_Returns error_def)

lemma configureClaudeCodeCLI_hangs:
  "hangs (configureClaudeCodeCLI rt env s)
     = (run env remove_command = Never
        \<or> run env remove_command \<noteq> Never
          \<and> (\<exists>token. get_prop (config s) ''notionToken'' = Inr token
                \<and> run env (add_command rt (cli_binary_path rt s) token) = Never))"
proof (cases "run env remove_command")
  case Never
  then show ?thesis
    by (simp add: configureClaudeCodeCLI_def Let_def remove_existing_def execSync_def)
next
  case rm: (Finishes d res e)
  have cli: "path_join rt [projectRoot s, ''bin'', ''cli.mjs''] = cli_binary_path rt s"
    by (simp add: cli_binary_path_def)
  show ?thesis
  proof (cases "get_prop (config s) ''notionToken''")
    case (Inl err)
    with rm show ?thesis
      by (simp add: configureClaudeCodeCLI_def Let_def remove_existing_finishes [OF rm] add_server_def
            log_def)
  next
    case (Inr token)
    then obtain verbose where v: "get_prop (config s) ''verbose'' = Inr verbose"
      using get_prop_not_null by blast
    show ?thesis
    proof (cases "run env (add_command rt (cli_binary_path rt s) token)")
      case Never
      with rm Inr v show ?thesis
        by (simp add: configureClaudeCodeCLI_def Let_def cli remove_existing_finishes [OF rm]
              add_server_def execSync_def log_def)
    next
      case (Finishes d' res' e')
      with rm Inr v show ?thesis
        by (cases res')
           (simp_all add: configureClaudeCodeCLI_def Let_def cli remove_existing_finishes [OF rm]
              add_server_def execSync_def log_def)
    qed
  qed
qed

lemma testNotionMcpServer_hangs:
  "hangs (testNotionMcpServer rt env s)
     = (run env (help_command (cli_binary_path rt s)) = Never
        \<and> handles_SIGTERM env (help_command (cli_binary_path rt s)))"
  by (cases "execSync env (help_command (cli_binary_path rt s)) (Some 15000) (fs s)")
     (use execSync_blocked [of env "help_command (cli_binary_path rt s)" "Some 15000" "fs s"]
      in \<open>simp_all add: testNotionMcpServer_def Let_def cli_binary_path_def error_def\<close>)

lemma verifier_checkProjectBuild_hangs:
  "hangs (verifier_checkProjectBuild rt env v)
     = (existsSync (fs v) (path_join rt [projectRoot v, ''node_modules''])
        \<and> existsSync (fs v) (cli_binary_path rt v)
        \<and> run env (help_command (cli_binary_path rt v)) = Never
        \<and> handles_SIGTERM env (help_command (cli_binary_path rt v)))"
  by (cases "execSync env (help_command (cli_binary_path rt v)) (Some 10000) (fs v)")
     (use execSync_blocked [of env "help_command (cli_binary_path rt v)" "Some 10000" "fs v"]
      in \<open>simp_all add: verifier_checkProjectBuild_def Let_def cli_binary_path_def\<close>)

lemma verifier_checkClaudeCodeCLI_hangs:
  "hangs (verifier_checkClaudeCodeCLI env v)
     = (run env ''claude --version'' = Never
        \<or> (\<exists>d out e. run env ''claude --version'' = Finishes d (Inr out) e)
          \<and> run env ''claude mcp list'' = Never \<and> handles_SIGTERM env ''claude mcp list'')"
proof (cases "run env ''claude --version''")
  case Never
  then show ?thesis
    by (simp add: verifier_checkClaudeCodeCLI_def Let_def execSync_def)
next
  case version: (Finishes d res effect)
  show ?thesis
  proof (cases res)
    case (Inl m)
    with version show ?thesis
      by (simp add: verifier_checkClaudeCodeCLI_def Let_def execSync_def)
  next
    case (Inr out)
    with version show ?thesis
      using execSync_blocked [of env "''claude mcp list''" "Some 30000" "effect (fs v)"]
      by (cases "execSync env ''claude mcp list'' (Some 30000) (effect (fs v))")
         (simp_all add: verifier_checkClaudeCodeCLI_def Let_def execSync_unbounded [OF version])
  qed
qed

text \<open>
  Claim C7 says that every external process invocation is subject to a timeout. The
  version query of the runtime has none: if \<^verbatim>\<open>node --version\<close> never finishes, the
  installation waits forever and the process has no exit code.
\<close>

theorem version_query_can_wait_forever:
  "run (sample_env 1700000000000 node_never_answers) ''node --version'' = Never
   \<and> hangs (install sample_runtime (sample_env 1700000000000 node_never_answers)
              (sample_installer empty_fs))
   \<and> exit_code (install sample_runtime (sample_env 1700000000000 node_never_answers)
                  (sample_installer empty_fs)) = None"
proof -
  have never: "run (sample_env 1700000000000 node_never_answers) ''node --version'' = Never"
    by (simp add: sample_env_def node_never_answers_def)
  have path: "config_path sample_runtime (sample_env 1700000000000 node_never_answers)
                (log ''Starting Notion MCP Server installation...'' Info (sample_installer empty_fs))
              = Some ''/opt/notion/scripts/install-config.json''"
    by (simp add: config_path_def sample_env_def)
  have load: "loadConfig sample_runtime (sample_env 1700000000000 node_never_answers)
                (log ''Starting Notion MCP Server installation...'' Info (sample_installer empty_fs))
              = Returns (log ''Using default configuration (no config file found)'' Info
                  ((log ''Starting Notion MCP Server installation...'' Info (sample_installer empty_fs))
                     \<lparr>config := default_config\<rparr>))"
  proof -
    have "\<not> existsSync (fs (log ''Starting Notion MCP Server installation...'' Info
                              (sample_installer empty_fs)))
                 ''/opt/notion/scripts/install-config.json''"
      by (simp add: existsSync_def empty_fs_def)
    then show ?thesis
      by (simp add: loadConfig_def path)
  qed
  have "hangs (install sample_runtime (sample_env 1700000000000 node_never_answers)
              (sample_installer empty_fs))"
    by (simp add: install_def load checkSystemDependencies_def Let_def execSync_never [OF never])
  moreover from this
  have "exit_code (install sample_runtime (sample_env 1700000000000 node_never_answers)
                  (sample_installer empty_fs)) = None"
    by (cases "install sample_runtime (sample_env 1700000000000 node_never_answers)
                 (sample_installer empty_fs)") simp_all
  ultimately show ?thesis using never by simp
qed

text \<open>
  Claim C7, amended. Of the twelve invocations of \<^verbatim>\<open>execSync\<close> three pass a timeout: the
  smoke test of the installer (15000 ms), the test of the CLI binary in the verifier
  (10000 ms) and \<^verbatim>\<open>claude mcp list\<close> in the verifier (30000 ms). At these three the
  script does not wait for a child that exits when it is sent \<^verbatim>\<open>SIGTERM\<close>: when such a
  child outlives its bound the step fails (the smoke test ends the installer with exit
  code 1, the verifier records an error). They wait forever only for a child that never
  finishes and handles the signal. The other nine invocations pass no timeout:
  \<^verbatim>\<open>node --version\<close> and \<^verbatim>\<open>npm --version\<close> in both scripts, \<^verbatim>\<open>npm install\<close>,
  \<^verbatim>\<open>npm run build\<close>, \<^verbatim>\<open>claude mcp remove\<close>, \<^verbatim>\<open>claude mcp add\<close> and \<^verbatim>\<open>claude --version\<close>.
  Each of them, once it is reached, makes its step wait forever when the child never
  finishes; for every method that runs a command the statement says exactly when it
  waits forever.
\<close>

theorem only_three_invocations_are_bounded:
  "hangs (checkSystemDependencies env s)
     = (run env ''node --version'' = Never
        \<or> (\<exists>d out e. run env ''node --version'' = Finishes d (Inr out) e \<and> \<not> below_16 (trim out))
          \<and> run env ''npm --version'' = Never)
   \<and> hangs (verifier_checkSystemDependencies env v)
     = (run env ''node --version'' = Never \<or> run env ''npm --version'' = Never)
   \<and> hangs (buildProject rt env s)
     = (config s \<noteq> JNull
        \<and> (run env ''npm install'' = Never
           \<or> (\<exists>d out e. run env ''npm install'' = Finishes d (Inr out) e)
             \<and> run env ''npm run build'' = Never))
   \<and> hangs (configureClaudeCodeCLI rt env s)
     = (run env remove_command = Never
        \<or> run env remove_command \<noteq> Never
          \<and> (\<exists>token. get_prop (config s) ''notionToken'' = Inr token
                \<and> run env (add_command rt (cli_binary_path rt s) token) = Never))
   \<and> hangs (verifier_checkClaudeCodeCLI env v)
     = (run env ''claude --version'' = Never
        \<or> (\<exists>d out e. run env ''claude --version'' = Finishes d (Inr out) e)
          \<and> run env ''claude mcp list'' = Never \<and> handles_SIGTERM env ''claude mcp list'')
   \<and> hangs (testNotionMcpServer rt env s)
     = (run env (help_command (cli_binary_path rt s)) = Never
        \<and> handles_SIGTERM env (help_command (cli_binary_path rt s)))
   \<and> hangs (verifier_checkProjectBuild rt env v)
     = (existsSync (fs v) (path_join rt [projectRoot v, ''node_modules''])
        \<and> existsSync (fs v) (cli_binary_path rt v)
        \<and> run env (help_command (cli_binary_path rt v)) = Never
        \<and> handles_SIGTERM env (help_command (cli_binary_path rt v)))
   \<and> (\<not> handles_SIGTERM env (help_command (cli_binary_path rt s))
        \<and> (\<forall>d res e. run env (help_command (cli_binary_path rt s)) = Finishes d res e \<longrightarrow> 15000 < d)
        \<longrightarrow>
         testNotionMcpServer rt env s
           = Exits 1 (log ''Notion MCP server test failed: spawnSync /bin/sh ETIMEDOUT'' Error
                        (log ''Testing Notion MCP server...'' Info s)))
   \<and> (\<not> handles_SIGTERM env (help_command (cli_binary_path rt v))
        \<and> (\<forall>d res e. run env (help_command (cli_binary_path rt v)) = Finishes d res e \<longrightarrow> 10000 < d)
        \<and> existsSync (fs v) (path_join rt [projectRoot v, ''node_modules''])
        \<and> existsSync (fs v) (cli_binary_path rt v) \<longrightarrow>
         errors (final (verifier_checkProjectBuild rt env v))
           = errors v @ [''CLI binary test failed: spawnSync /bin/sh ETIMEDOUT''])
   \<and> (\<not> handles_SIGTERM env ''claude mcp list''
        \<and> (\<forall>d res e. run env ''claude mcp list'' = Finishes d res e \<longrightarrow> 30000 < d)
        \<and> run env ''claude --version'' = Finishes d0 (Inr out0) effect0 \<longrightarrow>
         errors (final (verifier_checkClaudeCodeCLI env v))
           = errors v @ [''Failed to check Claude Code CLI MCP servers: spawnSync /bin/sh ETIMEDOUT''])"
proof (intro conjI impI)
  show "hangs (checkSystemDependencies env s)
     = (run env ''node --version'' = Never
        \<or> (\<exists>d out e. run env ''node --version'' = Finishes d (Inr out) e \<and> \<not> below_16 (trim out))
          \<and> run env ''npm --version'' = Never)"
    by (rule checkSystemDependencies_hangs)
  show "hangs (verifier_checkSystemDependencies env v)
     = (run env ''node --version'' = Never \<or> run env ''npm --version'' = Never)"
    by (rule verifier_checkSystemDependencies_hangs)
  show "hangs (buildProject rt env s)
     = (config s \<noteq> JNull
        \<and> (run env ''npm install'' = Never
           \<or> (\<exists>d out e. run env ''npm install'' = Finishes d (Inr out) e)
             \<and> run env ''npm run build'' = Never))"
    by (rule buildProject_hangs)
  show "hangs (configureClaudeCodeCLI rt env s)
     = (run env remove_command = Never
        \<or> run env remove_command \<noteq> Never
          \<and> (\<exists>token. get_prop (config s) ''notionToken'' = Inr token
                \<and> run env (add_command rt (cli_binary_path rt s) token) = Never))"
    by (rule configureClaudeCodeCLI_hangs)
  show "hangs (verifier_checkClaudeCodeCLI env v)
     = (run env ''claude --version'' = Never
        \<or> (\<exists>d out e. run env ''claude --version'' = Finishes d (Inr out) e)
          \<and> run env ''claude mcp list'' = Never \<and> handles_SIGTERM env ''claude mcp list'')"
    by (rule verifier_checkClaudeCodeCLI_hangs)
  show "hangs (testNotionMcpServer rt env s)
     = (run env (help_command (cli_binary_path rt s)) = Never
        \<and> handles_SIGTERM env (help_command (cli_binary_path rt s)))"
    by (rule testNotionMcpServer_hangs)
  show "hangs (verifier_checkProjectBuild rt env v)
     = (existsSync (fs v) (path_join rt [projectRoot v, ''node_modules''])
        \<and> existsSync (fs v) (cli_binary_path rt v)
        \<and> run env (help_command (cli_binary_path rt v)) = Never
        \<and> handles_SIGTERM env (help_command (cli_binary_path rt v)))"
    by (rule verifier_checkProjectBuild_hangs)
  show "testNotionMcpServer rt env s
           = Exits 1 (log ''Notion MCP server test failed: spawnSync /bin/sh ETIMEDOUT'' Error
                        (log ''Testing Notion MCP server...'' Info s))"
    if "\<not> handles_SIGTERM env (help_command (cli_binary_path rt s))
        \<and> (\<forall>d res e. run env (help_command (cli_binary_path rt s)) = Finishes d res e \<longrightarrow> 15000 < d)"
  proof -
    from that have obeys: "\<not> handles_SIGTERM env (help_command (cli_binary_path rt s))"
      and slow: "\<forall>d res e. run env (help_command (cli_binary_path rt s)) = Finishes d res e \<longrightarrow> 15000 < d"
      by simp_all
    show ?thesis
      using execSync_killed [OF obeys slow, of "fs s"]
      by (simp add: testNotionMcpServer_def Let_def cli_binary_path_def error_def)
  qed
  show "errors (final (verifier_checkProjectBuild rt env v))
           = errors v @ [''CLI binary test failed: spawnSync /bin/sh ETIMEDOUT'']"
    if "\<not> handles_SIGTERM env (help_command (cli_binary_path rt v))
        \<and> (\<forall>d res e. run env (help_command (cli_binary_path rt v)) = Finishes d res e \<longrightarrow> 10000 < d)
        \<and> existsSync (fs v) (path_join rt [projectRoot v, ''node_modules''])
        \<and> existsSync (fs v) (cli_binary_path rt v)"
  proof -
    from that have obeys: "\<not> handles_SIGTERM env (help_command (cli_binary_path rt v))"
      and slow: "\<forall>d res e. run env (help_command (cli_binary_path rt v)) = Finishes d res e \<longrightarrow> 10000 < d"
      and there: "existsSync (fs v) (path_join rt [projectRoot v, ''node_modules''])"
        "existsSync (fs v) (path_join rt [projectRoot v, ''bin'', ''cli.mjs''])"
      by (simp_all add: cli_binary_path_def)
    show ?thesis
      using execSync_killed [OF obeys slow, of "fs v"] there
      by (simp add: verifier_checkProjectBuild_def Let_def cli_binary_path_def)
  qed
  show "errors (final (verifier_checkClaudeCodeCLI env v))
           = errors v @ [''Failed to check Claude Code CLI MCP servers: spawnSync /bin/sh ETIMEDOUT'']"
    if "\<not> handles_SIGTERM env ''claude mcp list''
        \<and> (\<forall>d res e. run env ''claude mcp list'' = Finishes d res e \<longrightarrow> 30000 < d)
        \<and> run env ''claude --version'' = Finishes d0 (Inr out0) effect0"
  proof -
    from that have obeys: "\<not> handles_SIGTERM env ''claude mcp list''"
      and slow: "\<forall>d res e. run env ''claude mcp list'' = Finishes d res e \<longrightarrow> 30000 < d"
      and version: "run env ''claude --version'' = Finishes d0 (Inr out0) effect0"
      by simp_all
    show ?thesis
      using execSync_killed [OF obeys slow, of "effect0 (fs v)"]
      by (simp add: verifier_checkClaudeCodeCLI_def Let_def execSync_unbounded [OF version])
  qed
qed

lemma sample_version_accepted: "below_16 (trim ''v20.11.0\<newline>'') = False"
  by code_simp

lemma sample_commands:
  "add_command sample_runtime ''/opt/notion/bin/cli.mjs'' (Some (JStr '''')) = sample_add_command"
  "remove_command \<noteq> sample_add_command"
  "help_command ''/opt/notion/bin/cli.mjs'' \<noteq> ''node --version''"
  by (simp_all add: add_command_def sample_add_command_def remove_command_def manual_command_def
        help_command_def quoted_def)

theorem only_three_invocations_are_bounded_witness:
  "hangs (checkSystemDependencies (sample_env 1700000000000 (never_finishes ''npm --version''))
            (sample_installer empty_fs))
   \<and> hangs (verifier_checkSystemDependencies (sample_env 1700000000000 (never_finishes ''npm --version''))
              (sample_verifier empty_fs))
   \<and> hangs (buildProject sample_runtime (sample_env 1700000000000 (never_finishes ''npm run build''))
              (sample_installer empty_fs))
   \<and> hangs (configureClaudeCodeCLI sample_runtime
              (sample_env 1700000000000 (never_finishes sample_add_command)) (sample_installer empty_fs))
   \<and> hangs (verifier_checkClaudeCodeCLI (sample_env 1700000000000 (never_finishes ''claude --version''))
              (sample_verifier empty_fs))
   \<and> testNotionMcpServer sample_runtime
       (sample_env 1700000000000 (never_finishes (help_command ''/opt/notion/bin/cli.mjs'')))
       (sample_installer empty_fs)
     = Exits 1 (log ''Notion MCP server test failed: spawnSync /bin/sh ETIMEDOUT'' Error
                  (log ''Testing Notion MCP server...'' Info (sample_installer empty_fs)))
   \<and> hangs (testNotionMcpServer sample_runtime
              ((sample_env 1700000000000 (never_finishes (help_command ''/opt/notion/bin/cli.mjs'')))
                 \<lparr>handles_SIGTERM := \<lambda>cmd. True\<rparr>)
              (sample_installer empty_fs))"
proof -
  have notnull: "default_config \<noteq> (JNull :: int json)"
    by (simp add: default_config_def)
  show ?thesis
    using only_three_invocations_are_bounded
            [of "sample_env 1700000000000 (never_finishes ''npm --version'')"
                "sample_installer empty_fs" "sample_verifier empty_fs" sample_runtime]
          only_three_invocations_are_bounded
            [of "sample_env 1700000000000 (never_finishes ''npm run build'')"
                "sample_installer empty_fs" "sample_verifier empty_fs" sample_runtime]
          only_three_invocations_are_bounded
            [of "sample_env 1700000000000 (never_finishes sample_add_command)"
                "sample_installer empty_fs" "sample_verifier empty_fs" sample_runtime]
          only_three_invocations_are_bounded
            [of "sample_env 1700000000000 (never_finishes ''claude --version'')"
                "sample_installer empty_fs" "sample_verifier empty_fs" sample_runtime]
          only_three_invocations_are_bounded
            [of "sample_env 1700000000000 (never_finishes (help_command ''/opt/notion/bin/cli.mjs''))"
                "sample_installer empty_fs" "sample_verifier empty_fs" sample_runtime]
          only_three_invocations_are_bounded
            [of "(sample_env 1700000000000 (never_finishes (help_command ''/opt/notion/bin/cli.mjs'')))
                   \<lparr>handles_SIGTERM := \<lambda>cmd. True\<rparr>"
                "sample_installer empty_fs" "sample_verifier empty_fs" sample_runtime]
    by (simp add: sample_env_def never_finishes_def healthy_def all_succeed_def sample_commands
          sample_version_accepted notnull)
qed

section \<open>Exit codes\<close>

lemma and_then_Returns:
  "(and_then x f = Returns s') = (\<exists>s1. x = Returns s1 \<and> f s1 = Returns s')"
  by (cases x) auto

lemma and_then_exits_with_1:
  "exits_with_1 x \<Longrightarrow> (\<And>s. exits_with_1 (f s)) \<Longrightarrow> exits_with_1 (and_then x f)"
  by (cases x) auto

lemma and_then_returns_or_hangs:
  "returns_or_hangs x \<Longrightarrow> (\<And>s. returns_or_hangs (f s)) \<Longrightarrow> returns_or_hangs (and_then x f)"
  by (cases x) auto

lemma catch_error_orderly:
  "exits_with_1 x \<Longrightarrow> orderly (try_catch x (\<lambda>e s. error (m e) s))"
  by (cases x) (auto simp add: error_def)

lemma catch_error_Returns:
  "(try_catch x (\<lambda>e s. error (m e) s) = Returns s') = (x = Returns s')"
  by (cases x) (auto simp add: error_def)

lemma orderly_exits_with_1: "orderly x \<Longrightarrow> exits_with_1 x"
  by (cases x) auto

lemma orderly_exit_code:
  "orderly x \<Longrightarrow> exit_code x = None \<or> exit_code x = Some 0 \<or> exit_code x = Some 1"
  by (cases x) auto

lemma orderly_exit_zero: "orderly x \<Longrightarrow> (exit_code x = Some 0) = (\<exists>s'. x = Returns s')"
  by (cases x) auto

subsection \<open>The steps of the installer\<close>

lemma loadConfig_exits: "exits_with_1 (loadConfig rt env s)"
  by (simp add: loadConfig_def error_def split: option.splits sum.splits)

lemma checkSystemDependencies_exits: "exits_with_1 (checkSystemDependencies env s)"
  unfolding checkSystemDependencies_def Let_def
proof (intro and_then_exits_with_1)
  show "exits_with_1
     (case execSync env ''node --version'' None (fs (log ''Checking system dependencies...'' Info s)) of
        Blocked \<Rightarrow> Hangs (log ''Checking system dependencies...'' Info s)
      | Failed e fs' \<Rightarrow>
          error ''Node.js is not installed or not in PATH''
            ((log ''Checking system dependencies...'' Info s)\<lparr>fs := fs'\<rparr>)
      | Output out fs' \<Rightarrow>
          if below_16 (trim out)
          then error ''Node.js version 16 or higher is required''
                 (log (''Node.js version: '' @ trim out @ '' '' @ check_mark) Info
                    ((log ''Checking system dependencies...'' Info s)\<lparr>fs := fs'\<rparr>))
          else Returns
                 (log (''Node.js version: '' @ trim out @ '' '' @ check_mark) Info
                    ((log ''Checking system dependencies...'' Info s)\<lparr>fs := fs'\<rparr>)))"
    by (simp add: error_def split: exec_result.splits)
  show "exits_with_1
     (case execSync env ''npm --version'' None (fs s3) of
        Blocked \<Rightarrow> Hangs s3
      | Failed e fs' \<Rightarrow> error ''npm is not installed or not in PATH'' (s3\<lparr>fs := fs'\<rparr>)
      | Output out fs' \<Rightarrow>
          Returns (log (''npm version: '' @ trim out @ '' '' @ check_mark) Info (s3\<lparr>fs := fs'\<rparr>)))"
    for s3 :: "'a installer"
    by (simp add: error_def split: exec_result.splits)
  show "exits_with_1 (Returns (success ''System dependencies check completed'' s4))"
    for s4 :: "'a installer"
    by simp
qed

lemma buildProject_orderly: "orderly (buildProject rt env s)"
  unfolding buildProject_def Let_def
proof (rule catch_error_orderly, rule and_then_exits_with_1)
  show "exits_with_1 (run_npm env cmd s')" for cmd and s' :: "'a installer"
    by (simp add: run_npm_def split: sum.splits exec_result.splits)
  then show "exits_with_1
     (and_then (run_npm env ''npm run build'' (log ''Building project...'' Info s2))
        (\<lambda>s3. if \<not> existsSync (fs s3) (path_join rt [projectRoot s3, ''bin'', ''cli.mjs''])
               then Throws (JsError ''CLI binary not found after build'') s3
               else Returns (success ''Project build completed successfully'' s3)))"
    for s2 :: "'a installer"
    by (intro and_then_exits_with_1) simp_all
qed

lemma testNotionMcpServer_orderly: "orderly (testNotionMcpServer rt env s)"
  unfolding testNotionMcpServer_def Let_def
  by (rule catch_error_orderly) (simp split: exec_result.splits)

lemma ensure_config_dir_cases:
  "(\<exists>e. ensure_config_dir s1 = Throws e s1)
   \<or> (\<exists>s2. ensure_config_dir s1 = Returns s2 \<and> claudeConfigDir s2 = claudeConfigDir s1
          \<and> write_fails (fs s2) = write_fails (fs s1) \<and> dirs (fs s1) \<subseteq> dirs (fs s2))"
  by (auto simp add: ensure_config_dir_def mkdirSync_def)

lemma write_desktop_config_exits: "exits_with_1 (write_desktop_config rt env s2)"
  by (simp add: write_desktop_config_def Let_def error_def split: prod.splits sum.splits)

lemma write_desktop_config_not_hangs: "\<not> hangs (write_desktop_config rt env s2)"
  by (simp add: write_desktop_config_def Let_def error_def split: prod.splits sum.splits)

lemma configureClaudeDesktop_exits: "exits_with_1 (configureClaudeDesktop rt env s)"
  unfolding configureClaudeDesktop_def
proof (rule and_then_exits_with_1)
  show "exits_with_1 (ensure_config_dir (log ''Configuring Claude Desktop...'' Info s))"
    using ensure_config_dir_cases [of "log ''Configuring Claude Desktop...'' Info s"] by auto
  show "exits_with_1 (write_desktop_config rt env s2)" for s2
    by (rule write_desktop_config_exits)
qed

lemma remove_existing_returns_or_hangs: "returns_or_hangs (remove_existing env s)"
  by (simp add: remove_existing_def Let_def split: exec_result.splits)

lemma configureClaudeCodeCLI_returns_or_hangs: "returns_or_hangs (configureClaudeCodeCLI rt env s)"
proof -
  have inner: "\<not> (\<exists>c s'. and_then (remove_existing env s1) (add_server rt env cli) = Exits c s')"
    for s1 :: "'a installer" and cli
  proof (cases "remove_existing env s1")
    case (Returns s2)
    then show ?thesis
      by (simp add: add_server_def Let_def split: sum.splits exec_result.splits)
  qed (use remove_existing_returns_or_hangs [of env s1] in simp_all)
  show ?thesis
    unfolding configureClaudeCodeCLI_def Let_def
    using inner [of "log ''Configuring Claude Code CLI...'' Info s"
                    "path_join rt [projectRoot (log ''Configuring Claude Code CLI...'' Info s), ''bin'', ''cli.mjs'']"]
    by (cases "and_then (remove_existing env (log ''Configuring Claude Code CLI...'' Info s))
                 (add_server rt env
                    (path_join rt [projectRoot (log ''Configuring Claude Code CLI...'' Info s), ''bin'', ''cli.mjs'']))")
       simp_all
qed

lemma createClaudeConfig_exits: "exits_with_1 (createClaudeConfig rt env s)"
  unfolding createClaudeConfig_def
proof (rule and_then_exits_with_1 [OF configureClaudeDesktop_exits])
  show "exits_with_1 (configureClaudeCodeCLI rt env s')" for s'
    using configureClaudeCodeCLI_returns_or_hangs [of rt env s']
    by (cases "configureClaudeCodeCLI rt env s'") simp_all
qed

lemma install_orderly: "orderly (install rt env s)"
  unfolding install_def
  by (rule catch_error_orderly)
     (intro and_then_exits_with_1 loadConfig_exits checkSystemDependencies_exits
        orderly_exits_with_1 [OF buildProject_orderly] orderly_exits_with_1 [OF testNotionMcpServer_orderly]
        createClaudeConfig_exits, simp)

lemma install_Returns:
  "(\<exists>s'. install rt env s = Returns s') =
   (\<exists>s1 s2 s3 s4 s5.
      loadConfig rt env (log ''Starting Notion MCP Server installation...'' Info s) = Returns s1
    \<and> checkSystemDependencies env s1 = Returns s2
    \<and> buildProject rt env s2 = Returns s3
    \<and> testNotionMcpServer rt env s3 = Returns s4
    \<and> createClaudeConfig rt env s4 = Returns s5)"
  unfolding install_def catch_error_Returns and_then_Returns by blast

lemma load_existing_config_keeps:
  "load_existing_config rt env p s2 = (doc, s3) \<Longrightarrow>
   write_fails (fs s3) = write_fails (fs s2) \<and> dirs (fs s3) = dirs (fs s2)"
  by (auto simp add: load_existing_config_def read_and_backup_def copyFileSync_def writeFileSync_def
        split: if_splits sum.splits)

lemma write_desktop_config_unwritable:
  assumes "\<not> writable (fs s2) (path_join rt [claudeConfigDir s2, ''claude_desktop_config.json''])"
  shows "\<not> returns (write_desktop_config rt env s2)"
proof -
  let ?p = "path_join rt [claudeConfigDir s2, ''claude_desktop_config.json'']"
  obtain doc s3 where l: "load_existing_config rt env ?p s2 = (doc, s3)"
    by (cases "load_existing_config rt env ?p s2") auto
  from load_existing_config_keeps [OF l] assms have "\<not> writable (fs s3) ?p"
    by (simp add: writable_def)
  then show ?thesis
    by (simp add: write_desktop_config_def Let_def l writeFileSync_cases error_def split: sum.splits)
qed

lemma unwritable_target_is_fatal:
  assumes "\<not> writable (fs s) (desktop_config_path rt s)"
  shows "exit_code (configureClaudeDesktop rt env s) = Some 1"
proof -
  let ?s1 = "log ''Configuring Claude Desktop...'' Info s"
  from ensure_config_dir_cases [of ?s1] show ?thesis
  proof (elim disjE exE conjE)
    fix e assume "ensure_config_dir ?s1 = Throws e ?s1"
    then show ?thesis by (simp add: configureClaudeDesktop_def)
  next
    fix s2 assume s2: "ensure_config_dir ?s1 = Returns s2"
      and same: "claudeConfigDir s2 = claudeConfigDir ?s1" "write_fails (fs s2) = write_fails (fs ?s1)"
        "dirs (fs ?s1) \<subseteq> dirs (fs s2)"
    from assms same
    have "\<not> writable (fs s2) (path_join rt [claudeConfigDir s2, ''claude_desktop_config.json''])"
      by (auto simp add: writable_def desktop_config_path_def)
    from write_desktop_config_unwritable [OF this, of env]
      write_desktop_config_not_hangs [of rt env s2] write_desktop_config_exits [of rt env s2]
    have "exit_code (write_desktop_config rt env s2) = Some 1"
      by (cases "write_desktop_config rt env s2") simp_all
    then show ?thesis by (simp add: configureClaudeDesktop_def s2)
  qed
qed

subsection \<open>The steps of the verifier\<close>

lemma and_then_returns_or_throws:
  "returns_or_throws x \<Longrightarrow> (\<And>s. returns_or_throws (f s)) \<Longrightarrow> returns_or_throws (and_then x f)"
  by (cases x) auto

lemma catch_returns:
  "returns_or_throws x \<Longrightarrow> returns_or_hangs (try_catch x (\<lambda>e s. Returns (h e s)))"
  by (cases x) auto

lemma verifier_checkSystemDependencies_returns_or_hangs:
  "returns_or_hangs (verifier_checkSystemDependencies env v)"
  unfolding verifier_checkSystemDependencies_def Let_def
  by (intro and_then_returns_or_hangs) (simp_all split: exec_result.splits)

lemma verifier_checkProjectBuild_returns_or_hangs:
  "returns_or_hangs (verifier_checkProjectBuild rt env v)"
  by (simp add: verifier_checkProjectBuild_def Let_def split: exec_result.splits)

lemma check_notion_entry_returns_or_throws: "returns_or_throws (check_notion_entry rt entry v)"
  unfolding check_notion_entry_def Let_def
  by (intro and_then_returns_or_throws) (simp_all split: sum.splits option.splits)

lemma check_desktop_document_returns_or_throws: "returns_or_throws (check_desktop_document rt p v)"
  by (simp add: check_desktop_document_def check_notion_entry_returns_or_throws split: sum.splits)

lemma verifier_checkClaudeDesktopConfig_returns_or_hangs:
  "returns_or_hangs (verifier_checkClaudeDesktopConfig rt v)"
  by (simp add: verifier_checkClaudeDesktopConfig_def Let_def catch_returns
        check_desktop_document_returns_or_throws)

lemma verifier_checkClaudeCodeCLI_returns_or_hangs:
  "returns_or_hangs (verifier_checkClaudeCodeCLI env v)"
  by (simp add: verifier_checkClaudeCodeCLI_def Let_def split: exec_result.splits)

lemma log_all_errors [simp]: "errors (log_all ms v) = errors v" "warnings (log_all ms v) = warnings v"
proof -
  have "errors (foldl (\<lambda>st m. log m Info st) v ms) = errors v
        \<and> warnings (foldl (\<lambda>st m. log m Info st) v ms) = warnings v"
    by (induction ms arbitrary: v) simp_all
  then show "errors (log_all ms v) = errors v" "warnings (log_all ms v) = warnings v"
    by (simp_all add: log_all_def)
qed

text \<open>The summary exits with 1 exactly when an error was recorded; warnings do not count.\<close>

lemma summary_exit:
  "exit_code (summary v) = Some (if errors v = [] then 0 else 1)
   \<and> errors (final (summary v)) = errors v \<and> warnings (final (summary v)) = warnings v"
  by (simp add: summary_def Let_def)

lemma verify_through:
  assumes "returns_or_hangs x"
    and "\<And>s. \<forall>c. exit_code (f s) = Some c \<longrightarrow> (c \<noteq> 0) = (errors (final (f s)) \<noteq> [])"
  shows "\<forall>c. exit_code (and_then x f) = Some c \<longrightarrow> (c \<noteq> 0) = (errors (final (and_then x f)) \<noteq> [])"
  using assms by (cases x) auto

lemma verify_exit:
  "\<forall>c. exit_code (verify rt env v) = Some c \<longrightarrow> (c \<noteq> 0) = (errors (final (verify rt env v)) \<noteq> [])"
  unfolding verify_def
  by (intro verify_through verifier_checkSystemDependencies_returns_or_hangs
        verifier_checkProjectBuild_returns_or_hangs verifier_checkClaudeDesktopConfig_returns_or_hangs
        verifier_checkClaudeCodeCLI_returns_or_hangs)
     (simp add: summary_exit)

subsection \<open>Fatal steps of the installer\<close>

lemma loadConfig_cases:
  "(\<exists>s1. loadConfig rt env s = Returns s1) \<or> (\<exists>s1. loadConfig rt env s = Exits 1 s1)"
  by (simp add: loadConfig_def error_def split: option.splits sum.splits)

lemma missing_runtime_is_fatal:
  assumes "run env ''node --version'' = Finishes d (Inl m) effect"
  shows "exit_code (install rt env s) = Some 1"
  using loadConfig_cases [of rt env "log ''Starting Notion MCP Server installation...'' Info s"]
  by (auto simp add: install_def installer_no_node [OF assms] error_def)

lemma failed_build_is_fatal:
  assumes "run env ''npm install'' = Finishes d1 (Inl m1) effect1
           \<or> run env ''npm install'' = Finishes d1 (Inr out) effect1
             \<and> run env ''npm run build'' = Finishes d2 (Inl m2) effect2"
  shows "\<exists>s'. buildProject rt env s = Exits 1 s'"
  using assms
  by (auto simp add: buildProject_def Let_def run_npm_def execSync_def error_def split: sum.splits)

subsection \<open>The whole run\<close>

lemma orderly_try_catch: "orderly x \<Longrightarrow> try_catch x h = x"
  by (cases x) simp_all

lemma orderly_and_then: "orderly x \<Longrightarrow> (\<And>s. orderly (f s)) \<Longrightarrow> orderly (and_then x f)"
  by (cases x) simp_all

lemma new_installer_cases:
  "new_installer rt env F =
     (if os_platform env \<in> {''win32'', ''darwin'', ''linux''}
      then Returns \<lparr>platform = os_platform env, projectRoot = project_root env,
                    claudeConfigDir = the (getClaudeConfigDir rt env),
                    fs = F, console = [], config = JNull\<rparr>
      else Exits 1 \<lparr>platform = os_platform env, projectRoot = project_root env, claudeConfigDir = [],
                    fs = F, console = [(Error, ''Unsupported platform: '' @ os_platform env)],
                    config = JNull\<rparr>)"
  by (simp add: new_installer_def getClaudeConfigDir_def Let_def error_def log_def)

lemma installer_main_install:
  "installer_main rt env F = and_then (new_installer rt env F) (install rt env)"
  by (simp add: installer_main_def orderly_try_catch [OF install_orderly])

lemma installer_main_orderly: "orderly (installer_main rt env F)"
  unfolding installer_main_install
  by (rule orderly_and_then) (simp_all add: new_installer_cases install_orderly)

lemma installer_main_Returns:
  "(\<exists>s'. installer_main rt env F = Returns s') =
   (\<exists>s0 s1 s2 s3 s4 s5.
      new_installer rt env F = Returns s0
    \<and> loadConfig rt env (log ''Starting Notion MCP Server installation...'' Info s0) = Returns s1
    \<and> checkSystemDependencies env s1 = Returns s2
    \<and> buildProject rt env s2 = Returns s3
    \<and> testNotionMcpServer rt env s3 = Returns s4
    \<and> createClaudeConfig rt env s4 = Returns s5)"
proof -
  have "(\<exists>s'. installer_main rt env F = Returns s')
          = (\<exists>s0. new_installer rt env F = Returns s0 \<and> (\<exists>s'. install rt env s0 = Returns s'))"
    unfolding installer_main_install and_then_Returns by blast
  then show ?thesis
    unfolding install_Returns by simp
qed

lemma unsupported_platform_is_fatal:
  "os_platform env \<notin> {''win32'', ''darwin'', ''linux''} \<Longrightarrow>
   exit_code (installer_main rt env F) = Some 1"
  by (simp add: installer_main_install new_installer_cases)

lemma missing_runtime_ends_run:
  assumes "run env ''node --version'' = Finishes d (Inl m) effect"
  shows "exit_code (installer_main rt env F) = Some 1"
  using missing_runtime_is_fatal [OF assms, of rt]
  by (simp add: installer_main_install new_installer_cases)

lemma failed_build_ends_run:
  assumes checked: "dependencies_checked rt env F = Returns s2"
    and fails: "run env ''npm install'' = Finishes d1 (Inl m1) effect1
           \<or> run env ''npm install'' = Finishes d1 (Inr out) effect1
             \<and> run env ''npm run build'' = Finishes d2 (Inl m2) effect2"
  shows "exit_code (installer_main rt env F) = Some 1"
proof -
  from checked obtain s0 s1 where "new_installer rt env F = Returns s0"
    "loadConfig rt env (log ''Starting Notion MCP Server installation...'' Info s0) = Returns s1"
    "checkSystemDependencies env s1 = Returns s2"
    unfolding dependencies_checked_def and_then_Returns by blast
  moreover obtain s' where "buildProject rt env s2 = Exits 1 s'"
    using failed_build_is_fatal [OF fails] by blast
  ultimately show ?thesis
    by (simp add: installer_main_install install_def)
qed

lemma failed_build_never_succeeds:
  assumes fails: "run env ''npm install'' = Finishes d1 (Inl m1) effect1
           \<or> run env ''npm install'' = Finishes d1 (Inr out) effect1
             \<and> run env ''npm run build'' = Finishes d2 (Inl m2) effect2"
  shows "exit_code (installer_main rt env F) \<noteq> Some 0"
proof
  assume "exit_code (installer_main rt env F) = Some 0"
  then obtain s2 s3 where "buildProject rt env s2 = Returns s3"
    unfolding orderly_exit_zero [OF installer_main_orderly] installer_main_Returns by blast
  moreover obtain s' where "buildProject rt env s2 = Exits 1 s'"
    using failed_build_is_fatal [OF fails] by blast
  ultimately show False by simp
qed

lemma failed_write_ends_run:
  assumes tested: "smoke_tested rt env F = Returns s4"
    and locked: "\<not> writable (fs s4) (desktop_config_path rt s4)"
  shows "exit_code (installer_main rt env F) = Some 1"
proof -
  from tested obtain s0 s1 s2 s3 where steps: "new_installer rt env F = Returns s0"
    "loadConfig rt env (log ''Starting Notion MCP Server installation...'' Info s0) = Returns s1"
    "checkSystemDependencies env s1 = Returns s2"
    "buildProject rt env s2 = Returns s3"
    "testNotionMcpServer rt env s3 = Returns s4"
    unfolding smoke_tested_def dependencies_checked_def and_then_Returns by blast
  let ?x = "configureClaudeDesktop rt env
              (log ''Creating Claude Desktop and Claude Code CLI configuration...'' Info s4)"
  have "exit_code ?x = Some 1"
    by (rule unwritable_target_is_fatal) (use locked in simp)
  moreover have "exits_with_1 ?x"
    by (rule configureClaudeDesktop_exits)
  ultimately have "exit_code (try_catch (and_then (and_then ?x (configureClaudeCodeCLI rt env)) f)
                     (\<lambda>e s. error (''Installation failed: '' @ message e) s)) = Some 1" for f
    by (cases ?x) (simp_all add: error_def)
  then show ?thesis
    by (simp add: installer_main_install install_def steps createClaudeConfig_def)
qed

subsection \<open>The whole run of the verifier\<close>

lemma summary_orderly: "orderly (summary v)"
  by (simp add: summary_def Let_def)

lemma returns_or_hangs_orderly: "returns_or_hangs x \<Longrightarrow> orderly x"
  by (cases x) simp_all

lemma verify_orderly: "orderly (verify rt env v)"
  unfolding verify_def
  by (intro orderly_and_then returns_or_hangs_orderly
        verifier_checkSystemDependencies_returns_or_hangs verifier_checkProjectBuild_returns_or_hangs
        verifier_checkClaudeDesktopConfig_returns_or_hangs verifier_checkClaudeCodeCLI_returns_or_hangs
        summary_orderly)

lemma verifier_main_supported:
  "os_platform env \<in> {''win32'', ''darwin'', ''linux''} \<Longrightarrow>
   \<exists>v. new_verifier rt env F = Inr v \<and> verifier_main rt env F = Inr (verify rt env v)"
  by (auto simp add: verifier_main_def new_verifier_def getClaudeConfigDir_def
        orderly_try_catch [OF verify_orderly])

lemma verifier_main_unsupported:
  "os_platform env \<notin> {''win32'', ''darwin'', ''linux''} \<Longrightarrow>
   verifier_main rt env F = Inl (JsError (''Unsupported platform: '' @ os_platform env))"
  by (simp add: verifier_main_def new_verifier_def getClaudeConfigDir_def)

lemma verifier_main_exit:
  assumes "os_platform env \<in> {''win32'', ''darwin'', ''linux''}"
  shows "\<forall>c. run_exit_code (verifier_main rt env F) = Some c \<longrightarrow>
            (c \<noteq> 0) = (recorded_errors (verifier_main rt env F) \<noteq> [])"
proof -
  obtain v where "verifier_main rt env F = Inr (verify rt env v)"
    using verifier_main_supported [OF assms] by blast
  then show ?thesis
    using verify_exit [of rt env v] by simp
qed

subsection \<open>The sample machines\<close>

lemma trim_empty: "trim [] = []"
  by code_simp

lemma sample_constructors:
  "new_installer sample_runtime (sample_env time b) F = Returns ((sample_installer F)\<lparr>config := JNull\<rparr>)"
  "new_verifier sample_runtime (sample_env time b) F = Inr (sample_verifier F)"
  by (simp_all add: new_installer_def new_verifier_def getClaudeConfigDir_def sample_env_def
        sample_installer_def sample_verifier_def)

lemma sample_verifier_main:
  "verifier_main sample_runtime (sample_env time b) F
     = Inr (verify sample_runtime (sample_env time b) (sample_verifier F))"
  by (simp add: verifier_main_def sample_constructors orderly_try_catch [OF verify_orderly])

lemma sample_dependencies_checked:
  assumes "b ''node --version'' = Finishes 5 (Inr ''v20.11.0\<newline>'') (\<lambda>fsys. fsys)"
    and "b ''npm --version'' = Finishes 5 (Inr []) (\<lambda>fsys. fsys)"
    and "files F ''/opt/notion/scripts/install-config.json'' = None"
    and "''/opt/notion/scripts/install-config.json'' \<notin> dirs F"
  shows "returns (dependencies_checked sample_runtime (sample_env time b) F)
       \<and> fs (final (dependencies_checked sample_runtime (sample_env time b) F)) = F
       \<and> config (final (dependencies_checked sample_runtime (sample_env time b) F)) = default_config
       \<and> projectRoot (final (dependencies_checked sample_runtime (sample_env time b) F)) = ''/opt/notion''
       \<and> claudeConfigDir (final (dependencies_checked sample_runtime (sample_env time b) F))
           = ''/home/u/.config/claude''"
  unfolding dependencies_checked_def sample_constructors and_then.simps
  using assms
  by (simp add: loadConfig_def config_path_def checkSystemDependencies_def Let_def execSync_def
        sample_env_def existsSync_def sample_version_accepted trim_empty success_def
        sample_installer_def)

lemma sample_smoke_tested:
  assumes F: "F = built_fs\<lparr>write_fails := W\<rparr>"
  shows "returns (smoke_tested sample_runtime (sample_env time healthy) F)
   \<and> fs (final (smoke_tested sample_runtime (sample_env time healthy) F)) = F
   \<and> config (final (smoke_tested sample_runtime (sample_env time healthy) F)) = default_config
   \<and> projectRoot (final (smoke_tested sample_runtime (sample_env time healthy) F)) = ''/opt/notion''
   \<and> claudeConfigDir (final (smoke_tested sample_runtime (sample_env time healthy) F))
       = ''/home/u/.config/claude''"
proof -
  let ?x = "dependencies_checked sample_runtime (sample_env time healthy) F"
  have "returns ?x \<and> fs (final ?x) = F \<and> config (final ?x) = default_config
        \<and> projectRoot (final ?x) = ''/opt/notion'' \<and> claudeConfigDir (final ?x) = ''/home/u/.config/claude''"
    by (rule sample_dependencies_checked)
       (simp_all add: F healthy_def all_succeed_def help_command_def built_fs_def)
  then obtain s2 where s2: "?x = Returns s2" "fs s2 = F" "config s2 = default_config"
    "projectRoot s2 = ''/opt/notion''" "claudeConfigDir s2 = ''/home/u/.config/claude''"
    by (cases ?x) simp_all
  have verbose: "get_prop default_config ''verbose'' = Inr (Some (JBool False))"
    by (simp add: default_config_def)
  have there: "existsSync F ''/opt/notion/bin/cli.mjs''"
    by (simp add: F existsSync_def built_fs_def)
  show ?thesis
    unfolding smoke_tested_def s2(1)
    by (simp add: buildProject_def run_npm_def testNotionMcpServer_def Let_def execSync_def s2 verbose
          sample_env_def healthy_def all_succeed_def help_command_def quoted_def there success_def)
qed

lemma sample_createClaudeConfig:
  assumes "fs t = built_fs" "config t = default_config" "projectRoot t = ''/opt/notion''"
    "claudeConfigDir t = ''/home/u/.config/claude''"
  shows "returns (createClaudeConfig sample_runtime (sample_env time healthy) t)"
proof -
  let ?t1 = "log ''Creating Claude Desktop and Claude Code CLI configuration...'' Info t"
  have "\<exists>t2. configureClaudeDesktop sample_runtime (sample_env time healthy) ?t1 = Returns t2
          \<and> config t2 = default_config \<and> projectRoot t2 = ''/opt/notion''"
    by (simp add: configureClaudeDesktop_def ensure_config_dir_def write_desktop_config_def Let_def
          load_existing_config_def assms existsSync_def mkdirSync_def built_fs_def
          add_notion_entry_fresh writeFileSync_def success_def)
  then obtain t2 where t2: "configureClaudeDesktop sample_runtime (sample_env time healthy) ?t1 = Returns t2"
    "config t2 = default_config" "projectRoot t2 = ''/opt/notion''"
    by blast
  have verbose: "get_prop default_config ''verbose'' = Inr (Some (JBool False))"
    by (simp add: default_config_def)
  have "returns (configureClaudeCodeCLI sample_runtime (sample_env time healthy) t2)"
    by (simp add: configureClaudeCodeCLI_def remove_existing_def add_server_def Let_def execSync_def
          t2 verbose sample_env_def healthy_def all_succeed_def help_command_def quoted_def
          add_command_def manual_command_def remove_command_def success_def)
  then show ?thesis
    by (simp add: createClaudeConfig_def t2)
qed

text \<open>
  Claim C8 says that a run of the verifier exits with a code other than 0 if and only if
  at least one error was accumulated. On a platform that is none of \<^verbatim>\<open>win32\<close>, \<^verbatim>\<open>darwin\<close>
  and \<^verbatim>\<open>linux\<close> the constructor throws before any check runs: the process ends with
  exit code 1 and no error was recorded. And a run in which an error was recorded need
  not exit at all: here the runtime is missing, which is recorded, and
  \<^verbatim>\<open>claude --version\<close>, called without timeout, never finishes.
\<close>

theorem unsupported_platform_exits_without_error:
  "os_platform freebsd_env = ''freebsd''
   \<and> verifier_main sample_runtime freebsd_env empty_fs
       = Inl (JsError ''Unsupported platform: freebsd'')
   \<and> run_exit_code (verifier_main sample_runtime freebsd_env empty_fs) = Some 1
   \<and> recorded_errors (verifier_main sample_runtime freebsd_env empty_fs) = []
   \<and> run_exit_code (verifier_main sample_runtime (sample_env 1700000000000 no_node_stuck_claude)
                      empty_fs) = None
   \<and> recorded_errors (verifier_main sample_runtime (sample_env 1700000000000 no_node_stuck_claude)
                        empty_fs)
       = [''Node.js is not installed or not in PATH'',
          ''Node modules not found - run '' @ quoted ''npm install'']"
proof -
  have platform: "os_platform freebsd_env = ''freebsd''"
    by (simp add: freebsd_env_def sample_env_def)
  have crash: "verifier_main sample_runtime freebsd_env empty_fs
       = Inl (JsError ''Unsupported platform: freebsd'')"
    using verifier_main_unsupported [of freebsd_env sample_runtime empty_fs]
    by (simp add: platform)
  have stuck: "verify sample_runtime (sample_env 1700000000000 no_node_stuck_claude)
                 (sample_verifier empty_fs)
       = Hangs (final (verify sample_runtime (sample_env 1700000000000 no_node_stuck_claude)
                         (sample_verifier empty_fs)))
     \<and> errors (final (verify sample_runtime (sample_env 1700000000000 no_node_stuck_claude)
                        (sample_verifier empty_fs)))
       = [''Node.js is not installed or not in PATH'',
          ''Node modules not found - run '' @ quoted ''npm install'']"
    by (simp add: verify_def verifier_checkSystemDependencies_def verifier_checkProjectBuild_def
          verifier_checkClaudeDesktopConfig_def verifier_checkClaudeCodeCLI_def execSync_def Let_def
          no_node_stuck_claude_def no_node_def all_succeed_def sample_env_def sample_verifier_def
          empty_fs_def existsSync_def trim_empty)
  from stuck have "run_exit_code (verifier_main sample_runtime
                     (sample_env 1700000000000 no_node_stuck_claude) empty_fs) = None"
    unfolding sample_verifier_main
    by (cases "verify sample_runtime (sample_env 1700000000000 no_node_stuck_claude)
                 (sample_verifier empty_fs)") simp_all
  with stuck platform crash show ?thesis
    by (simp add: sample_verifier_main)
qed

text \<open>
  Claim C8, amended. A run of the installer ends with exit code 0 or 1, or never ends
  (while it waits for a child). The code is 0 exactly on full success: the platform is
  supported and all five steps return. It is 1 on a platform that is not supported,
  when the version query of the runtime fails, when the dependency check has returned
  and a build command fails (a failing build command never leaves exit code 0), and when
  the smoke test has returned and the desktop configuration file cannot be written. A
  run of the verifier on a supported platform that ends has an exit code other than 0
  if and only if at least one error was recorded; warnings play no part. On any other
  platform the verifier ends with exit code 1 and no error recorded.
\<close>

theorem exit_codes:
  "(exit_code (installer_main rt env F) = None \<or> exit_code (installer_main rt env F) = Some 0
      \<or> exit_code (installer_main rt env F) = Some 1)
   \<and> ((exit_code (installer_main rt env F) = Some 0) =
        (\<exists>s0 s1 s2 s3 s4 s5.
           new_installer rt env F = Returns s0
         \<and> loadConfig rt env (log ''Starting Notion MCP Server installation...'' Info s0) = Returns s1
         \<and> checkSystemDependencies env s1 = Returns s2
         \<and> buildProject rt env s2 = Returns s3
         \<and> testNotionMcpServer rt env s3 = Returns s4
         \<and> createClaudeConfig rt env s4 = Returns s5))
   \<and> (os_platform env \<notin> {''win32'', ''darwin'', ''linux''} \<longrightarrow>
         exit_code (installer_main rt env F) = Some 1)
   \<and> (run env ''node --version'' = Finishes d (Inl m) effect \<longrightarrow>
         exit_code (installer_main rt env F) = Some 1)
   \<and> (dependencies_checked rt env F = Returns checked
        \<and> (run env ''npm install'' = Finishes d1 (Inl m1) effect1
           \<or> run env ''npm install'' = Finishes d1 (Inr out) effect1
             \<and> run env ''npm run build'' = Finishes d2 (Inl m2) effect2) \<longrightarrow>
         exit_code (installer_main rt env F) = Some 1)
   \<and> (run env ''npm install'' = Finishes d1 (Inl m1) effect1
        \<or> run env ''npm install'' = Finishes d1 (Inr out) effect1
          \<and> run env ''npm run build'' = Finishes d2 (Inl m2) effect2 \<longrightarrow>
         exit_code (installer_main rt env F) \<noteq> Some 0)
   \<and> (smoke_tested rt env F = Returns tested
        \<and> \<not> writable (fs tested) (desktop_config_path rt tested) \<longrightarrow>
         exit_code (installer_main rt env F) = Some 1)
   \<and> (os_platform env \<in> {''win32'', ''darwin'', ''linux''} \<longrightarrow>
         (\<forall>c. run_exit_code (verifier_main rt env F) = Some c \<longrightarrow>
            (c \<noteq> 0) = (recorded_errors (verifier_main rt env F) \<noteq> [])))
   \<and> (os_platform env \<notin> {''win32'', ''darwin'', ''linux''} \<longrightarrow>
         run_exit_code (verifier_main rt env F) = Some 1
         \<and> recorded_errors (verifier_main rt env F) = [])"
proof (intro conjI impI)
  show "exit_code (installer_main rt env F) = None \<or> exit_code (installer_main rt env F) = Some 0
      \<or> exit_code (installer_main rt env F) = Some 1"
    by (rule orderly_exit_code [OF installer_main_orderly])
  show "(exit_code (installer_main rt env F) = Some 0) =
        (\<exists>s0 s1 s2 s3 s4 s5.
           new_installer rt env F = Returns s0
         \<and> loadConfig rt env (log ''Starting Notion MCP Server installation...'' Info s0) = Returns s1
         \<and> checkSystemDependencies env s1 = Returns s2
         \<and> buildProject rt env s2 = Returns s3
         \<and> testNotionMcpServer rt env s3 = Returns s4
         \<and> createClaudeConfig rt env s4 = Returns s5)"
    unfolding orderly_exit_zero [OF installer_main_orderly] by (rule installer_main_Returns)
  show "exit_code (installer_main rt env F) = Some 1"
    if "os_platform env \<notin> {''win32'', ''darwin'', ''linux''}"
    by (rule unsupported_platform_is_fatal [OF that])
  show "exit_code (installer_main rt env F) = Some 1"
    if "run env ''node --version'' = Finishes d (Inl m) effect"
    by (rule missing_runtime_ends_run [OF that])
  show "exit_code (installer_main rt env F) = Some 1"
    if "dependencies_checked rt env F = Returns checked
        \<and> (run env ''npm install'' = Finishes d1 (Inl m1) effect1
           \<or> run env ''npm install'' = Finishes d1 (Inr out) effect1
             \<and> run env ''npm run build'' = Finishes d2 (Inl m2) effect2)"
    using that failed_build_ends_run by blast
  show "exit_code (installer_main rt env F) \<noteq> Some 0"
    if "run env ''npm install'' = Finishes d1 (Inl m1) effect1
        \<or> run env ''npm install'' = Finishes d1 (Inr out) effect1
          \<and> run env ''npm run build'' = Finishes d2 (Inl m2) effect2"
    by (rule failed_build_never_succeeds [OF that])
  show "exit_code (installer_main rt env F) = Some 1"
    if "smoke_tested rt env F = Returns tested
        \<and> \<not> writable (fs tested) (desktop_config_path rt tested)"
    using that failed_write_ends_run by blast
  show "\<forall>c. run_exit_code (verifier_main rt env F) = Some c \<longrightarrow>
            (c \<noteq> 0) = (recorded_errors (verifier_main rt env F) \<noteq> [])"
    if "os_platform env \<in> {''win32'', ''darwin'', ''linux''}"
    by (rule verifier_main_exit [OF that])
  show "run_exit_code (verifier_main rt env F) = Some 1"
    "recorded_errors (verifier_main rt env F) = []"
    if "os_platform env \<notin> {''win32'', ''darwin'', ''linux''}"
    by (simp_all add: verifier_main_unsupported [OF that])
qed

lemma verify_on_broken_machine:
  "exit_code (verify sample_runtime (sample_env 1700000000000 nothing_works)
                (sample_verifier read_only_fs)) = Some 1"
  by (simp add: verify_def verifier_checkSystemDependencies_def verifier_checkProjectBuild_def
        verifier_checkClaudeDesktopConfig_def verifier_checkClaudeCodeCLI_def
        verifier_checkNotionIntegration_def summary_def execSync_def Let_def nothing_works_def
        sample_env_def sample_verifier_def read_only_fs_def existsSync_def verifier_error_def
        verifier_warning_def sample_config_path_def)

lemma verify_on_healthy_machine:
  "exit_code (verify sample_runtime (sample_env 1700000000000 healthy) (sample_verifier built_fs))
     = Some 0
   \<and> warnings (final (verify sample_runtime (sample_env 1700000000000 healthy)
                        (sample_verifier built_fs)))
     = [''Claude Desktop config file not found'',
        ''Notion MCP server not found in Claude Code CLI configuration'',
        ''NOTION_TOKEN not set in environment - will need to be configured in Claude configs'']"
  by (simp add: verify_def verifier_checkSystemDependencies_def verifier_checkProjectBuild_def
        verifier_checkClaudeDesktopConfig_def verifier_checkClaudeCodeCLI_def
        verifier_checkNotionIntegration_def summary_def execSync_def Let_def healthy_def
        all_succeed_def help_command_def quoted_def trim_empty
        sample_env_def sample_verifier_def built_fs_def existsSync_def verifier_error_def
        verifier_warning_def success_def sample_version_accepted)

theorem exit_codes_witness:
  "exit_code (installer_main sample_runtime (sample_env 1700000000000 nothing_works) read_only_fs)
     = Some 1
   \<and> exit_code (installer_main sample_runtime (sample_env 1700000000000 build_fails) built_fs) = Some 1
   \<and> exit_code (installer_main sample_runtime (sample_env 1700000000000 healthy) built_read_only_fs)
     = Some 1
   \<and> exit_code (installer_main sample_runtime freebsd_env built_fs) = Some 1
   \<and> exit_code (installer_main sample_runtime (sample_env 1700000000000 healthy) built_fs) = Some 0
   \<and> run_exit_code (verifier_main sample_runtime (sample_env 1700000000000 nothing_works) read_only_fs)
     = Some 1
   \<and> recorded_errors (verifier_main sample_runtime (sample_env 1700000000000 nothing_works)
                        read_only_fs) \<noteq> []
   \<and> run_exit_code (verifier_main sample_runtime (sample_env 1700000000000 healthy) built_fs) = Some 0
   \<and> recorded_errors (verifier_main sample_runtime (sample_env 1700000000000 healthy) built_fs) = []
   \<and> run_exit_code (verifier_main sample_runtime freebsd_env built_fs) = Some 1
   \<and> recorded_errors (verifier_main sample_runtime freebsd_env built_fs) = []"
proof -
  let ?broken = "sample_env 1700000000000 nothing_works"
  let ?nobuild = "sample_env 1700000000000 build_fails"
  let ?healthy = "sample_env 1700000000000 healthy"
  have node: "run ?broken ''node --version''
                = Finishes 5 (Inl ''Command failed: node --version'') (\<lambda>fsys. fsys)"
    by (simp add: sample_env_def nothing_works_def)
  have linux: "os_platform (sample_env 1700000000000 b) = ''linux''" for b
    by (simp add: sample_env_def)
  have freebsd: "os_platform freebsd_env = ''freebsd''"
    by (simp add: freebsd_env_def sample_env_def)
  have "returns (dependencies_checked sample_runtime ?nobuild built_fs)"
    using sample_dependencies_checked [of build_fails built_fs 1700000000000]
    by (simp add: build_fails_def healthy_def all_succeed_def help_command_def built_fs_def)
  then obtain checked where checked: "dependencies_checked sample_runtime ?nobuild built_fs = Returns checked"
    by (cases "dependencies_checked sample_runtime ?nobuild built_fs") simp_all
  have install: "run ?nobuild ''npm install'' = Finishes 5 (Inr []) (\<lambda>fsys. fsys)"
    and build: "run ?nobuild ''npm run build''
                  = Finishes 900 (Inl ''Command failed: npm run build'') (\<lambda>fsys. fsys)"
    by (simp_all add: sample_env_def build_fails_def healthy_def all_succeed_def help_command_def)
  obtain tested where tested: "smoke_tested sample_runtime ?healthy built_read_only_fs = Returns tested"
    and tested_fs: "fs tested = built_read_only_fs"
    and tested_dir: "claudeConfigDir tested = ''/home/u/.config/claude''"
    using sample_smoke_tested [of built_read_only_fs "{sample_config_path}" 1700000000000]
    by (cases "smoke_tested sample_runtime ?healthy built_read_only_fs")
       (simp_all add: built_read_only_fs_def)
  obtain ready where ready: "smoke_tested sample_runtime ?healthy built_fs = Returns ready"
    and ready_fields: "fs ready = built_fs" "config ready = default_config"
      "projectRoot ready = ''/opt/notion''" "claudeConfigDir ready = ''/home/u/.config/claude''"
    using sample_smoke_tested [of built_fs "{}" 1700000000000]
    by (cases "smoke_tested sample_runtime ?healthy built_fs") (simp_all add: built_fs_def)
  obtain finished where "createClaudeConfig sample_runtime ?healthy ready = Returns finished"
    using sample_createClaudeConfig [OF ready_fields, of 1700000000000]
    by (cases "createClaudeConfig sample_runtime ?healthy ready") simp_all
  with ready have all_steps: "\<exists>s0 s1 s2 s3 s4 s5.
       new_installer sample_runtime ?healthy built_fs = Returns s0
     \<and> loadConfig sample_runtime ?healthy
           (log ''Starting Notion MCP Server installation...'' Info s0) = Returns s1
     \<and> checkSystemDependencies ?healthy s1 = Returns s2
     \<and> buildProject sample_runtime ?healthy s2 = Returns s3
     \<and> testNotionMcpServer sample_runtime ?healthy s3 = Returns s4
     \<and> createClaudeConfig sample_runtime ?healthy s4 = Returns s5"
    unfolding smoke_tested_def dependencies_checked_def and_then_Returns by blast
  have locked: "\<not> writable (fs tested) (desktop_config_path sample_runtime tested)"
    by (simp add: tested_fs tested_dir desktop_config_path_def writable_def built_read_only_fs_def
          sample_config_path_def)
  show ?thesis
    using exit_codes [where rt = sample_runtime and env = ?broken and F = read_only_fs
        and d = 5 and m = "''Command failed: node --version''" and effect = "\<lambda>fsys. fsys"
        and checked = checked and tested = tested
        and ?d1.0 = 5 and ?m1.0 = "[]" and ?effect1.0 = "\<lambda>fsys. fsys"
        and ?d2.0 = 5 and ?m2.0 = "[]" and ?effect2.0 = "\<lambda>fsys. fsys" and out = "[]"]
      exit_codes [where rt = sample_runtime and env = ?nobuild and F = built_fs
        and d = 5 and m = "[]" and effect = "\<lambda>fsys. fsys"
        and checked = checked and tested = tested
        and ?d1.0 = 5 and ?m1.0 = "[]" and ?effect1.0 = "\<lambda>fsys. fsys" and out = "[]"
        and ?d2.0 = 900 and ?m2.0 = "''Command failed: npm run build''"
        and ?effect2.0 = "\<lambda>fsys. fsys"]
      exit_codes [where rt = sample_runtime and env = ?healthy and F = built_read_only_fs
        and d = 5 and m = "[]" and effect = "\<lambda>fsys. fsys"
        and checked = checked and tested = tested
        and ?d1.0 = 5 and ?m1.0 = "[]" and ?effect1.0 = "\<lambda>fsys. fsys"
        and ?d2.0 = 5 and ?m2.0 = "[]" and ?effect2.0 = "\<lambda>fsys. fsys" and out = "[]"]
      exit_codes [where rt = sample_runtime and env = ?healthy and F = built_fs
        and d = 5 and m = "[]" and effect = "\<lambda>fsys. fsys"
        and checked = checked and tested = tested
        and ?d1.0 = 5 and ?m1.0 = "[]" and ?effect1.0 = "\<lambda>fsys. fsys"
        and ?d2.0 = 5 and ?m2.0 = "[]" and ?effect2.0 = "\<lambda>fsys. fsys" and out = "[]"]
      exit_codes [where rt = sample_runtime and env = freebsd_env and F = built_fs
        and d = 5 and m = "[]" and effect = "\<lambda>fsys. fsys"
        and checked = checked and tested = tested
        and ?d1.0 = 5 and ?m1.0 = "[]" and ?effect1.0 = "\<lambda>fsys. fsys"
        and ?d2.0 = 5 and ?m2.0 = "[]" and ?effect2.0 = "\<lambda>fsys. fsys" and out = "[]"]
    unfolding node checked install build tested linux freebsd sample_verifier_main
    using locked all_steps verify_on_broken_machine verify_on_healthy_machine
    by simp
qed

end
